theory Spec2Isabelle
  imports Main "HOL-Library.Sublist"
begin

section \<open>The nomad driver: job templates, machine resolver, poller, Create and Destroy\<close>

text \<open>
  A shallow embedding of \<^verbatim>\<open>internal/drivers/nomad/driver.go\<close>. Go values are modelled as
  follows.
  \<^item> \<^verbatim>\<open>int\<close> is the 64-bit signed integer of the platforms the runner is built for: a HOL
    \<open>int\<close> with the two's complement wrap-around written out (\<open>wrap64\<close>) at every
    multiplication and subtraction of the source.
  \<^item> \<^verbatim>\<open>time.Duration\<close> is an \<open>int\<close> of nanoseconds.
  \<^item> a pointer that comes from the scheduler (a result of a call, a pointer field of an
    API struct, an entry of a slice of pointers) is an \<open>option\<close> (\<open>None\<close> is nil); the
    structs the driver builds itself, and the receiver, the options and the instances
    its operations are called with, are records. A slice is a list (nil and empty are
    both \<open>[]\<close>), an \<^verbatim>\<open>error\<close> is its message.
  \<^item> a function returning \<^verbatim>\<open>(value, error)\<close> returns the pair, the error an
    \<open>option\<close>; a run-time panic (nil dereference, index out of range) is the outcome
    \<open>Panic\<close>.
  \<^item> every call to the scheduler and every log line is an event appended to a trace that
    the functions pass along; the scheduler's answers come from an environment record.
\<close>

subsection \<open>Integers, durations and the package constants\<close>

type_synonym duration = int

definition wrap64 :: "int \<Rightarrow> int" where
  "wrap64 k = signed_take_bit 63 k"

definition Second :: duration where
  "Second = 1000000000"

definition Minute :: duration where
  "Minute = 60 * Second"

definition ignitePath :: string where
  "ignitePath = ''/usr/local/bin/ignite''"

definition clientDisconnectTimeout :: duration where
  "clientDisconnectTimeout = 4 * Minute"

definition destroyRetryAttempts :: int where
  "destroyRetryAttempts = 3"

definition resourceJobTimeout :: duration where
  "resourceJobTimeout = 3 * Minute"

definition initTimeout :: duration where
  "initTimeout = 5 * Minute"

definition destroyTimeout :: duration where
  "destroyTimeout = 10 * Minute"

definition minNomadCPUMhz :: int where
  "minNomadCPUMhz = 40"

definition minNomadMemoryMb :: int where
  "minNomadMemoryMb = 20"

definition machineFrequencyMhz :: int where
  "machineFrequencyMhz = 5100"

subsection \<open>Strings: \<^verbatim>\<open>strconv\<close>, \<^verbatim>\<open>fmt\<close>, \<^verbatim>\<open>strings\<close>, \<^verbatim>\<open>base64\<close>, \<^verbatim>\<open>net\<close>\<close>

definition is_digit :: "char \<Rightarrow> bool" where
  "is_digit c \<longleftrightarrow> c \<in> set ''0123456789''"

definition digit_val :: "char \<Rightarrow> nat" where
  "digit_val c = of_char c - 48"

definition decimal :: "string \<Rightarrow> nat" where
  "decimal ds = foldl (\<lambda>n c. 10 * n + digit_val c) 0 ds"

text \<open>
  \<^verbatim>\<open>strconv.Atoi\<close>: an optional sign, then one or more decimal digits and nothing else;
  a value outside the 64-bit range is an error too. \<open>None\<close> is the non-nil error.
\<close>

definition Atoi :: "string \<Rightarrow> int option" where
  "Atoi s =
     (let signed = (take 1 s = ''-'' \<or> take 1 s = ''+'');
          ds = (if signed then drop 1 s else s)
      in if ds = [] \<or> \<not> list_all is_digit ds then None
         else let n = int (decimal ds);
                  v = (if take 1 s = ''-'' then - n else n)
              in if v < - (2 ^ 63) \<or> 2 ^ 63 - 1 < v then None else Some v)"

fun nat_digits :: "nat \<Rightarrow> string" where
  "nat_digits n =
     (if n < 10 then [''0123456789'' ! n]
      else nat_digits (n div 10) @ [''0123456789'' ! (n mod 10)])"

text \<open>\<^verbatim>\<open>strconv.Itoa\<close>, also the verb \<^verbatim>\<open>%d\<close>.\<close>

definition Itoa :: "int \<Rightarrow> string" where
  "Itoa i = (if i < 0 then ''-'' @ nat_digits (nat (- i)) else nat_digits (nat i))"

definition pad6 :: "string \<Rightarrow> string" where
  "pad6 s = replicate (6 - length s) (CHR ''0'') @ s"

text \<open>
  The verb \<^verbatim>\<open>%f\<close> applied to \<^verbatim>\<open>Duration.Seconds()\<close>: six decimals. The model
  truncates to microseconds, which is what the source prints for a duration that is a
  whole number of seconds, as its only use (ten minutes) is.
\<close>

definition format_seconds :: "duration \<Rightarrow> string" where
  "format_seconds d =
     Itoa (d div Second) @ ''.'' @ pad6 (nat_digits (nat ((d mod Second) div 1000)))"

datatype fmt_arg = S string | D int | F duration

definition render :: "fmt_arg \<Rightarrow> string" where
  "render a = (case a of S s \<Rightarrow> s | D i \<Rightarrow> Itoa i | F d \<Rightarrow> format_seconds d)"

text \<open>
  \<^verbatim>\<open>fmt.Sprintf\<close> for the verbs the source uses (\<^verbatim>\<open>%s\<close>, \<^verbatim>\<open>%d\<close>, \<^verbatim>\<open>%f\<close> and
  \<^verbatim>\<open>%w\<close>), each applied to an operand of its own kind.
\<close>

fun Sprintf :: "string \<Rightarrow> fmt_arg list \<Rightarrow> string" where
  "Sprintf [] args = []"
| "Sprintf [c] args = [c]"
| "Sprintf (c # v # cs) args =
     (if c = CHR ''%'' then
        (case args of
           [] \<Rightarrow> ''%!'' @ [v] @ ''(MISSING)'' @ Sprintf cs []
         | a # as \<Rightarrow> render a @ Sprintf cs as)
      else c # Sprintf (v # cs) args)"

text \<open>\<^verbatim>\<open>strings.ToLower\<close> on the ASCII letters.\<close>

definition lower_char :: "char \<Rightarrow> char" where
  "lower_char c =
     (if (65::nat) \<le> of_char c \<and> of_char c \<le> (90::nat) then char_of (of_char c + (32::nat)) else c)"

definition ToLower :: "string \<Rightarrow> string" where
  "ToLower s = map lower_char s"

text \<open>\<^verbatim>\<open>base64.StdEncoding.EncodeToString\<close>.\<close>

definition b64 :: "nat \<Rightarrow> char" where
  "b64 i = ''ABCDEFGHIJKLMNOPQRSTUVWXYZabcdefghijklmnopqrstuvwxyz0123456789+/'' ! i"

fun encode_bytes :: "nat list \<Rightarrow> string" where
  "encode_bytes [] = []"
| "encode_bytes [a] = [b64 (a div 4), b64 ((a mod 4) * 16), CHR ''='', CHR ''='']"
| "encode_bytes [a, b] =
     [b64 (a div 4), b64 ((a mod 4) * 16 + b div 16), b64 ((b mod 16) * 4), CHR ''='']"
| "encode_bytes (a # b # c # rest) =
     [b64 (a div 4), b64 ((a mod 4) * 16 + b div 16), b64 ((b mod 16) * 4 + c div 64),
      b64 (c mod 64)] @ encode_bytes rest"

definition EncodeToString :: "string \<Rightarrow> string" where
  "EncodeToString s = encode_bytes (map of_char s)"

text \<open>\<^verbatim>\<open>strings.Split(s, ":")[0]\<close>: what stands before the first colon.\<close>

definition host_segment :: "string \<Rightarrow> string" where
  "host_segment s = takeWhile (\<lambda>c. c \<noteq> CHR '':'') s"

fun split_dots :: "string \<Rightarrow> string list" where
  "split_dots [] = [[]]"
| "split_dots (c # cs) =
     (if c = CHR ''.'' then [] # split_dots cs
      else (case split_dots cs of [] \<Rightarrow> [[c]] | w # ws \<Rightarrow> (c # w) # ws))"

definition octet :: "string \<Rightarrow> bool" where
  "octet w \<longleftrightarrow>
     w \<noteq> [] \<and> list_all is_digit w \<and> decimal w \<le> 255
     \<and> \<not> (1 < length w \<and> take 1 w = ''0'')"

text \<open>
  \<^verbatim>\<open>net.ParseIP(ip) != nil\<close>. A text with a colon is parsed as IPv6, which is not
  modelled: the driver only passes what stands before the first colon of the node's
  address, and there the answer is whether the text is a dotted quad of four decimal
  octets, none with a leading zero.
\<close>

definition ParseIP :: "string \<Rightarrow> bool" where
  "ParseIP s \<longleftrightarrow>
     CHR '':'' \<notin> set s \<and> length (split_dots s) = 4 \<and> list_all octet (split_dots s)"

subsection \<open>Job descriptions (\<^verbatim>\<open>api.Job\<close>)\<close>

record Port =
  Label :: string
  Value :: int

record NetworkResource =
  DynamicPorts :: "Port list"

record Resources =
  CPU :: "int option"
  MemoryMB :: "int option"
  Networks :: "NetworkResource option list"

record ReschedulePolicy =
  reschedule_Attempts :: "int option"
  Unlimited :: "bool option"

record RestartPolicy =
  restart_Attempts :: "int option"

record TaskLifecycle =
  Hook :: string
  Sidecar :: bool

datatype config_value = Str string | Args "string list"

record Task =
  task_Name :: string
  Driver :: string
  task_Resources :: "Resources option"
  Config :: "(string \<times> config_value) list"
  Lifecycle :: "TaskLifecycle option"

record Constraint =
  LTarget :: string
  RTarget :: string
  Operand :: string

record TaskGroup =
  group_Name :: "string option"
  Count :: "int option"
  group_Networks :: "NetworkResource list"
  StopAfterClientDisconnect :: "duration option"
  group_RestartPolicy :: "RestartPolicy option"
  Tasks :: "Task list"

record Job =
  job_ID :: "string option"
  job_Name :: "string option"
  Type :: "string option"
  Datacenters :: "string list"
  Constraints :: "Constraint list"
  Reschedule :: "ReschedulePolicy option"
  TaskGroups :: "TaskGroup list"
  Status :: "string option"

subsection \<open>Job identifiers and templates\<close>

definition destroyJobID :: "string \<Rightarrow> string" where
  "destroyJobID s = Sprintf ''destroy_job_%s'' [S s]"

definition initJobID :: "string \<Rightarrow> string" where
  "initJobID s = Sprintf ''init_job_%s'' [S s]"

definition resourceJobID :: "string \<Rightarrow> string" where
  "resourceJobID s = Sprintf ''init_job_resources_%s'' [S s]"

definition minNomadResources :: Resources where
  "minNomadResources =
     \<lparr>CPU = Some minNomadCPUMhz, MemoryMB = Some minNomadMemoryMb, Networks = []\<rparr>"

text \<open>
  Modelled from the spec: \<^verbatim>\<open>convertGigsToMegs\<close> is defined in a file of the package that
  is not among the sources. The spec gives the reservation's memory as
  \<^verbatim>\<open>vm_memory_gb * 1024 - 53\<close>, so the helper multiplies by 1024 (on Go's \<^verbatim>\<open>int\<close>).
\<close>

definition convertGigsToMegs :: "int \<Rightarrow> int" where
  "convertGigsToMegs p = wrap64 (p * 1024)"

definition script_lines :: "string list" where
  "script_lines =
     [''#!/usr/bin/bash'',
      ''echo '' @ [CHR 0x22] @ ''sleeping...'' @ [CHR 0x22],
      ''sleep %f'',
      ''echo '' @ [CHR 0x22] @ ''done sleeping'' @ [CHR 0x22],
      ''while true'',
      ''do'',
      ''nc -vz localhost %s'',
      ''if [ $? -eq 1 ]'',
      ''then'',
      ''    echo '' @ [CHR 0x22] @ ''The port check failed'' @ [CHR 0x22],
      [CHR 0x09] @ ''exit 1'',
      ''fi'',
      ''echo '' @ [CHR 0x22] @ ''Port check passed...'' @ [CHR 0x22],
      ''sleep 30'',
      ''done'']"

text \<open>The format of the source is a raw string: a newline stands before each line.\<close>

definition generateHealthCheckScript :: "duration \<Rightarrow> string \<Rightarrow> string" where
  "generateHealthCheckScript sleep port =
     Sprintf (concat (map (\<lambda>l. CHR 0x0A # l) script_lines)) [F sleep, S port]"

definition su_config :: "string \<Rightarrow> (string \<times> config_value) list" where
  "su_config cmd = [(''command'', Str ''/usr/bin/su''), (''args'', Args [''-c'', cmd])]"

definition resourceJob :: "int \<Rightarrow> int \<Rightarrow> string \<Rightarrow> Job \<times> string" where
  "resourceJob cpus memGB vm =
     (let id' = resourceJobID vm;
          portLabel = vm;
          sleepTime = resourceJobTimeout + initTimeout + 2 * Minute;
          cpu = wrap64 (wrap64 (machineFrequencyMhz * cpus) - 109);
          mem = wrap64 (convertGigsToMegs memGB - 53);
          job =
            \<lparr>job_ID = Some id',
             job_Name = Some id',
             Type = Some ''batch'',
             Datacenters = [''dc1''],
             Constraints = [],
             Reschedule = Some \<lparr>reschedule_Attempts = Some 0, Unlimited = Some False\<rparr>,
             TaskGroups =
               [\<lparr>group_Name = Some (Sprintf ''init_task_group_resource_%s'' [S vm]),
                 Count = Some 1,
                 group_Networks = [\<lparr>DynamicPorts = [\<lparr>Label = portLabel, Value = 0\<rparr>]\<rparr>],
                 StopAfterClientDisconnect = Some clientDisconnectTimeout,
                 group_RestartPolicy = Some \<lparr>restart_Attempts = Some 0\<rparr>,
                 Tasks =
                   [\<lparr>task_Name = ''sleep_and_ping'',
                     Driver = ''raw_exec'',
                     task_Resources = Some \<lparr>CPU = Some cpu, MemoryMB = Some mem, Networks = []\<rparr>,
                     Config =
                       su_config
                         (generateHealthCheckScript sleepTime
                            (Sprintf ''$NOMAD_PORT_%s'' [S portLabel])),
                     Lifecycle = None\<rparr>]\<rparr>],
             Status = None\<rparr>
      in (job, id'))"

text \<open>
  \<^verbatim>\<open>initJob\<close>. \<^verbatim>\<open>lehelper.LiteEnginePort\<close> is a constant of a package that is not among
  the sources: it is the parameter \<open>liteEnginePort\<close>. The receiver's fields that the
  template reads (image, cpus, memory, disk size) are parameters as well.
\<close>

definition initJob ::
  "int \<Rightarrow> string \<Rightarrow> string \<Rightarrow> string \<Rightarrow> string \<Rightarrow> string \<Rightarrow> string \<Rightarrow> int \<Rightarrow> string
     \<Rightarrow> Job \<times> string \<times> string" where
  "initJob liteEnginePort img cpus_s memGB_s diskSize vm startupScript hostPort nodeID =
     (let id' = initJobID vm;
          group = Sprintf ''init_task_group_%s'' [S vm];
          encodedStartupScript = EncodeToString startupScript;
          hostPath = Sprintf ''/usr/local/bin/%s.sh'' [S vm];
          vmPath = Sprintf ''/usr/bin/%s.sh'' [S vm];
          runCmd =
            Sprintf
              (''%s run %s --name %s --cpus %s --memory %sGB --size %s --ssh --runtime=docker ''
                 @ ''--ports %d:%s --copy-files %s:%s'')
              [S ignitePath, S img, S vm, S cpus_s, S memGB_s, S diskSize, D hostPort,
               S (Itoa liteEnginePort), S hostPath, S vmPath];
          job =
            \<lparr>job_ID = Some id',
             job_Name = Some vm,
             Type = Some ''batch'',
             Datacenters = [''dc1''],
             Constraints =
               [\<lparr>LTarget = ''${node.unique.id}'', RTarget = nodeID, Operand = ''=''\<rparr>],
             Reschedule = Some \<lparr>reschedule_Attempts = Some 0, Unlimited = Some False\<rparr>,
             TaskGroups =
               [\<lparr>group_Name = Some group,
                 Count = Some 1,
                 group_Networks = [],
                 StopAfterClientDisconnect = Some clientDisconnectTimeout,
                 group_RestartPolicy = Some \<lparr>restart_Attempts = Some 0\<rparr>,
                 Tasks =
                   [\<lparr>task_Name = ''create_startup_script_on_host'',
                     Driver = ''raw_exec'',
                     task_Resources = Some minNomadResources,
                     Config =
                       su_config (Sprintf ''echo %s >> %s'' [S encodedStartupScript, S hostPath]),
                     Lifecycle = Some \<lparr>Hook = ''prestart'', Sidecar = False\<rparr>\<rparr>,
                    \<lparr>task_Name = ''ignite_run'',
                     Driver = ''raw_exec'',
                     task_Resources = Some minNomadResources,
                     Config = su_config runCmd,
                     Lifecycle = None\<rparr>,
                    \<lparr>task_Name = ''ignite_exec'',
                     Driver = ''raw_exec'',
                     task_Resources = Some minNomadResources,
                     Config =
                       su_config
                         (Sprintf (''%s exec %s '' @ [CHR 0x27] @ ''cat %s | base64 --decode | bash''
                                     @ [CHR 0x27])
                            [S ignitePath, S vm, S vmPath]),
                     Lifecycle = Some \<lparr>Hook = ''poststop'', Sidecar = False\<rparr>\<rparr>,
                    \<lparr>task_Name = ''cleanup_startup_script_from_host'',
                     Driver = ''raw_exec'',
                     task_Resources = Some minNomadResources,
                     Config = su_config (Sprintf ''rm %s'' [S hostPath]),
                     Lifecycle = Some \<lparr>Hook = ''poststop'', Sidecar = False\<rparr>\<rparr>]\<rparr>],
             Status = None\<rparr>
      in (job, id', group))"

text \<open>
  \<^verbatim>\<open>destroyJob\<close>. The job's name is \<^verbatim>\<open>random(20)\<close>, a helper that is not among the
  sources: the value it returned is the parameter \<open>name\<close>. The template sets no
  \<^verbatim>\<open>Reschedule\<close> field.
\<close>

definition destroyJob :: "string \<Rightarrow> string \<Rightarrow> string \<Rightarrow> Job \<times> string" where
  "destroyJob name vm nodeID =
     (let id' = destroyJobID vm;
          constraint = \<lparr>LTarget = ''${node.unique.id}'', RTarget = nodeID, Operand = ''=''\<rparr>;
          job =
            \<lparr>job_ID = Some id',
             job_Name = Some name,
             Type = Some ''batch'',
             Datacenters = [''dc1''],
             Constraints = [constraint],
             Reschedule = None,
             TaskGroups =
               [\<lparr>group_Name = Some (Sprintf ''delete_task_group_%s'' [S vm]),
                 Count = Some 1,
                 group_Networks = [],
                 StopAfterClientDisconnect = Some clientDisconnectTimeout,
                 group_RestartPolicy = Some \<lparr>restart_Attempts = Some destroyRetryAttempts\<rparr>,
                 Tasks =
                   [\<lparr>task_Name = ''ignite_stop_and_rm'',
                     Driver = ''raw_exec'',
                     task_Resources = Some minNomadResources,
                     Config =
                       su_config
                         (Sprintf ''%s stop %s && %s rm %s''
                            [S ignitePath, S vm, S ignitePath, S vm]),
                     Lifecycle = None\<rparr>]\<rparr>],
             Status = None\<rparr>
      in (job, id'))"

subsection \<open>The scheduler, the trace and what the package takes from elsewhere\<close>

text \<open>
  Modelled from the spec: the type \<^verbatim>\<open>JobStatus\<close>, its constants and the conversion
  \<^verbatim>\<open>Status\<close> are declared in a file of the package that is not among the sources. The
  spec calls it a closed enumeration mirroring the scheduler's vocabulary; the
  conversion is the parameter \<open>Status_of\<close> below.
\<close>

datatype JobStatus = Pending | Running | Dead | Other string

datatype level = TraceLevel | DebugLevel | InfoLevel | ErrorLevel

datatype field_value = FStr string | FBool bool | FInt int | FErr string | FStatus JobStatus

text \<open>A logger is the list of the fields it carries (\<^verbatim>\<open>WithField\<close>, \<^verbatim>\<open>WithError\<close>).\<close>

type_synonym logger = "(string \<times> field_value) list"

datatype Context = Background | WithLogger logger

definition FromContext :: "Context \<Rightarrow> logger" where
  "FromContext ctx = (case ctx of Background \<Rightarrow> [] | WithLogger l \<Rightarrow> l)"

datatype mode = Inline | Detached

datatype rpc =
    JobsRegister Job
  | JobsDeregister string bool
  | JobsInfo string duration nat
  | JobsSummary string
  | JobsAllocations string
  | AllocationsInfo string
  | NodesInfo string

datatype event = Rpc mode rpc | Log level logger string

datatype 'a outcome = Return 'a | Panic string

datatype info_response = InfoError string | InfoNil | InfoJob Job "nat option"

record AllocationListStub =
  stub_ID :: string
  stub_NodeID :: string

record Allocation =
  alloc_Resources :: "Resources option"

record Node =
  HTTPAddr :: string

record TaskGroupSummary =
  Failed :: int

record JobSummary =
  Summary :: "(string \<rightharpoonup> TaskGroupSummary) option"

text \<open>
  The scheduler's client (\<^verbatim>\<open>api.Client\<close>). Each answer may depend on everything that was
  called and logged before (the trace). A call answers with an error (\<open>Inl\<close>, the results
  then nil) or with its result. Whatever the client hands back as a pointer may be nil
  and is an option here: the job (\<open>InfoNil\<close>) and its \<^verbatim>\<open>Status\<close>, the query's
  \<^verbatim>\<open>QueryMeta\<close>, the summary, each entry of the allocation list (\<^verbatim>\<open>[]*AllocationListStub\<close>),
  the allocation detail, its \<^verbatim>\<open>Resources\<close>, each entry of
  \<^verbatim>\<open>Networks\<close> (\<^verbatim>\<open>[]*NetworkResource\<close>) and the node. \<open>Jobs_Info\<close> gives, for one poll of
  a job under a context and a timeout, the answers to the successive blocking queries
  that return before the context is done or the timeout fires; \<open>InfoJob j (Some k)\<close> is the
  job with a query meta whose \<^verbatim>\<open>LastIndex\<close> is \<open>k\<close>.
\<close>

record scheduler =
  Jobs_Register :: "event list \<Rightarrow> Job \<Rightarrow> string option"
  Jobs_Deregister :: "event list \<Rightarrow> string \<Rightarrow> bool \<Rightarrow> string option"
  Jobs_Info :: "event list \<Rightarrow> Context \<Rightarrow> duration \<Rightarrow> string \<Rightarrow> info_response list"
  Jobs_Summary :: "event list \<Rightarrow> string \<Rightarrow> string + JobSummary option"
  Jobs_Allocations :: "event list \<Rightarrow> string \<Rightarrow> string + AllocationListStub option list"
  Allocations_Info :: "event list \<Rightarrow> string \<Rightarrow> string + Allocation option"
  Nodes_Info :: "event list \<Rightarrow> string \<Rightarrow> string + Node option"

record config =
  address :: string
  vmImage :: string
  vmMemoryGB :: string
  vmCpus :: string
  vmDiskSize :: string
  caCertPath :: string
  clientCertPath :: string
  clientKeyPath :: string
  insecure :: bool
  noop :: bool
  client :: scheduler

record Platform =
  OS :: string
  Arch :: string

record InstanceCreateOpts =
  opts_Platform :: Platform
  opts_CACert :: string
  opts_CAKey :: string
  opts_TLSCert :: string
  opts_TLSKey :: string
  PoolName :: string
  LiteEnginePath :: string
  HarnessTestBinaryURI :: string
  PluginBinaryURI :: string

record Params =
  params_Platform :: Platform
  params_CACert :: string
  params_TLSCert :: string
  params_TLSKey :: string
  params_LiteEnginePath :: string
  params_HarnessTestBinaryURI :: string
  params_PluginBinaryURI :: string

datatype InstanceState = StateCreated

datatype DriverType = Nomad

record Instance =
  inst_ID :: string
  inst_NodeID :: string
  inst_Name :: string
  inst_Platform :: Platform
  inst_State :: InstanceState
  inst_CACert :: string
  inst_CAKey :: string
  inst_TLSCert :: string
  inst_TLSKey :: string
  inst_Provider :: DriverType
  inst_Pool :: string
  inst_Started :: int
  inst_Updated :: int
  inst_Port :: int
  inst_Address :: string

text \<open>
  What the driver calls and that is not among the sources: the status conversion, the
  random identifier (\<^verbatim>\<open>random(n)\<close>, which may answer differently as the trace grows),
  \<^verbatim>\<open>cloudinit.LinuxBash\<close>, the lite engine's port, the three no-op templates and the
  clock (\<^verbatim>\<open>time.Now().Unix()\<close>, the second argument numbering the reads).
\<close>

record package =
  Status_of :: "string \<Rightarrow> JobStatus"
  random :: "event list \<Rightarrow> nat \<Rightarrow> string"
  LinuxBash :: "Params \<Rightarrow> string"
  LiteEnginePort :: int
  resourceJobNoop :: "config \<Rightarrow> int \<Rightarrow> int \<Rightarrow> string \<Rightarrow> Job \<times> string"
  initJobNoop :: "config \<Rightarrow> string \<Rightarrow> string \<Rightarrow> int \<Rightarrow> string \<Rightarrow> Job \<times> string \<times> string"
  destroyJobNoop :: "config \<Rightarrow> string \<Rightarrow> string \<Rightarrow> Job \<times> string"
  Now_Unix :: "event list \<Rightarrow> nat \<Rightarrow> int"

text \<open>The scheduler calls of a trace, the log lines left out.\<close>

fun rpcs :: "event list \<Rightarrow> (mode \<times> rpc) list" where
  "rpcs [] = []"
| "rpcs (Rpc m r # es) = (m, r) # rpcs es"
| "rpcs (Log l f s # es) = rpcs es"

text \<open>The deregistrations of a trace: the job and the purge flag each was sent with.\<close>

fun deregistrations :: "event list \<Rightarrow> (mode \<times> string \<times> bool) list" where
  "deregistrations [] = []"
| "deregistrations (Rpc m (JobsDeregister id' purge) # es) = (m, id', purge) # deregistrations es"
| "deregistrations (e # es) = deregistrations es"

text \<open>The events of a goroutine started with \<^verbatim>\<open>go\<close>: its calls are detached.\<close>

fun detached :: "event list \<Rightarrow> event list" where
  "detached [] = []"
| "detached (Rpc m r # es) = Rpc Detached r # detached es"
| "detached (Log l f s # es) = Log l f s # detached es"

subsection \<open>\<^verbatim>\<open>deregisterJob\<close> and \<^verbatim>\<open>pollForJob\<close>\<close>

definition deregisterJob ::
  "config \<Rightarrow> event list \<Rightarrow> logger \<Rightarrow> string \<Rightarrow> bool \<Rightarrow> event list \<times> string option" where
  "deregisterJob p tr logr id' purge =
     (let fields = logr @ [(''job_id'', FStr id'), (''purge'', FBool purge)];
          tr1 = tr @ [Log TraceLevel fields ''scheduler: trying to deregister job''];
          err = Jobs_Deregister (client p) tr1 id' True;
          tr2 = tr1 @ [Rpc Inline (JobsDeregister id' True)]
      in case err of
           Some e \<Rightarrow>
             (tr2 @ [Log ErrorLevel (fields @ [(''error'', FErr e)])
                       ''scheduler: could not deregister job''],
              Some e)
         | None \<Rightarrow>
             (tr2 @ [Log InfoLevel fields ''scheduler: successfully deregistered job''], None))"

text \<open>The messages of the two run-time panics the driver can raise.\<close>

definition nil_dereference :: string where
  "nil_dereference = ''runtime error: invalid memory address or nil pointer dereference''"

definition index_out_of_range :: string where
  "index_out_of_range = ''runtime error: index out of range [0] with length 0''"

text \<open>
  The loop of \<^verbatim>\<open>pollForJob\<close>, over the answers that arrive before the context is done
  or the timeout fires: when they are used up the \<^verbatim>\<open>select\<close> takes one of its first
  two cases and leaves the loop. The arguments \<open>job\<close> and \<open>waitIndex\<close> are the
  variables of the source; the assignment from \<^verbatim>\<open>Info\<close> overwrites \<open>job\<close> also when the
  call fails. The source reads \<^verbatim>\<open>qm.LastIndex\<close> and then \<^verbatim>\<open>*job.Status\<close> without a test:
  a nil query meta and a nil status panic. The result is the trace, \<open>job\<close> and
  \<open>terminal\<close>.
\<close>

fun pollLoop ::
  "package \<Rightarrow> logger \<Rightarrow> string \<Rightarrow> JobStatus list \<Rightarrow> info_response list \<Rightarrow> event list
     \<Rightarrow> Job option \<Rightarrow> nat \<Rightarrow> event list \<times> (Job option \<times> bool) outcome" where
  "pollLoop d logr id' terminalStates [] tr job waitIndex = (tr, Return (job, False))"
| "pollLoop d logr id' terminalStates (r # rs) tr job waitIndex =
     (let tr1 = tr @ [Rpc Inline (JobsInfo id' (15 * Second) waitIndex)]
      in case r of
           InfoError err \<Rightarrow>
             pollLoop d logr id' terminalStates rs
               (tr1 @ [Log ErrorLevel (logr @ [(''error'', FErr err), (''job_id'', FStr id')])
                         ''could not retrieve job information''])
               None waitIndex
         | InfoNil \<Rightarrow> pollLoop d logr id' terminalStates rs tr1 None waitIndex
         | InfoJob j qm \<Rightarrow>
             (case qm of
                None \<Rightarrow> (tr1, Panic nil_dereference)
              | Some lastIndex \<Rightarrow>
                 (case Status j of
                    None \<Rightarrow> (tr1, Panic nil_dereference)
                  | Some s \<Rightarrow>
                      let status = Status_of d s
                      in if status \<in> set terminalStates then
                           (tr1 @ [Log TraceLevel
                                     (logr @ [(''job_id'', FStr id'), (''status'', FStatus status)])
                                     ''scheduler: job reached a terminal state''],
                            Return (Some j, True))
                         else pollLoop d logr id' terminalStates rs tr1 (Some j) lastIndex)))"

definition pollForJob ::
  "package \<Rightarrow> config \<Rightarrow> event list \<Rightarrow> Context \<Rightarrow> string \<Rightarrow> logger \<Rightarrow> duration \<Rightarrow> bool
     \<Rightarrow> JobStatus list \<Rightarrow> event list \<times> (Job option \<times> string option) outcome" where
  "pollForJob d p tr ctx id' logr timeout remove terminalStates =
     (case pollLoop d logr id' (terminalStates @ [Dead])
             (Jobs_Info (client p) tr ctx timeout id') tr None 0 of
        (tr1, Panic m) \<Rightarrow> (tr1, Panic m)
      | (tr1, Return (job, terminal)) \<Rightarrow>
          (case job of
             None \<Rightarrow>
               (tr1 @ [Log ErrorLevel (logr @ [(''job_id'', FStr id')]) ''could not poll for job''],
                Return (None, Some ''could not poll for job''))
           | Some j \<Rightarrow>
               if terminal then (tr1, Return (job, None))
               else
                 (if remove then
                    tr1 @ detached (drop (length tr1) (fst (deregisterJob p tr1 logr id' True)))
                  else tr1,
                  Return (job, Some ''scheduler: job never reached terminal state''))))"

subsection \<open>\<^verbatim>\<open>fetchMachine\<close> and \<^verbatim>\<open>checkTaskGroupStatus\<close>\<close>

text \<open>
  The result is \<^verbatim>\<open>(ip, nodeID, port, err)\<close>, the named results of the source with the
  values they hold at each \<^verbatim>\<open>return\<close>. The source reads \<^verbatim>\<open>l[0].NodeID\<close>,
  \<^verbatim>\<open>alloc.Resources.Networks\<close>, \<^verbatim>\<open>alloc.Resources.Networks[0].DynamicPorts[0]\<close> and
  \<^verbatim>\<open>n.HTTPAddr\<close> after testing only the errors, that the list is not empty and that the
  networks are not empty: a nil first entry of the list, a nil detail, a nil
  \<^verbatim>\<open>Resources\<close>, a nil first network, an empty \<^verbatim>\<open>DynamicPorts\<close> and a nil node panic.
\<close>

definition fetchMachine ::
  "config \<Rightarrow> event list \<Rightarrow> logger \<Rightarrow> string
     \<Rightarrow> event list \<times> (string \<times> string \<times> int \<times> string option) outcome" where
  "fetchMachine p tr logr id' =
     (let tr1 = tr @ [Rpc Inline (JobsAllocations id')]
      in case Jobs_Allocations (client p) tr id' of
           Inl err \<Rightarrow> (tr1, Return ([], [], 0, Some err))
         | Inr l \<Rightarrow>
            (case l of
               [] \<Rightarrow> (tr1, Return ([], [], 0, Some ''scheduler: no allocation found for the job''))
             | None # _ \<Rightarrow> (tr1, Panic nil_dereference)
             | Some a # _ \<Rightarrow>
                let nodeID = stub_NodeID a;
                    allocID = stub_ID a
                in if nodeID = [] \<or> allocID = [] then
                     (tr1, Return ([], nodeID, 0,
                        Some ''scheduler: could not find an allocation identifier for the job''))
                   else
                     let tr2 = tr1 @ [Rpc Inline (AllocationsInfo allocID)]
                     in case Allocations_Info (client p) tr1 allocID of
                          Inl err \<Rightarrow> (tr2, Return ([], nodeID, 0, Some err))
                        | Inr None \<Rightarrow> (tr2, Panic nil_dereference)
                        | Inr (Some alloc) \<Rightarrow>
                           (case alloc_Resources alloc of
                              None \<Rightarrow> (tr2, Panic nil_dereference)
                            | Some res \<Rightarrow>
                               (case Networks res of
                                  [] \<Rightarrow>
                                    let err = ''scheduler: could not allocate network and ports for job''
                                    in (tr2 @ [Log ErrorLevel logr err],
                                        Return ([], nodeID, 0, Some err))
                                | None # _ \<Rightarrow> (tr2, Panic nil_dereference)
                                | Some net # _ \<Rightarrow>
                                   (case DynamicPorts net of
                                      [] \<Rightarrow> (tr2, Panic index_out_of_range)
                                    | dp # _ \<Rightarrow>
                                       let port = Value dp
                                       in if port \<le> 0 \<or> port > 65535 then
                                            let err =
                                              Sprintf ''scheduler: port %d generated is not a valid port''
                                                [D port]
                                            in (tr2 @ [Log ErrorLevel logr err],
                                                Return ([], nodeID, port, Some err))
                                          else
                                            let tr3 = tr2 @ [Rpc Inline (NodesInfo nodeID)]
                                            in case Nodes_Info (client p) tr2 nodeID of
                                                 Inl err \<Rightarrow>
                                                   (tr3 @ [Log ErrorLevel
                                                             (logr @ [(''error'', FErr err)])
                                                             (''scheduler: could not get information about ''
                                                                @ ''the node which picked up the resource job'')],
                                                    Return ([], nodeID, port, Some err))
                                               | Inr None \<Rightarrow> (tr3, Panic nil_dereference)
                                               | Inr (Some n) \<Rightarrow>
                                                  let ip = host_segment (HTTPAddr n)
                                                  in if \<not> ParseIP ip then
                                                       let err =
                                                         Sprintf ''scheduler: could not parse client machine IP: %s''
                                                           [S ip]
                                                       in (tr3 @ [Log ErrorLevel logr err],
                                                           Return (ip, nodeID, port, Some err))
                                                     else (tr3, Return (ip, nodeID, port, None)))))))"

definition checkTaskGroupStatus ::
  "config \<Rightarrow> event list \<Rightarrow> string \<Rightarrow> string \<Rightarrow> event list \<times> string option" where
  "checkTaskGroupStatus p tr jobID taskGroup =
     (let tr1 = tr @ [Rpc Inline (JobsSummary jobID)]
      in case Jobs_Summary (client p) tr jobID of
           Inl err \<Rightarrow> (tr1, Some ''could not get summary of the job'')
         | Inr None \<Rightarrow> (tr1, Some ''could not get summary of the job'')
         | Inr (Some summary) \<Rightarrow>
            (case Summary summary of
               None \<Rightarrow> (tr1, Some ''could not get summary of the job'')
             | Some m \<Rightarrow>
                (case m taskGroup of
                   None \<Rightarrow> (tr1, Some ''could not get summary of the task group'')
                 | Some g \<Rightarrow>
                    if Failed g > 0 then (tr1, Some ''found failed tasks'') else (tr1, None))))"

definition generateStartupScript :: "package \<Rightarrow> InstanceCreateOpts \<Rightarrow> string" where
  "generateStartupScript d opts =
     LinuxBash d
       \<lparr>params_Platform = opts_Platform opts,
        params_CACert = opts_CACert opts,
        params_TLSCert = opts_TLSCert opts,
        params_TLSKey = opts_TLSKey opts,
        params_LiteEnginePath = LiteEnginePath opts,
        params_HarnessTestBinaryURI = HarnessTestBinaryURI opts,
        params_PluginBinaryURI = PluginBinaryURI opts\<rparr>"

subsection \<open>\<^verbatim>\<open>Destroy\<close>\<close>

text \<open>The result is the error \<^verbatim>\<open>Destroy\<close> returns (\<open>None\<close> is nil).\<close>

fun Destroy ::
  "package \<Rightarrow> config \<Rightarrow> event list \<Rightarrow> Context \<Rightarrow> Instance list
     \<Rightarrow> event list \<times> string option outcome" where
  "Destroy d p tr ctx [] = (tr, Return None)"
| "Destroy d p tr ctx (inst # rest) =
     (let (job, jobID) =
            (if noop p then destroyJobNoop d p (inst_ID inst) (inst_NodeID inst)
             else destroyJob (random d tr 20) (inst_ID inst) (inst_NodeID inst));
          resourceJobID' = resourceJobID (inst_ID inst);
          logr = FromContext ctx
                   @ [(''instance_id'', FStr (inst_ID inst)),
                      (''instance_node_id'', FStr (inst_NodeID inst)),
                      (''job_id'', FStr jobID),
                      (''resource_job_id'', FStr resourceJobID')];
          tr1 = tr @ [Log DebugLevel logr ''scheduler: freeing up resources ... ''];
          (tr2, err) = deregisterJob p tr1 logr resourceJobID' True;
          tr3 = tr2 @ [case err of
                         None \<Rightarrow> Log DebugLevel logr ''scheduler: freed up resources''
                       | Some e \<Rightarrow>
                           Log ErrorLevel (logr @ [(''error'', FErr e)])
                             ''scheduler: could not free up resources''];
          tr4 = tr3 @ [Log InfoLevel logr ''scheduler: freed up resources, submitting destroy job''];
          tr5 = tr4 @ [Rpc Inline (JobsRegister job)]
      in case Jobs_Register (client p) tr4 job of
           Some e \<Rightarrow>
             (tr5 @ [Log ErrorLevel (logr @ [(''error'', FErr e)])
                       ''scheduler: could not register destroy job''],
              Return (Some e))
         | None \<Rightarrow>
            (case pollForJob d p
                    (tr5 @ [Log DebugLevel logr ''scheduler: started polling for destroy job''])
                    ctx jobID logr destroyTimeout False [Dead] of
               (tr6, Panic m) \<Rightarrow> (tr6, Panic m)
             | (tr6, Return (_, Some e)) \<Rightarrow>
                 (tr6 @ [Log ErrorLevel (logr @ [(''error'', FErr e)])
                           ''scheduler: could not complete destroy job''],
                  Return (Some e))
             | (tr6, Return (_, None)) \<Rightarrow> Destroy d p tr6 ctx rest))"

subsection \<open>\<^verbatim>\<open>Create\<close>\<close>

text \<open>
  \<^verbatim>\<open>defer p.Destroy(context.Background(), ...)\<close> followed by \<^verbatim>\<open>return nil, err\<close>: the
  destroy runs before \<^verbatim>\<open>Create\<close> returns and its result is dropped.
\<close>

definition deferred_Destroy ::
  "package \<Rightarrow> config \<Rightarrow> event list \<Rightarrow> Instance \<Rightarrow> string
     \<Rightarrow> event list \<times> (Instance option \<times> string option) outcome" where
  "deferred_Destroy d p tr inst err =
     (case Destroy d p tr Background [inst] of
        (tr1, Panic m) \<Rightarrow> (tr1, Panic m)
      | (tr1, Return _) \<Rightarrow> (tr1, Return (None, Some err)))"

text \<open>
  The body of \<^verbatim>\<open>Create\<close> in three parts. \<open>Create_init\<close> is the source from the choice of
  the init template to the end (lines 152 to 203).
\<close>

definition Create_init ::
  "package \<Rightarrow> config \<Rightarrow> event list \<Rightarrow> Context \<Rightarrow> InstanceCreateOpts \<Rightarrow> string \<Rightarrow> string
     \<Rightarrow> logger \<Rightarrow> string \<Rightarrow> string \<Rightarrow> string \<Rightarrow> int
     \<Rightarrow> event list \<times> (Instance option \<times> string option) outcome" where
  "Create_init d p tr ctx opts vm startupScript logr0 resourceJobID' ip id' hostPort =
     (let (initJob', initJobID', initTaskGroup) =
            (if noop p then initJobNoop d p vm startupScript hostPort id'
             else initJob (LiteEnginePort d) (vmImage p) (vmCpus p) (vmMemoryGB p)
                    (vmDiskSize p) vm startupScript hostPort id');
          logr = logr0 @ [(''init_job_id'', FStr initJobID'), (''node_ip'', FStr ip),
                          (''node_port'', FInt hostPort)];
          inst =
            \<lparr>inst_ID = vm,
             inst_NodeID = id',
             inst_Name = vm,
             inst_Platform = opts_Platform opts,
             inst_State = StateCreated,
             inst_CACert = opts_CACert opts,
             inst_CAKey = opts_CAKey opts,
             inst_TLSCert = opts_TLSCert opts,
             inst_TLSKey = opts_TLSKey opts,
             inst_Provider = Nomad,
             inst_Pool = PoolName opts,
             inst_Started = Now_Unix d tr 0,
             inst_Updated = Now_Unix d tr 1,
             inst_Port = hostPort,
             inst_Address = ip\<rparr>;
          tr1 = tr @ [Log DebugLevel logr ''scheduler: submitting VM creation job to nomad''];
          tr2 = tr1 @ [Rpc Inline (JobsRegister initJob')]
      in case Jobs_Register (client p) tr1 initJob' of
           Some err \<Rightarrow>
             (fst (deregisterJob p tr2 logr resourceJobID' True),
              Return (None, Some (Sprintf ''scheduler: could not register job, err: %w'' [S err])))
         | None \<Rightarrow>
            (case pollForJob d p
                    (tr2 @ [Log DebugLevel logr
                              (''scheduler: successfully submitted job to nomad, ''
                                 @ ''started polling for job status'')])
                    ctx initJobID' logr initTimeout True [Dead] of
               (tr3, Panic m) \<Rightarrow> (tr3, Panic m)
             | (tr3, Return (_, Some err)) \<Rightarrow> deferred_Destroy d p tr3 inst err
             | (tr3, Return (_, None)) \<Rightarrow>
                (case checkTaskGroupStatus p tr3 initJobID' initTaskGroup of
                   (tr4, Some err) \<Rightarrow>
                     deferred_Destroy d p tr4 inst
                       (Sprintf ''scheduler: init job failed with error: %s'' [S err])
                 | (tr4, None) \<Rightarrow> (tr4, Return (Some inst, None)))))"

text \<open>
  \<open>Create_resolve\<close> is the source once the reservation's poll has succeeded (lines 143
  to 150), then \<open>Create_init\<close>. The deferred \<^verbatim>\<open>deregisterJob\<close> runs before the return.
\<close>

definition Create_resolve ::
  "package \<Rightarrow> config \<Rightarrow> event list \<Rightarrow> Context \<Rightarrow> InstanceCreateOpts \<Rightarrow> string \<Rightarrow> string
     \<Rightarrow> logger \<Rightarrow> string \<Rightarrow> event list \<times> (Instance option \<times> string option) outcome" where
  "Create_resolve d p tr ctx opts vm startupScript logr resourceJobID' =
     (case fetchMachine p
             (tr @ [Log InfoLevel logr ''scheduler: found a node with available resources''])
             logr resourceJobID' of
        (tr1, Panic m) \<Rightarrow> (tr1, Panic m)
      | (tr1, Return (ip, id', hostPort, Some err)) \<Rightarrow>
          (fst (deregisterJob p tr1 logr resourceJobID' True), Return (None, Some err))
      | (tr1, Return (ip, id', hostPort, None)) \<Rightarrow>
          Create_init d p tr1 ctx opts vm startupScript logr resourceJobID' ip id' hostPort)"

text \<open>
  \<^verbatim>\<open>Create\<close>: the instance identifier, the two conversions, the reservation's
  registration and its poll (lines 107 to 142), then \<open>Create_resolve\<close>.
\<close>

definition Create ::
  "package \<Rightarrow> config \<Rightarrow> event list \<Rightarrow> Context \<Rightarrow> InstanceCreateOpts
     \<Rightarrow> event list \<times> (Instance option \<times> string option) outcome" where
  "Create d p tr ctx opts =
     (let startupScript = generateStartupScript d opts;
          vm = ToLower (random d tr 20)
      in case Atoi (vmCpus p) of
           None \<Rightarrow> (tr, Return (None, Some ''could not convert VM cpus to integer''))
         | Some cpus \<Rightarrow>
            (case Atoi (vmMemoryGB p) of
               None \<Rightarrow> (tr, Return (None, Some ''could  not convert VM memory to integer''))
             | Some memGB \<Rightarrow>
                let (resourceJob', resourceJobID') =
                      (if noop p then resourceJobNoop d p cpus memGB vm
                       else resourceJob cpus memGB vm);
                    logr = FromContext ctx
                             @ [(''vm'', FStr vm), (''resource_job_id'', FStr resourceJobID')];
                    tr1 = tr @ [Log InfoLevel logr
                                  ''scheduler: finding a node which has available resources ... ''];
                    tr2 = tr1 @ [Rpc Inline (JobsRegister resourceJob')]
                in case Jobs_Register (client p) tr1 resourceJob' of
                     Some err \<Rightarrow>
                       (tr2, Return (None,
                          Some (Sprintf ''scheduler: could not register job, err: %w'' [S err])))
                   | None \<Rightarrow>
                      (case pollForJob d p tr2 ctx resourceJobID' logr resourceJobTimeout True
                              [Running, Dead] of
                         (tr3, Panic m) \<Rightarrow> (tr3, Panic m)
                       | (tr3, Return (_, Some err)) \<Rightarrow>
                           (tr3, Return (None,
                              Some (Sprintf
                                      (''scheduler: could not find a node with available ''
                                         @ ''resources, err: %w'')
                                      [S err])))
                       | (tr3, Return (_, None)) \<Rightarrow>
                           Create_resolve d p tr3 ctx opts vm startupScript logr
                             resourceJobID')))"

subsection \<open>What a job description requests\<close>

definition task_cpu :: "Task \<Rightarrow> int" where
  "task_cpu t =
     (case task_Resources t of
        None \<Rightarrow> 0
      | Some r \<Rightarrow> (case CPU r of None \<Rightarrow> 0 | Some c \<Rightarrow> c))"

definition task_memory :: "Task \<Rightarrow> int" where
  "task_memory t =
     (case task_Resources t of
        None \<Rightarrow> 0
      | Some r \<Rightarrow> (case MemoryMB r of None \<Rightarrow> 0 | Some m \<Rightarrow> m))"

text \<open>The CPU (MHz) and the memory (MB) a job asks for: the sum over its tasks.\<close>

definition cpu_mhz :: "Job \<Rightarrow> int" where
  "cpu_mhz j = sum_list (map task_cpu (concat (map Tasks (TaskGroups j))))"

definition memory_mb :: "Job \<Rightarrow> int" where
  "memory_mb j = sum_list (map task_memory (concat (map Tasks (TaskGroups j))))"

definition reschedule_attempts :: "Job \<Rightarrow> int option" where
  "reschedule_attempts j =
     (case Reschedule j of None \<Rightarrow> None | Some r \<Rightarrow> reschedule_Attempts r)"

definition restart_attempts :: "Job \<Rightarrow> int option list" where
  "restart_attempts j =
     map (\<lambda>g. case group_RestartPolicy g of None \<Rightarrow> None | Some r \<Rightarrow> restart_Attempts r)
       (TaskGroups j)"

subsection \<open>The conditions the specification names\<close>

text \<open>
  A numeric text, as the specification uses the word for \<^verbatim>\<open>vm_cpus\<close> and
  \<^verbatim>\<open>vm_memory_gb\<close>: an optional sign and at least one decimal digit, nothing else.
\<close>

definition numeric :: "string \<Rightarrow> bool" where
  "numeric s \<longleftrightarrow>
     (let ds = (if take 1 s = ''-'' \<or> take 1 s = ''+'' then drop 1 s else s)
      in ds \<noteq> [] \<and> list_all is_digit ds)"

definition networks_of :: "Allocation \<Rightarrow> NetworkResource option list" where
  "networks_of alloc = (case alloc_Resources alloc of None \<Rightarrow> [] | Some r \<Rightarrow> Networks r)"

text \<open>The value of the first dynamic port of the first network, when there is one.\<close>

definition port_values :: "Allocation \<Rightarrow> int list" where
  "port_values alloc =
     (case networks_of alloc of
        Some net # _ \<Rightarrow> map Value (take 1 (DynamicPorts net))
      | _ \<Rightarrow> [])"

text \<open>
  The allocation detail carries its resources and, when it has a network, the first
  network is not nil and has at least one dynamic port.
\<close>

definition first_port_present :: "Allocation \<Rightarrow> bool" where
  "first_port_present alloc \<longleftrightarrow>
     (case alloc_Resources alloc of
        None \<Rightarrow> False
      | Some r \<Rightarrow>
          (case Networks r of
             [] \<Rightarrow> True
           | None # _ \<Rightarrow> False
           | Some net # _ \<Rightarrow> DynamicPorts net \<noteq> []))"

text \<open>The first network of the allocation detail is not nil and has at least one dynamic port.\<close>

definition has_first_port :: "Allocation \<Rightarrow> bool" where
  "has_first_port alloc \<longleftrightarrow>
     (case networks_of alloc of Some net # _ \<Rightarrow> DynamicPorts net \<noteq> [] | _ \<Rightarrow> False)"

text \<open>
  The error conditions the specification lists for the resolver, over the answers of
  the three calls: no allocation, a missing node or allocation identifier, no network,
  a port outside 1..65535, an address whose host segment is not an IP literal.
\<close>

definition resolver_error :: "AllocationListStub option list \<Rightarrow> Allocation \<Rightarrow> Node \<Rightarrow> bool" where
  "resolver_error l alloc n \<longleftrightarrow>
     l = []
     \<or> map (map_option stub_NodeID) (take 1 l) = [Some []]
     \<or> map (map_option stub_ID) (take 1 l) = [Some []]
     \<or> networks_of alloc = []
     \<or> (\<exists>v \<in> set (port_values alloc). v < 1 \<or> 65535 < v)
     \<or> \<not> ParseIP (host_segment (HTTPAddr n))"

text \<open>An answer of \<open>Jobs_Info\<close> that shows the job in one of the given states.\<close>

definition shows_status :: "package \<Rightarrow> JobStatus list \<Rightarrow> info_response \<Rightarrow> bool" where
  "shows_status d states r \<longleftrightarrow>
     (case r of
        InfoJob j qm \<Rightarrow> (case Status j of None \<Rightarrow> False | Some s \<Rightarrow> Status_of d s \<in> set states)
      | _ \<Rightarrow> False)"

subsection \<open>A scheduler to run the driver on\<close>

definition example_package :: package where
  "example_package =
     \<lparr>Status_of =
        (\<lambda>s. if s = ''pending'' then Pending else if s = ''running'' then Running
              else if s = ''dead'' then Dead else Other s),
      random = (\<lambda>tr n. ''k3vq8zb1m0xw7t2ld5ra''),
      LinuxBash = (\<lambda>ps. ''#!/usr/bin/bash''),
      LiteEnginePort = 9079,
      resourceJobNoop = (\<lambda>p cpus memGB vm. resourceJob cpus memGB vm),
      initJobNoop =
        (\<lambda>p vm script hostPort nodeID.
           initJob 9079 (vmImage p) (vmCpus p) (vmMemoryGB p) (vmDiskSize p) vm script hostPort
             nodeID),
      destroyJobNoop = (\<lambda>p vm nodeID. destroyJob ''noop'' vm nodeID),
      Now_Unix = (\<lambda>tr k. 1700000000)\<rparr>"

definition job_in :: "string \<Rightarrow> Job" where
  "job_in st =
     \<lparr>job_ID = None, job_Name = None, Type = Some ''batch'', Datacenters = [''dc1''],
      Constraints = [], Reschedule = None, TaskGroups = [], Status = Some st\<rparr>"

definition allocation_with :: "Port list \<Rightarrow> Allocation" where
  "allocation_with ports =
     \<lparr>alloc_Resources =
        Some \<lparr>CPU = None, MemoryMB = None, Networks = [Some \<lparr>DynamicPorts = ports\<rparr>]\<rparr>\<rparr>"

text \<open>
  The scheduler of the specification's first scenario: registrations and
  deregistrations succeed, the reservation is seen pending and then running, the other
  jobs are seen dead, a reservation has one allocation \<^verbatim>\<open>a1\<close> on node \<^verbatim>\<open>n1\<close>, the
  allocation \<^verbatim>\<open>a1\<close> has the dynamic port 27017, and the address of node \<^verbatim>\<open>n1\<close> is
  \<^verbatim>\<open>10.0.0.5:4646\<close>. Other allocations and nodes are unknown to it.
\<close>

definition example_scheduler :: scheduler where
  "example_scheduler =
     \<lparr>Jobs_Register = (\<lambda>tr j. None),
      Jobs_Deregister = (\<lambda>tr i purge. None),
      Jobs_Info =
        (\<lambda>tr ctx timeout i.
           if take 19 i = ''init_job_resources_''
           then [InfoJob (job_in ''pending'') (Some 5), InfoJob (job_in ''running'') (Some 7)]
           else [InfoJob (job_in ''dead'') (Some 9)]),
      Jobs_Summary = (\<lambda>tr i. Inr (Some \<lparr>Summary = Some (\<lambda>g. Some \<lparr>Failed = 0\<rparr>)\<rparr>)),
      Jobs_Allocations =
        (\<lambda>tr i. if take 19 i = ''init_job_resources_''
                then Inr [Some \<lparr>stub_ID = ''a1'', stub_NodeID = ''n1''\<rparr>] else Inr []),
      Allocations_Info =
        (\<lambda>tr i. if i = ''a1''
                then Inr (Some (allocation_with
                                  [\<lparr>Label = ''k3vq8zb1m0xw7t2ld5ra'', Value = 27017\<rparr>]))
                else Inl ''alloc not found''),
      Nodes_Info =
        (\<lambda>tr i. if i = ''n1'' then Inr (Some \<lparr>HTTPAddr = ''10.0.0.5:4646''\<rparr>)
                else Inl ''node not found'')\<rparr>"

definition example_config :: config where
  "example_config =
     \<lparr>address = ''https://nomad.internal:4646'',
      vmImage = ''weaveworks/ignite-ubuntu:latest'',
      vmMemoryGB = ''4'',
      vmCpus = ''2'',
      vmDiskSize = ''10GB'',
      caCertPath = [],
      clientCertPath = [],
      clientKeyPath = [],
      insecure = False,
      noop = False,
      client = example_scheduler\<rparr>"

definition example_opts :: InstanceCreateOpts where
  "example_opts =
     \<lparr>opts_Platform = \<lparr>OS = ''linux'', Arch = ''amd64''\<rparr>,
      opts_CACert = ''ca'',
      opts_CAKey = ''cakey'',
      opts_TLSCert = ''cert'',
      opts_TLSKey = ''key'',
      PoolName = ''pool'',
      LiteEnginePath = ''/usr/bin/lite-engine'',
      HarnessTestBinaryURI = [],
      PluginBinaryURI = []\<rparr>"

definition example_instance :: Instance where
  "example_instance =
     \<lparr>inst_ID = ''k3vq8zb1m0xw7t2ld5ra'',
      inst_NodeID = ''n1'',
      inst_Name = ''k3vq8zb1m0xw7t2ld5ra'',
      inst_Platform = \<lparr>OS = ''linux'', Arch = ''amd64''\<rparr>,
      inst_State = StateCreated,
      inst_CACert = ''ca'',
      inst_CAKey = ''cakey'',
      inst_TLSCert = ''cert'',
      inst_TLSKey = ''key'',
      inst_Provider = Nomad,
      inst_Pool = ''pool'',
      inst_Started = 1700000000,
      inst_Updated = 1700000000,
      inst_Port = 27017,
      inst_Address = ''10.0.0.5''\<rparr>"

subsection \<open>Names for what \<^verbatim>\<open>Destroy\<close> builds, and for a trace that only purges\<close>

text \<open>The destroy job and its identifier, as \<^verbatim>\<open>Destroy\<close> chooses them for an instance.\<close>

definition destroy_template :: "package \<Rightarrow> config \<Rightarrow> event list \<Rightarrow> Instance \<Rightarrow> Job \<times> string" where
  "destroy_template d p tr inst =
     (if noop p then destroyJobNoop d p (inst_ID inst) (inst_NodeID inst)
      else destroyJob (random d tr 20) (inst_ID inst) (inst_NodeID inst))"

text \<open>The logger \<^verbatim>\<open>Destroy\<close> builds for an instance.\<close>

definition destroy_logger :: "Context \<Rightarrow> Instance \<Rightarrow> string \<Rightarrow> logger" where
  "destroy_logger ctx inst jobID =
     FromContext ctx
       @ [(''instance_id'', FStr (inst_ID inst)),
          (''instance_node_id'', FStr (inst_NodeID inst)),
          (''job_id'', FStr jobID),
          (''resource_job_id'', FStr (resourceJobID (inst_ID inst)))]"

text \<open>Every deregistration of the trace was sent with the purge flag set.\<close>

definition purged :: "event list \<Rightarrow> bool" where
  "purged tr \<longleftrightarrow> list_all (\<lambda>(m, i, purge). purge) (deregistrations tr)"

subsection \<open>The answers to a poll\<close>

text \<open>
  An answer the poll loop reads without a panic: a job comes with its query meta and
  its status.
\<close>

definition readable :: "info_response \<Rightarrow> bool" where
  "readable r \<longleftrightarrow> (case r of InfoJob j qm \<Rightarrow> qm \<noteq> None \<and> Status j \<noteq> None | _ \<Rightarrow> True)"

text \<open>
  The queries of one poll of the job \<open>i\<close> whose answers are \<open>rs\<close>: one blocking query of
  15 seconds per answer, each with the \<^verbatim>\<open>LastIndex\<close> of the latest job answered before
  it (\<open>w\<close> at first).
\<close>

fun poll_queries :: "string \<Rightarrow> nat \<Rightarrow> info_response list \<Rightarrow> (mode \<times> rpc) list" where
  "poll_queries i w [] = []"
| "poll_queries i w (r # rs) =
     (Inline, JobsInfo i (15 * Second) w)
       # poll_queries i (case r of InfoJob j (Some k) \<Rightarrow> k | _ \<Rightarrow> w) rs"

text \<open>The answers up to the first one that shows the job dead.\<close>

fun until_dead :: "package \<Rightarrow> info_response list \<Rightarrow> info_response list" where
  "until_dead d [] = []"
| "until_dead d (r # rs) = (if shows_status d [Dead] r then [r] else r # until_dead d rs)"

text \<open>
  A poll during which the job is never seen dead: the answers that arrive before the
  timeout fires (or the context is done) are readable and none shows the job dead.
\<close>

definition never_dead :: "package \<Rightarrow> info_response list \<Rightarrow> bool" where
  "never_dead d rs \<longleftrightarrow> list_all readable rs \<and> \<not> list_ex (shows_status d [Dead]) rs"

text \<open>A poll that sees the job dead: an answer shows it, and the answers up to it are readable.\<close>

definition sees_dead :: "package \<Rightarrow> info_response list \<Rightarrow> bool" where
  "sees_dead d rs \<longleftrightarrow> list_ex (shows_status d [Dead]) rs \<and> list_all readable (until_dead d rs)"

text \<open>
  The two errors of the poller: the last answer before the deadline was a job that is
  not in a terminal state, or it was no job at all (an error, nil, or no answer).
\<close>

definition poll_error :: "info_response list \<Rightarrow> string" where
  "poll_error rs =
     (if rs \<noteq> [] \<and> (case last rs of InfoJob j qm \<Rightarrow> True | _ \<Rightarrow> False)
      then ''scheduler: job never reached terminal state''
      else ''could not poll for job'')"

section \<open>Properties\<close>

subsection \<open>Traces\<close>

lemma rpcs_append [simp]: "rpcs (xs @ ys) = rpcs xs @ rpcs ys"
  by (induction xs rule: rpcs.induct) simp_all

lemma deregistrations_append [simp]:
  "deregistrations (xs @ ys) = deregistrations xs @ deregistrations ys"
  by (induction xs rule: deregistrations.induct) simp_all

lemma detached_append [simp]: "detached (xs @ ys) = detached xs @ detached ys"
  by (induction xs rule: detached.induct) simp_all

lemma prefix_rpcs: "prefix tr tr' \<Longrightarrow> prefix (rpcs tr) (rpcs tr')"
  by (auto elim!: prefixE)

lemma prefix_deregistrations: "prefix tr tr' \<Longrightarrow> prefix (deregistrations tr) (deregistrations tr')"
  by (auto elim!: prefixE)

lemma job_ids:
  "resourceJobID s = ''init_job_resources_'' @ s"
  "initJobID s = ''init_job_'' @ s"
  "destroyJobID s = ''destroy_job_'' @ s"
  by (simp_all add: resourceJobID_def initJobID_def destroyJobID_def render_def)

lemma deregisterJob_events:
  "\<exists>e1 e2. fst (deregisterJob p tr logr i purge) = tr @ [e1, Rpc Inline (JobsDeregister i True), e2]
     \<and> rpcs [e1] = [] \<and> rpcs [e2] = []"
  by (simp add: deregisterJob_def Let_def split: option.splits)

lemma prefix_deregisterJob: "prefix tr (fst (deregisterJob p tr logr i purge))"
  using deregisterJob_events [of p tr logr i purge] by (auto simp: prefix_def)

lemma rpcs_deregisterJob:
  "rpcs (fst (deregisterJob p tr logr i purge)) = rpcs tr @ [(Inline, JobsDeregister i True)]"
  by (simp add: deregisterJob_def Let_def split: option.splits)

lemma deregistrations_deregisterJob:
  "deregistrations (fst (deregisterJob p tr logr i purge)) = deregistrations tr @ [(Inline, i, True)]"
  by (simp add: deregisterJob_def Let_def split: option.splits)

lemma detached_deregisterJob:
  "deregistrations (detached (drop (length tr) (fst (deregisterJob p tr logr i purge))))
     = [(Detached, i, True)]"
  by (simp add: deregisterJob_def Let_def split: option.splits)

lemma rpcs_detached_deregisterJob:
  "rpcs (detached (drop (length tr) (fst (deregisterJob p tr logr i purge))))
     = [(Detached, JobsDeregister i True)]"
  by (simp add: deregisterJob_def Let_def split: option.splits)

lemma prefix_pollLoop: "prefix tr (fst (pollLoop d logr i ts rs tr job w))"
proof (induction rs arbitrary: tr job w)
  case Nil
  then show ?case by simp
next
  case (Cons r rs)
  have step: "\<And>tr' job' w'. prefix tr tr' \<Longrightarrow> prefix tr (fst (pollLoop d logr i ts rs tr' job' w'))"
    using Cons.IH prefix_order.trans by blast
  show ?case
    by (auto simp: Let_def split: info_response.splits option.splits intro!: step)
qed

lemma deregistrations_pollLoop:
  "deregistrations (fst (pollLoop d logr i ts rs tr job w)) = deregistrations tr"
  by (induction rs arbitrary: tr job w)
     (simp_all add: Let_def split: info_response.splits option.splits)

lemma pollLoop_terminal:
  "snd (pollLoop d logr i ts rs tr job w) = Return (job', True) \<Longrightarrow>
     \<exists>j s. job' = Some j \<and> Status j = Some s \<and> Status_of d s \<in> set ts
           \<and> (\<exists>k. InfoJob j k \<in> set rs)"
proof (induction rs arbitrary: tr job w)
  case Nil
  then show ?case by simp
next
  case (Cons r rs)
  then show ?case
    by (fastforce simp: Let_def split: info_response.splits option.splits if_splits)
qed

lemma pollLoop_not_terminal:
  "snd (pollLoop d logr i ts rs tr job w) = Return (job', False) \<Longrightarrow>
     (\<forall>r \<in> set rs. \<not> shows_status d ts r)
     \<and> (job' = job \<or> (\<exists>j s. job' = Some j \<and> Status j = Some s \<and> Status_of d s \<notin> set ts) \<or> job' = None)"
proof (induction rs arbitrary: tr job w)
  case Nil
  then show ?case by simp
next
  case (Cons r rs)
  show ?case
  proof (cases r)
    case (InfoError e)
    with Cons.prems Cons.IH [of _ None w] show ?thesis
      by (auto simp: Let_def shows_status_def)
  next
    case InfoNil
    with Cons.prems Cons.IH [of _ None w] show ?thesis
      by (auto simp: Let_def shows_status_def)
  next
    case (InfoJob j qm)
    show ?thesis
    proof (cases qm)
      case None
      with InfoJob Cons.prems show ?thesis by (simp add: Let_def)
    next
      case (Some k)
      with InfoJob Cons.prems Cons.IH [of _ "Some j" k] show ?thesis
        by (auto simp: Let_def shows_status_def split: option.splits if_splits)
    qed
  qed
qed

subsection \<open>The poller\<close>

lemma pollForJob_Panic:
  "pollLoop d logr i (ts @ [Dead]) (Jobs_Info (client p) tr ctx timeout i) tr None 0 = (tr1, Panic m)
   \<Longrightarrow> pollForJob d p tr ctx i logr timeout remove ts = (tr1, Panic m)"
  by (simp add: pollForJob_def)

lemma pollForJob_None:
  "pollLoop d logr i (ts @ [Dead]) (Jobs_Info (client p) tr ctx timeout i) tr None 0
     = (tr1, Return (None, terminal))
   \<Longrightarrow> pollForJob d p tr ctx i logr timeout remove ts
       = (tr1 @ [Log ErrorLevel (logr @ [(''job_id'', FStr i)]) ''could not poll for job''],
          Return (None, Some ''could not poll for job''))"
  by (simp add: pollForJob_def)

lemma pollForJob_terminal:
  "pollLoop d logr i (ts @ [Dead]) (Jobs_Info (client p) tr ctx timeout i) tr None 0
     = (tr1, Return (Some j, True))
   \<Longrightarrow> pollForJob d p tr ctx i logr timeout remove ts = (tr1, Return (Some j, None))"
  by (simp add: pollForJob_def)

lemma pollForJob_timeout:
  "pollLoop d logr i (ts @ [Dead]) (Jobs_Info (client p) tr ctx timeout i) tr None 0
     = (tr1, Return (Some j, False))
   \<Longrightarrow> pollForJob d p tr ctx i logr timeout remove ts
       = (if remove then
            tr1 @ detached (drop (length tr1) (fst (deregisterJob p tr1 logr i True)))
          else tr1,
          Return (Some j, Some ''scheduler: job never reached terminal state''))"
  by (simp add: pollForJob_def)

lemma pollForJob_cases:
  assumes a: "snd (pollForJob d p tr ctx i logr timeout remove ts) = Return (job, err)"
  shows "\<exists>tr1 terminal.
        pollLoop d logr i (ts @ [Dead]) (Jobs_Info (client p) tr ctx timeout i) tr None 0
          = (tr1, Return (job, terminal))
        \<and> err = (if job = None then Some ''could not poll for job''
                  else if terminal then None
                  else Some ''scheduler: job never reached terminal state'')
        \<and> (terminal \<longrightarrow> job \<noteq> None)
        \<and> deregistrations (fst (pollForJob d p tr ctx i logr timeout remove ts))
            = deregistrations tr
                @ (if job \<noteq> None \<and> \<not> terminal \<and> remove then [(Detached, i, True)] else [])"
proof -
  let ?rs = "Jobs_Info (client p) tr ctx timeout i"
  obtain tr1 out where l: "pollLoop d logr i (ts @ [Dead]) ?rs tr None 0 = (tr1, out)"
    by (cases "pollLoop d logr i (ts @ [Dead]) ?rs tr None 0") auto
  have dl: "deregistrations tr1 = deregistrations tr"
    using deregistrations_pollLoop [of d logr i "ts @ [Dead]" ?rs tr None 0] l
    by simp
  show ?thesis
  proof (cases out)
    case (Panic m)
    with a pollForJob_Panic [of d logr i ts p tr ctx timeout tr1 m remove] l show ?thesis by simp
  next
    case (Return jt)
    obtain job0 terminal where jt: "jt = (job0, terminal)" by (cases jt) auto
    have l': "pollLoop d logr i (ts @ [Dead]) ?rs tr None 0 = (tr1, Return (job0, terminal))"
      using l Return jt by simp
    show ?thesis
    proof (cases job0)
      case None
      have "pollLoop d logr i (ts @ [Dead]) ?rs tr None 0 = (tr1, Return (None, terminal))"
        using l' None by simp
      from pollForJob_None [OF this, of remove] a dl
      have "job = None" "err = Some ''could not poll for job''"
        "deregistrations (fst (pollForJob d p tr ctx i logr timeout remove ts)) = deregistrations tr"
        by simp_all
      moreover have "\<not> terminal"
        using pollLoop_terminal [of d logr i "ts @ [Dead]" ?rs tr None 0 job0] l' None by auto
      ultimately show ?thesis using l' None
        by (intro exI [of _ tr1] exI [of _ False]) simp
    next
      case (Some j)
      show ?thesis
      proof (cases terminal)
        case True
        have "pollLoop d logr i (ts @ [Dead]) ?rs tr None 0 = (tr1, Return (Some j, True))"
          using l' Some True by simp
        from pollForJob_terminal [OF this, of remove] a dl
        have "job = Some j" "err = None"
          "deregistrations (fst (pollForJob d p tr ctx i logr timeout remove ts)) = deregistrations tr"
          by simp_all
        then show ?thesis using l' Some True
          by (intro exI [of _ tr1] exI [of _ True]) simp
      next
        case False
        have "pollLoop d logr i (ts @ [Dead]) ?rs tr None 0 = (tr1, Return (Some j, False))"
          using l' Some False by simp
        from pollForJob_timeout [OF this, of remove] a dl
        have "job = Some j" "err = Some ''scheduler: job never reached terminal state''"
          "deregistrations (fst (pollForJob d p tr ctx i logr timeout remove ts))
             = deregistrations tr @ (if remove then [(Detached, i, True)] else [])"
          by (simp_all add: detached_deregisterJob)
        then show ?thesis using l' Some False
          by (intro exI [of _ tr1] exI [of _ False]) simp
      qed
    qed
  qed
qed

text \<open>
  What the poller guarantees as it is written. Whenever \<^verbatim>\<open>pollForJob\<close> returns, it
  returns success exactly when the job descriptor it returns (the last one it observed)
  is in one of the terminal states or dead, and exactly when one of the answers it was
  given before the context was done or the timeout fired shows such a state. Its
  deregistrations are: one detached deregistration of the polled job, with purge, when
  it returns "scheduler: job never reached terminal state" and \<^verbatim>\<open>remove\<close> is set; none
  otherwise.
\<close>

lemma pollForJob_contract:
  assumes "snd (pollForJob d p tr ctx i logr timeout remove ts) = Return (job, err)"
  shows "((err = None) \<longleftrightarrow>
            (\<exists>j s. job = Some j \<and> Status j = Some s \<and> Status_of d s \<in> set ts \<union> {Dead}))
         \<and> ((err = None) \<longleftrightarrow>
            (\<exists>r \<in> set (Jobs_Info (client p) tr ctx timeout i). shows_status d (ts @ [Dead]) r))
         \<and> deregistrations (fst (pollForJob d p tr ctx i logr timeout remove ts))
            = deregistrations tr
                @ (if err = Some ''scheduler: job never reached terminal state'' \<and> remove
                   then [(Detached, i, True)] else [])"
proof -
  let ?rs = "Jobs_Info (client p) tr ctx timeout i"
  from pollForJob_cases [OF assms] obtain tr1 terminal where
    l: "pollLoop d logr i (ts @ [Dead]) ?rs tr None 0 = (tr1, Return (job, terminal))"
    and e: "err = (if job = None then Some ''could not poll for job''
                  else if terminal then None
                  else Some ''scheduler: job never reached terminal state'')"
    and t: "terminal \<longrightarrow> job \<noteq> None"
    and dr: "deregistrations (fst (pollForJob d p tr ctx i logr timeout remove ts))
            = deregistrations tr
                @ (if job \<noteq> None \<and> \<not> terminal \<and> remove then [(Detached, i, True)] else [])"
    by blast
  have s: "snd (pollLoop d logr i (ts @ [Dead]) ?rs tr None 0) = Return (job, terminal)"
    using l by simp
  show ?thesis
  proof (cases terminal)
    case True
    have "snd (pollLoop d logr i (ts @ [Dead]) ?rs tr None 0) = Return (job, True)"
      using s True by simp
    from pollLoop_terminal [OF this] obtain j st k where
      j: "job = Some j" "Status j = Some st" "Status_of d st \<in> set (ts @ [Dead])" "InfoJob j k \<in> set ?rs"
      by blast
    have sh: "shows_status d (ts @ [Dead]) (InfoJob j k)"
      using j by (simp add: shows_status_def)
    have e1: "err = None" using e True j by simp
    have c1: "\<exists>j s. job = Some j \<and> Status j = Some s \<and> Status_of d s \<in> set ts \<union> {Dead}"
      using j by auto
    have c2: "\<exists>r \<in> set ?rs. shows_status d (ts @ [Dead]) r"
      using sh j(4) by blast
    have c3: "deregistrations (fst (pollForJob d p tr ctx i logr timeout remove ts))
            = deregistrations tr
                @ (if err = Some ''scheduler: job never reached terminal state'' \<and> remove
                   then [(Detached, i, True)] else [])"
      using dr True e1 by simp
    from e1 c1 c2 c3 show ?thesis by blast
  next
    case False
    have "snd (pollLoop d logr i (ts @ [Dead]) ?rs tr None 0) = Return (job, False)"
      using s False by simp
    from pollLoop_not_terminal [OF this] have
      n: "\<forall>r \<in> set ?rs. \<not> shows_status d (ts @ [Dead]) r"
      and jj: "job = None \<or> (\<exists>j s. job = Some j \<and> Status j = Some s \<and> Status_of d s \<notin> set (ts @ [Dead]))"
      by auto
    have en: "err \<noteq> None" using False e by (simp split: if_splits)
    have c1: "\<not> (\<exists>j s. job = Some j \<and> Status j = Some s \<and> Status_of d s \<in> set ts \<union> {Dead})"
      using jj by auto
    have c2: "\<not> (\<exists>r \<in> set ?rs. shows_status d (ts @ [Dead]) r)"
      using n by blast
    have c3: "(err = Some ''scheduler: job never reached terminal state'' \<and> remove)
                = (job \<noteq> None \<and> \<not> terminal \<and> remove)"
      using e False by (cases job) simp_all
    have c4: "deregistrations (fst (pollForJob d p tr ctx i logr timeout remove ts))
            = deregistrations tr
                @ (if err = Some ''scheduler: job never reached terminal state'' \<and> remove
                   then [(Detached, i, True)] else [])"
      using dr c3 by simp
    from en c1 c2 c4 show ?thesis by blast
  qed
qed

text \<open>
  Claim C2 (the poller's contract) fails on the code. The job is seen pending, the next
  query fails, and the timeout fires: the job has not reached a terminal state and
  \<^verbatim>\<open>remove\<close> is set, but \<^verbatim>\<open>pollForJob\<close> returns "could not poll for job" from the test
  \<^verbatim>\<open>job == nil\<close>, which stands before the test of \<^verbatim>\<open>remove\<close>: the failed query has
  overwritten \<^verbatim>\<open>job\<close> with nil. It has made two queries, the second with the index of the
  first answer, and no deregistration, detached or not.
\<close>

theorem pollForJob_remove_skipped:
  "snd (pollForJob example_package
          (example_config\<lparr>client := example_scheduler
             \<lparr>Jobs_Info := \<lambda>tr ctx timeout i.
                [InfoJob (job_in ''pending'') (Some 5), InfoError ''connection refused'']\<rparr>\<rparr>)
          [] Background ''init_job_resources_vm1'' [] resourceJobTimeout True [Running, Dead])
     = Return (None, Some ''could not poll for job'')
   \<and> rpcs (fst (pollForJob example_package
          (example_config\<lparr>client := example_scheduler
             \<lparr>Jobs_Info := \<lambda>tr ctx timeout i.
                [InfoJob (job_in ''pending'') (Some 5), InfoError ''connection refused'']\<rparr>\<rparr>)
          [] Background ''init_job_resources_vm1'' [] resourceJobTimeout True [Running, Dead]))
     = [(Inline, JobsInfo ''init_job_resources_vm1'' (15 * Second) 0),
        (Inline, JobsInfo ''init_job_resources_vm1'' (15 * Second) 5)]
   \<and> deregistrations (fst (pollForJob example_package
          (example_config\<lparr>client := example_scheduler
             \<lparr>Jobs_Info := \<lambda>tr ctx timeout i.
                [InfoJob (job_in ''pending'') (Some 5), InfoError ''connection refused'']\<rparr>\<rparr>)
          [] Background ''init_job_resources_vm1'' [] resourceJobTimeout True [Running, Dead]))
     = []
   \<and> \<not> shows_status example_package [Running, Dead] (InfoJob (job_in ''pending'') (Some 5))
   \<and> \<not> shows_status example_package [Running, Dead] (InfoError ''connection refused'')"
  by (simp add: pollForJob_def example_config_def example_scheduler_def example_package_def
        job_in_def shows_status_def Let_def)

subsection \<open>The resolver, the summary check and one round of Destroy\<close>

declare Destroy.simps [simp del]

lemma prefix_snoc: "prefix tr tr' \<Longrightarrow> prefix tr (tr' @ es)"
  by (auto simp: prefix_def)

lemma prefix_pollForJob: "prefix tr (fst (pollForJob d p tr ctx i logr timeout remove ts))"
proof -
  let ?l = "pollLoop d logr i (ts @ [Dead]) (Jobs_Info (client p) tr ctx timeout i) tr None 0"
  have pl: "prefix tr (fst ?l)" by (rule prefix_pollLoop)
  obtain tr1 out where l: "?l = (tr1, out)" by (cases ?l) auto
  with pl have p1: "prefix tr tr1" by simp
  show ?thesis
  proof (cases out)
    case (Panic m)
    with l p1 pollForJob_Panic [of d logr i ts p tr ctx timeout tr1 m remove] show ?thesis by simp
  next
    case (Return jt)
    obtain job terminal where jt: "jt = (job, terminal)" by (cases jt) auto
    show ?thesis
    proof (cases job)
      case None
      with l Return jt have "?l = (tr1, Return (None, terminal))" by simp
      from pollForJob_None [OF this, of remove] p1 show ?thesis by (simp add: prefix_snoc)
    next
      case (Some j)
      show ?thesis
      proof (cases terminal)
        case True
        with l Return jt Some have "?l = (tr1, Return (Some j, True))" by simp
        from pollForJob_terminal [OF this, of remove] p1 show ?thesis by simp
      next
        case False
        with l Return jt Some have "?l = (tr1, Return (Some j, False))" by simp
        from pollForJob_timeout [OF this, of remove] p1 show ?thesis by (simp add: prefix_snoc)
      qed
    qed
  qed
qed

lemma deregistrations_pollForJob:
  "deregistrations (fst (pollForJob d p tr ctx i logr timeout remove ts))
     = deregistrations tr
         @ (if remove \<and> (\<exists>j. snd (pollForJob d p tr ctx i logr timeout remove ts)
                                = Return (Some j, Some ''scheduler: job never reached terminal state''))
            then [(Detached, i, True)] else [])"
proof -
  let ?l = "pollLoop d logr i (ts @ [Dead]) (Jobs_Info (client p) tr ctx timeout i) tr None 0"
  have dl: "deregistrations (fst ?l) = deregistrations tr" by (rule deregistrations_pollLoop)
  obtain tr1 out where l: "?l = (tr1, out)" by (cases ?l) auto
  with dl have d1: "deregistrations tr1 = deregistrations tr" by simp
  show ?thesis
  proof (cases out)
    case (Panic m)
    with l d1 pollForJob_Panic [of d logr i ts p tr ctx timeout tr1 m remove] show ?thesis by simp
  next
    case (Return jt)
    obtain job terminal where jt: "jt = (job, terminal)" by (cases jt) auto
    show ?thesis
    proof (cases job)
      case None
      with l Return jt have "?l = (tr1, Return (None, terminal))" by simp
      from pollForJob_None [OF this, of remove] d1 show ?thesis by simp
    next
      case (Some j)
      show ?thesis
      proof (cases terminal)
        case True
        with l Return jt Some have "?l = (tr1, Return (Some j, True))" by simp
        from pollForJob_terminal [OF this, of remove] d1 show ?thesis by simp
      next
        case False
        with l Return jt Some have "?l = (tr1, Return (Some j, False))" by simp
        from pollForJob_timeout [OF this, of remove] d1 show ?thesis
          by (simp add: detached_deregisterJob)
      qed
    qed
  qed
qed

lemma deregistrations_pollForJob_keep:
  "deregistrations (fst (pollForJob d p tr ctx i logr timeout False ts)) = deregistrations tr"
  using deregistrations_pollForJob [of d p tr ctx i logr timeout False ts] by simp

lemma prefix_fetchMachine: "prefix tr (fst (fetchMachine p tr logr i))"
  by (simp add: fetchMachine_def Let_def prefix_def
           split: sum.splits list.splits option.splits)

lemma deregistrations_fetchMachine:
  "deregistrations (fst (fetchMachine p tr logr i)) = deregistrations tr"
  by (simp add: fetchMachine_def Let_def split: sum.splits list.splits option.splits)

lemma prefix_checkTaskGroupStatus: "prefix tr (fst (checkTaskGroupStatus p tr jobID g))"
  by (simp add: checkTaskGroupStatus_def Let_def prefix_def
           split: sum.splits option.splits)

lemma deregistrations_checkTaskGroupStatus:
  "deregistrations (fst (checkTaskGroupStatus p tr jobID g)) = deregistrations tr"
  by (simp add: checkTaskGroupStatus_def Let_def split: sum.splits option.splits)

text \<open>One round of the loop of \<^verbatim>\<open>Destroy\<close>, with the pairs of the definition taken apart.\<close>

lemma Destroy_Cons:
  "Destroy d p tr ctx (inst # rest) =
     (let job = fst (destroy_template d p tr inst);
          jobID = snd (destroy_template d p tr inst);
          res = resourceJobID (inst_ID inst);
          logr = destroy_logger ctx inst jobID;
          dj = deregisterJob p (tr @ [Log DebugLevel logr ''scheduler: freeing up resources ... ''])
                 logr res True;
          tr4 = fst dj
                  @ [case snd dj of
                       None \<Rightarrow> Log DebugLevel logr ''scheduler: freed up resources''
                     | Some e \<Rightarrow> Log ErrorLevel (logr @ [(''error'', FErr e)])
                                   ''scheduler: could not free up resources'',
                     Log InfoLevel logr ''scheduler: freed up resources, submitting destroy job'']
      in case Jobs_Register (client p) tr4 job of
           Some e \<Rightarrow>
             (tr4 @ [Rpc Inline (JobsRegister job),
                     Log ErrorLevel (logr @ [(''error'', FErr e)])
                       ''scheduler: could not register destroy job''],
              Return (Some e))
         | None \<Rightarrow>
            (case pollForJob d p
                    (tr4 @ [Rpc Inline (JobsRegister job),
                            Log DebugLevel logr ''scheduler: started polling for destroy job''])
                    ctx jobID logr destroyTimeout False [Dead] of
               (tr6, Panic m) \<Rightarrow> (tr6, Panic m)
             | (tr6, Return (_, Some e)) \<Rightarrow>
                 (tr6 @ [Log ErrorLevel (logr @ [(''error'', FErr e)])
                           ''scheduler: could not complete destroy job''],
                  Return (Some e))
             | (tr6, Return (_, None)) \<Rightarrow> Destroy d p tr6 ctx rest))"
  by (simp add: Destroy.simps Let_def split_def destroy_template_def destroy_logger_def
        split del: if_split cong: option.case_cong outcome.case_cong)

lemma pollForJob_keep_events:
  "\<exists>evs. fst (pollForJob d p tr ctx i logr timeout False ts) = tr @ evs \<and> deregistrations evs = []"
proof -
  from prefix_pollForJob [of tr d p ctx i logr timeout False ts] obtain evs where
    e: "fst (pollForJob d p tr ctx i logr timeout False ts) = tr @ evs"
    by (auto simp: prefix_def)
  have "deregistrations (tr @ evs) = deregistrations tr"
    using deregistrations_pollForJob_keep [of d p tr ctx i logr timeout ts] e by simp
  then have "deregistrations evs = []" by simp
  with e show ?thesis by blast
qed

lemma log_no_deregistration: "rpcs [e] = [] \<Longrightarrow> deregistrations [e] = []"
  by (cases e) simp_all

text \<open>
  What \<^verbatim>\<open>Destroy\<close> adds to the trace for a non-empty list: the deregistration of the
  first instance's reservation and its log lines, the registration of the destroy job,
  and then events whose deregistrations are those of the reservations of some of the
  remaining instances.
\<close>

lemma Destroy_events:
  "\<exists>evs n. fst (Destroy d p tr ctx insts) = tr @ evs \<and> n \<le> length insts
        \<and> (insts \<noteq> [] \<longrightarrow> 0 < n)
        \<and> deregistrations evs
            = map (\<lambda>x. (Inline, resourceJobID (inst_ID x), True)) (take n insts)
        \<and> (\<forall>inst rest. insts = inst # rest \<longrightarrow>
              prefix [(Inline, JobsDeregister (resourceJobID (inst_ID inst)) True),
                      (Inline, JobsRegister (fst (destroy_template d p tr inst)))] (rpcs evs))"
proof (induction insts arbitrary: tr)
  case Nil
  show ?case by (simp add: Destroy.simps)
next
  case (Cons inst rest)
  define job where "job = fst (destroy_template d p tr inst)"
  define jobID where "jobID = snd (destroy_template d p tr inst)"
  define res where "res = resourceJobID (inst_ID inst)"
  define logr where "logr = destroy_logger ctx inst jobID"
  define dj where "dj = deregisterJob p
     (tr @ [Log DebugLevel logr ''scheduler: freeing up resources ... '']) logr res True"
  define l3 where "l3 = (case snd dj of
                       None \<Rightarrow> Log DebugLevel logr ''scheduler: freed up resources''
                     | Some e \<Rightarrow> Log ErrorLevel (logr @ [(''error'', FErr e)])
                                   ''scheduler: could not free up resources'')"
  define tr4 where "tr4 = fst dj @ [l3,
                     Log InfoLevel logr ''scheduler: freed up resources, submitting destroy job'']"
  define tr5 where "tr5 = tr4 @ [Rpc Inline (JobsRegister job),
                            Log DebugLevel logr ''scheduler: started polling for destroy job'']"
  have D: "Destroy d p tr ctx (inst # rest) =
      (case Jobs_Register (client p) tr4 job of
           Some e \<Rightarrow>
             (tr4 @ [Rpc Inline (JobsRegister job),
                     Log ErrorLevel (logr @ [(''error'', FErr e)])
                       ''scheduler: could not register destroy job''],
              Return (Some e))
         | None \<Rightarrow>
            (case pollForJob d p tr5 ctx jobID logr destroyTimeout False [Dead] of
               (tr6, Panic m) \<Rightarrow> (tr6, Panic m)
             | (tr6, Return (_, Some e)) \<Rightarrow>
                 (tr6 @ [Log ErrorLevel (logr @ [(''error'', FErr e)])
                           ''scheduler: could not complete destroy job''],
                  Return (Some e))
             | (tr6, Return (_, None)) \<Rightarrow> Destroy d p tr6 ctx rest))"
    unfolding Destroy_Cons job_def jobID_def res_def logr_def dj_def l3_def tr4_def tr5_def Let_def
    by (rule refl)
  have l3: "rpcs [l3] = []"
    by (simp add: l3_def split: option.splits)
  have l3d: "deregistrations [l3] = []"
    using l3 by (rule log_no_deregistration)
  from deregisterJob_events [of p "tr @ [Log DebugLevel logr ''scheduler: freeing up resources ... '']" logr res True]
  obtain e1 e2 where dj: "fst dj = tr @ [Log DebugLevel logr ''scheduler: freeing up resources ... '',
        e1, Rpc Inline (JobsDeregister res True), e2]" and e12: "rpcs [e1] = []" "rpcs [e2] = []"
    by (auto simp: dj_def)
  have e12d: "deregistrations [e1] = []" "deregistrations [e2] = []"
    using e12 by (simp_all add: log_no_deregistration)
  define pre where "pre = [Log DebugLevel logr ''scheduler: freeing up resources ... '',
        e1, Rpc Inline (JobsDeregister res True), e2, l3,
        Log InfoLevel logr ''scheduler: freed up resources, submitting destroy job'',
        Rpc Inline (JobsRegister job)]"
  have t4: "tr4 @ [Rpc Inline (JobsRegister job)] = tr @ pre"
    by (simp add: tr4_def dj pre_def)
  have t5: "tr5 = tr @ pre @ [Log DebugLevel logr ''scheduler: started polling for destroy job'']"
    using t4 by (simp add: tr5_def)
  have pre_split: "pre = [Log DebugLevel logr ''scheduler: freeing up resources ... ''] @ [e1]
        @ [Rpc Inline (JobsDeregister res True)] @ [e2] @ [l3]
        @ [Log InfoLevel logr ''scheduler: freed up resources, submitting destroy job'',
           Rpc Inline (JobsRegister job)]"
    by (simp add: pre_def)
  have pre_r: "rpcs pre = [(Inline, JobsDeregister res True), (Inline, JobsRegister job)]"
    unfolding pre_split rpcs_append using e12 l3 by simp
  have pre_d: "deregistrations pre = [(Inline, res, True)]"
    unfolding pre_split deregistrations_append using e12d l3d by simp
  have goal: "\<exists>evs n. fst (Destroy d p tr ctx (inst # rest)) = tr @ pre @ evs
        \<and> n \<le> length rest \<and> deregistrations evs
            = map (\<lambda>x. (Inline, resourceJobID (inst_ID x), True)) (take n rest)"
  proof (cases "Jobs_Register (client p) tr4 job")
    case (Some e)
    have "fst (Destroy d p tr ctx (inst # rest)) = tr @ pre @ [Log ErrorLevel (logr @ [(''error'', FErr e)])
                       ''scheduler: could not register destroy job'']"
      using D Some t4 by simp
    then show ?thesis
      by (intro exI [of _ "[Log ErrorLevel (logr @ [(''error'', FErr e)])
                       ''scheduler: could not register destroy job'']"] exI [of _ 0]) simp
  next
    case None
    from pollForJob_keep_events [of d p tr5 ctx jobID logr destroyTimeout "[Dead]"]
    obtain pe where pe: "fst (pollForJob d p tr5 ctx jobID logr destroyTimeout False [Dead]) = tr5 @ pe"
      and ped: "deregistrations pe = []" by blast
    obtain tr6 out where po: "pollForJob d p tr5 ctx jobID logr destroyTimeout False [Dead] = (tr6, out)"
      by (cases "pollForJob d p tr5 ctx jobID logr destroyTimeout False [Dead]") auto
    with pe have tr6: "tr6 = tr5 @ pe" by simp
    show ?thesis
    proof (cases out)
      case (Panic m)
      have "fst (Destroy d p tr ctx (inst # rest)) = tr6"
        using D None po Panic by simp
      then show ?thesis using tr6 t5 ped
        by (intro exI [of _ "Log DebugLevel logr ''scheduler: started polling for destroy job'' # pe"]
              exI [of _ 0]) simp
    next
      case (Return je)
      obtain j err where je: "je = (j, err)" by (cases je) auto
      show ?thesis
      proof (cases err)
        case (Some e)
        have "fst (Destroy d p tr ctx (inst # rest)) = tr6 @ [Log ErrorLevel (logr @ [(''error'', FErr e)])
                           ''scheduler: could not complete destroy job'']"
          using D None po Return je Some by simp
        then show ?thesis using tr6 t5 ped
          by (intro exI [of _ "Log DebugLevel logr ''scheduler: started polling for destroy job'' # pe
                  @ [Log ErrorLevel (logr @ [(''error'', FErr e)])
                           ''scheduler: could not complete destroy job'']"]
              exI [of _ 0]) simp
      next
        case None': None
        have "fst (Destroy d p tr ctx (inst # rest)) = fst (Destroy d p tr6 ctx rest)"
          using D None po Return je None' by simp
        moreover from Cons.IH [of tr6] obtain evs n where
          "fst (Destroy d p tr6 ctx rest) = tr6 @ evs" "n \<le> length rest"
          "deregistrations evs = map (\<lambda>x. (Inline, resourceJobID (inst_ID x), True)) (take n rest)"
          by blast
        ultimately show ?thesis using tr6 t5 ped
          by (intro exI [of _ "Log DebugLevel logr ''scheduler: started polling for destroy job'' # pe
                  @ evs"] exI [of _ n]) simp
      qed
    qed
  qed
  then obtain evs n where
    g: "fst (Destroy d p tr ctx (inst # rest)) = tr @ pre @ evs" "n \<le> length rest"
       "deregistrations evs = map (\<lambda>x. (Inline, resourceJobID (inst_ID x), True)) (take n rest)"
    by blast
  show ?case
    using g pre_r pre_d
    by (intro exI [of _ "pre @ evs"] exI [of _ "Suc n"])
       (simp add: res_def job_def prefix_def)
qed

lemma prefix_Destroy: "prefix tr (fst (Destroy d p tr ctx insts))"
  using Destroy_events [of d p tr ctx insts] by (auto simp: prefix_def)

lemma deregistrations_Destroy_single:
  "deregistrations (fst (Destroy d p tr ctx [inst]))
     = deregistrations tr @ [(Inline, resourceJobID (inst_ID inst), True)]"
proof -
  from Destroy_events [of d p tr ctx "[inst]"] obtain evs n where
    e: "fst (Destroy d p tr ctx [inst]) = tr @ evs" and n: "n \<le> 1" "0 < n"
    and ds: "deregistrations evs
            = map (\<lambda>x. (Inline, resourceJobID (inst_ID x), True)) (take n [inst])"
    by auto
  from n have "n = 1" by simp
  with e ds show ?thesis by simp
qed

lemma rpcs_Destroy_head:
  "prefix (rpcs tr @ [(Inline, JobsDeregister (resourceJobID (inst_ID inst)) True),
                      (Inline, JobsRegister (fst (destroy_template d p tr inst)))])
     (rpcs (fst (Destroy d p tr ctx (inst # rest))))"
proof -
  from Destroy_events [of d p tr ctx "inst # rest"] obtain evs where
    e: "fst (Destroy d p tr ctx (inst # rest)) = tr @ evs"
    and pr: "prefix [(Inline, JobsDeregister (resourceJobID (inst_ID inst)) True),
                      (Inline, JobsRegister (fst (destroy_template d p tr inst)))] (rpcs evs)"
    by blast
  from pr e show ?thesis by (auto simp: prefix_def)
qed

lemma purged_Destroy: "purged tr \<Longrightarrow> purged (fst (Destroy d p tr ctx insts))"
proof -
  assume a: "purged tr"
  from Destroy_events [of d p tr ctx insts] obtain evs n where
    e: "fst (Destroy d p tr ctx insts) = tr @ evs"
    and ds: "deregistrations evs
            = map (\<lambda>x. (Inline, resourceJobID (inst_ID x), True)) (take n insts)"
    by blast
  show ?thesis using a e ds by (auto simp: purged_def list_all_iff)
qed

lemma fst_deferred_Destroy:
  "fst (deferred_Destroy d p tr inst err) = fst (Destroy d p tr Background [inst])"
  by (auto simp: deferred_Destroy_def split: prod.splits outcome.splits)

lemma deregistrations_deferred_Destroy:
  "deregistrations (fst (deferred_Destroy d p tr inst err))
     = deregistrations tr @ [(Inline, resourceJobID (inst_ID inst), True)]"
  by (simp add: fst_deferred_Destroy deregistrations_Destroy_single)

lemma prefix_deferred_Destroy: "prefix tr (fst (deferred_Destroy d p tr inst err))"
  by (simp add: fst_deferred_Destroy prefix_Destroy)

lemma snd_deferred_Destroy:
  "snd (deferred_Destroy d p tr inst err) = Return x \<Longrightarrow> x = (None, Some err)"
  by (auto simp: deferred_Destroy_def split: prod.splits outcome.splits)

subsection \<open>Create: what it deregisters\<close>

text \<open>
  The deregistrations of the last part of \<^verbatim>\<open>Create\<close>: all purge, and whenever the part
  returns an error the reservation (under the identifier it was given, or under the one
  \<^verbatim>\<open>Destroy\<close> recomputes from the instance) is among them.
\<close>

lemma Create_init_deregistrations:
  "\<exists>ds. deregistrations (fst (Create_init d p tr ctx opts vm script logr0 rid ip nid port))
          = deregistrations tr @ ds
      \<and> list_all (\<lambda>(m, i, purge). purge) ds
      \<and> (\<forall>e. snd (Create_init d p tr ctx opts vm script logr0 rid ip nid port)
                 = Return (None, Some e) \<longrightarrow>
               (Inline, rid, True) \<in> set ds \<or> (Inline, resourceJobID vm, True) \<in> set ds)
      \<and> (\<forall>x e. snd (Create_init d p tr ctx opts vm script logr0 rid ip nid port)
                 = Return (Some x, e) \<longrightarrow> ds = [] \<and> e = None)
      \<and> snd (Create_init d p tr ctx opts vm script logr0 rid ip nid port) \<noteq> Return (None, None)
      \<and> prefix tr (fst (Create_init d p tr ctx opts vm script logr0 rid ip nid port))"
proof -
  define tpl where "tpl = (if noop p then initJobNoop d p vm script port nid
             else initJob (LiteEnginePort d) (vmImage p) (vmCpus p) (vmMemoryGB p)
                    (vmDiskSize p) vm script port nid)"
  define job where "job = fst tpl"
  define jid where "jid = fst (snd tpl)"
  define grp where "grp = snd (snd tpl)"
  define logr where "logr = logr0 @ [(''init_job_id'', FStr jid), (''node_ip'', FStr ip),
                          (''node_port'', FInt port)]"
  define inst where "inst =
            \<lparr>inst_ID = vm,
             inst_NodeID = nid,
             inst_Name = vm,
             inst_Platform = opts_Platform opts,
             inst_State = StateCreated,
             inst_CACert = opts_CACert opts,
             inst_CAKey = opts_CAKey opts,
             inst_TLSCert = opts_TLSCert opts,
             inst_TLSKey = opts_TLSKey opts,
             inst_Provider = Nomad,
             inst_Pool = PoolName opts,
             inst_Started = Now_Unix d tr 0,
             inst_Updated = Now_Unix d tr 1,
             inst_Port = port,
             inst_Address = ip\<rparr>"
  define tr1 where "tr1 = tr @ [Log DebugLevel logr ''scheduler: submitting VM creation job to nomad'']"
  define tr2 where "tr2 = tr1 @ [Rpc Inline (JobsRegister job)]"
  define tr2' where "tr2' = tr2 @ [Log DebugLevel logr
                              (''scheduler: successfully submitted job to nomad, ''
                                 @ ''started polling for job status'')]"
  let ?C = "Create_init d p tr ctx opts vm script logr0 rid ip nid port"
  have C: "?C =
     (case Jobs_Register (client p) tr1 job of
           Some err \<Rightarrow>
             (fst (deregisterJob p tr2 logr rid True),
              Return (None, Some (Sprintf ''scheduler: could not register job, err: %w'' [S err])))
         | None \<Rightarrow>
            (case pollForJob d p tr2' ctx jid logr initTimeout True [Dead] of
               (tr3, Panic m) \<Rightarrow> (tr3, Panic m)
             | (tr3, Return (_, Some err)) \<Rightarrow> deferred_Destroy d p tr3 inst err
             | (tr3, Return (_, None)) \<Rightarrow>
                (case checkTaskGroupStatus p tr3 jid grp of
                   (tr4, Some err) \<Rightarrow>
                     deferred_Destroy d p tr4 inst
                       (Sprintf ''scheduler: init job failed with error: %s'' [S err])
                 | (tr4, None) \<Rightarrow> (tr4, Return (Some inst, None)))))"
    unfolding Create_init_def tpl_def job_def jid_def grp_def logr_def inst_def tr1_def tr2_def
      tr2'_def Let_def split_def
    by (rule refl)
  have iid: "inst_ID inst = vm" by (simp add: inst_def)
  have d2': "deregistrations tr2' = deregistrations tr"
    by (simp add: tr2'_def tr2_def tr1_def)
  have d2: "deregistrations tr2 = deregistrations tr"
    by (simp add: tr2_def tr1_def)
  have p2: "prefix tr tr2" "prefix tr tr2'"
    by (simp_all add: tr2'_def tr2_def tr1_def prefix_def)
  show ?thesis
  proof (cases "Jobs_Register (client p) tr1 job")
    case (Some err)
    have "deregistrations (fst ?C) = deregistrations tr @ [(Inline, rid, True)]"
      "snd ?C = Return (None, Some (Sprintf ''scheduler: could not register job, err: %w'' [S err]))"
      using C Some d2 by (simp_all add: deregistrations_deregisterJob)
    moreover have "prefix tr (fst ?C)"
      using C Some p2(1) prefix_deregisterJob [of tr2 p logr rid True] by simp
    ultimately show ?thesis
      by (intro exI [of _ "[(Inline, rid, True)]"]) simp
  next
    case None
    let ?P = "pollForJob d p tr2' ctx jid logr initTimeout True [Dead]"
    obtain tr3 out where po: "?P = (tr3, out)" by (cases ?P) auto
    define pd where "pd = (if (\<exists>j. snd ?P
                                = Return (Some j, Some ''scheduler: job never reached terminal state''))
            then [(Detached, jid, True)] else [])"
    have d3: "deregistrations tr3 = deregistrations tr @ pd"
      using deregistrations_pollForJob [of d p tr2' ctx jid logr initTimeout True "[Dead]"] po d2'
      by (simp add: pd_def)
    have pdp: "list_all (\<lambda>(m, i, purge). purge) pd" by (simp add: pd_def)
    have p3: "prefix tr tr3"
      using prefix_pollForJob [of tr2' d p ctx jid logr initTimeout True "[Dead]"] po p2(2)
      by simp
    show ?thesis
    proof (cases out)
      case (Panic m)
      have "fst ?C = tr3" "snd ?C = Panic m" using C None po Panic by simp_all
      then show ?thesis using d3 pdp p3 by (intro exI [of _ pd]) simp
    next
      case (Return je)
      obtain j err where je: "je = (j, err)" by (cases je) auto
      show ?thesis
      proof (cases err)
        case (Some e)
        have c: "?C = deferred_Destroy d p tr3 inst e" using C None po Return je Some by simp
        have "deregistrations (fst ?C) = deregistrations tr @ pd @ [(Inline, resourceJobID vm, True)]"
          using c d3 iid by (simp add: deregistrations_deferred_Destroy)
        moreover have "\<And>x. snd ?C = Return x \<Longrightarrow> x = (None, Some e)"
          using c snd_deferred_Destroy [of d p tr3 inst e] by simp
        moreover have "prefix tr (fst ?C)"
          unfolding c by (rule prefix_order.trans [OF p3 prefix_deferred_Destroy])
        ultimately show ?thesis using pdp
          by (intro exI [of _ "pd @ [(Inline, resourceJobID vm, True)]"]) auto
      next
        case None': None
        have pdn: "pd = []"
          using po Return je None' by (simp add: pd_def)
        let ?K = "checkTaskGroupStatus p tr3 jid grp"
        obtain tr4 ce where ck: "?K = (tr4, ce)" by (cases ?K) auto
        have d4: "deregistrations tr4 = deregistrations tr"
          using deregistrations_checkTaskGroupStatus [of p tr3 jid grp] ck d3 pdn by simp
        have p4: "prefix tr tr4"
          using prefix_checkTaskGroupStatus [of tr3 p jid grp] ck p3 by simp
        show ?thesis
        proof (cases ce)
          case (Some e)
          have c: "?C = deferred_Destroy d p tr4 inst
                       (Sprintf ''scheduler: init job failed with error: %s'' [S e])"
            using C None po Return je None' ck Some by simp
          have "deregistrations (fst ?C) = deregistrations tr @ [(Inline, resourceJobID vm, True)]"
            using c d4 iid by (simp add: deregistrations_deferred_Destroy)
          moreover have "\<And>x. snd ?C = Return x \<Longrightarrow>
              x = (None, Some (Sprintf ''scheduler: init job failed with error: %s'' [S e]))"
            using c snd_deferred_Destroy [of d p tr4 inst] by simp
          moreover have "prefix tr (fst ?C)"
            unfolding c by (rule prefix_order.trans [OF p4 prefix_deferred_Destroy])
          ultimately show ?thesis
            by (intro exI [of _ "[(Inline, resourceJobID vm, True)]"]) auto
        next
          case None'': None
          have "fst ?C = tr4" "snd ?C = Return (Some inst, None)"
            using C None po Return je None' ck None'' by simp_all
          then show ?thesis using d4 p4 by (intro exI [of _ "[]"]) simp
        qed
      qed
    qed
  qed
qed


lemma Create_resolve_deregistrations:
  "\<exists>ds. deregistrations (fst (Create_resolve d p tr ctx opts vm script logr rid))
          = deregistrations tr @ ds
      \<and> list_all (\<lambda>(m, i, purge). purge) ds
      \<and> (\<forall>e. snd (Create_resolve d p tr ctx opts vm script logr rid) = Return (None, Some e) \<longrightarrow>
               (Inline, rid, True) \<in> set ds \<or> (Inline, resourceJobID vm, True) \<in> set ds)
      \<and> (\<forall>x e. snd (Create_resolve d p tr ctx opts vm script logr rid) = Return (Some x, e) \<longrightarrow>
               ds = [] \<and> e = None)
      \<and> snd (Create_resolve d p tr ctx opts vm script logr rid) \<noteq> Return (None, None)
      \<and> prefix tr (fst (Create_resolve d p tr ctx opts vm script logr rid))"
proof -
  let ?C = "Create_resolve d p tr ctx opts vm script logr rid"
  define tr0 where "tr0 = tr @ [Log InfoLevel logr ''scheduler: found a node with available resources'']"
  let ?F = "fetchMachine p tr0 logr rid"
  obtain tr1 out where f: "?F = (tr1, out)" by (cases ?F) auto
  have d1: "deregistrations tr1 = deregistrations tr"
    using deregistrations_fetchMachine [of p tr0 logr rid] f by (simp add: tr0_def)
  have p1: "prefix tr tr1"
    using prefix_fetchMachine [of tr0 p logr rid] f by (auto simp: tr0_def prefix_def)
  show ?thesis
  proof (cases out)
    case (Panic m)
    have "fst ?C = tr1" "snd ?C = Panic m"
      using f Panic by (simp_all add: Create_resolve_def tr0_def)
    then show ?thesis using d1 p1 by (intro exI [of _ "[]"]) simp
  next
    case (Return r)
    obtain ip nid port err where r: "r = (ip, nid, port, err)" by (cases r) auto
    show ?thesis
    proof (cases err)
      case (Some e)
      have c: "?C = (fst (deregisterJob p tr1 logr rid True), Return (None, Some e))"
        using f Return r Some by (simp add: Create_resolve_def tr0_def)
      have "deregistrations (fst ?C) = deregistrations tr @ [(Inline, rid, True)]"
        using c d1 by (simp add: deregistrations_deregisterJob)
      moreover have "prefix tr (fst ?C)"
        using c p1 prefix_deregisterJob [of tr1 p logr rid True] by simp
      ultimately show ?thesis using c
        by (intro exI [of _ "[(Inline, rid, True)]"]) simp
    next
      case None
      have c: "?C = Create_init d p tr1 ctx opts vm script logr rid ip nid port"
        using f Return r None by (simp add: Create_resolve_def tr0_def)
      from Create_init_deregistrations [of d p tr1 ctx opts vm script logr rid ip nid port]
      obtain ds where
        "deregistrations (fst ?C) = deregistrations tr1 @ ds"
        "list_all (\<lambda>(m, i, purge). purge) ds"
        "\<forall>e. snd ?C = Return (None, Some e) \<longrightarrow>
               (Inline, rid, True) \<in> set ds \<or> (Inline, resourceJobID vm, True) \<in> set ds"
        "\<forall>x e. snd ?C = Return (Some x, e) \<longrightarrow> ds = [] \<and> e = None"
        "snd ?C \<noteq> Return (None, None)"
        "prefix tr1 (fst ?C)"
        unfolding c by blast
      then show ?thesis using d1 p1
        by (intro exI [of _ ds]) auto
    qed
  qed
qed

lemma snd_resourceJob: "snd (resourceJob cpus memGB vm) = resourceJobID vm"
  by (simp add: resourceJob_def Let_def)

text \<open>
  \<^verbatim>\<open>Create\<close> once both conversions have succeeded, with the pairs of the definition taken
  apart.
\<close>

lemma Create_parsed:
  assumes "Atoi (vmCpus p) = Some cpus" and "Atoi (vmMemoryGB p) = Some memGB"
  shows "Create d p tr ctx opts =
     (let vm = ToLower (random d tr 20);
          tpl = (if noop p then resourceJobNoop d p cpus memGB vm else resourceJob cpus memGB vm);
          logr = FromContext ctx @ [(''vm'', FStr vm), (''resource_job_id'', FStr (snd tpl))];
          tr1 = tr @ [Log InfoLevel logr
                        ''scheduler: finding a node which has available resources ... '']
      in case Jobs_Register (client p) tr1 (fst tpl) of
           Some err \<Rightarrow>
             (tr1 @ [Rpc Inline (JobsRegister (fst tpl))],
              Return (None, Some (''scheduler: could not register job, err: '' @ err)))
         | None \<Rightarrow>
            (case pollForJob d p (tr1 @ [Rpc Inline (JobsRegister (fst tpl))]) ctx (snd tpl) logr
                    resourceJobTimeout True [Running, Dead] of
               (tr3, Panic m) \<Rightarrow> (tr3, Panic m)
             | (tr3, Return (_, Some err)) \<Rightarrow>
                 (tr3, Return (None,
                    Some (''scheduler: could not find a node with available resources, err: ''
                            @ err)))
             | (tr3, Return (_, None)) \<Rightarrow>
                 Create_resolve d p tr3 ctx opts vm (generateStartupScript d opts) logr (snd tpl)))"
  using assms
  by (simp add: Create_def Let_def split_def render_def split del: if_split
           cong: option.case_cong outcome.case_cong)

lemma Create_events:
  "\<exists>ds. deregistrations (fst (Create d p tr ctx opts)) = deregistrations tr @ ds
      \<and> list_all (\<lambda>(m, i, purge). purge) ds
      \<and> prefix tr (fst (Create d p tr ctx opts))
      \<and> (\<forall>cpus memGB e.
            Atoi (vmCpus p) = Some cpus \<and> Atoi (vmMemoryGB p) = Some memGB \<and> \<not> noop p
            \<and> snd (Create d p tr ctx opts) = Return (None, Some e)
            \<and> e \<noteq> ''scheduler: could not find a node with available resources, err: could not poll for job''
            \<and> (\<forall>t. Jobs_Register (client p) t
                       (fst (resourceJob cpus memGB (ToLower (random d tr 20)))) = None)
            \<longrightarrow> (\<exists>m. (m, resourceJobID (ToLower (random d tr 20)), True) \<in> set ds))"
proof (cases "\<exists>cpus memGB. Atoi (vmCpus p) = Some cpus \<and> Atoi (vmMemoryGB p) = Some memGB")
  case False
  then have "fst (Create d p tr ctx opts) = tr"
    by (auto simp: Create_def Let_def split: option.splits)
  with False show ?thesis by (intro exI [of _ "[]"]) auto
next
  case True
  then obtain cpus memGB where a: "Atoi (vmCpus p) = Some cpus" "Atoi (vmMemoryGB p) = Some memGB"
    by blast
  define vm where "vm = ToLower (random d tr 20)"
  define tpl where "tpl = (if noop p then resourceJobNoop d p cpus memGB vm else resourceJob cpus memGB vm)"
  define logr where "logr = FromContext ctx @ [(''vm'', FStr vm), (''resource_job_id'', FStr (snd tpl))]"
  define tr1 where "tr1 = tr @ [Log InfoLevel logr
                        ''scheduler: finding a node which has available resources ... '']"
  define tr2 where "tr2 = tr1 @ [Rpc Inline (JobsRegister (fst tpl))]"
  let ?C = "Create d p tr ctx opts"
  let ?P = "pollForJob d p tr2 ctx (snd tpl) logr resourceJobTimeout True [Running, Dead]"
  have C: "?C =
      (case Jobs_Register (client p) tr1 (fst tpl) of
           Some err \<Rightarrow>
             (tr2, Return (None, Some (''scheduler: could not register job, err: '' @ err)))
         | None \<Rightarrow>
            (case ?P of
               (tr3, Panic m) \<Rightarrow> (tr3, Panic m)
             | (tr3, Return (_, Some err)) \<Rightarrow>
                 (tr3, Return (None,
                    Some (''scheduler: could not find a node with available resources, err: ''
                            @ err)))
             | (tr3, Return (_, None)) \<Rightarrow>
                 Create_resolve d p tr3 ctx opts vm (generateStartupScript d opts) logr (snd tpl)))"
    unfolding Create_parsed [OF a] vm_def tpl_def logr_def tr1_def tr2_def Let_def
    by (rule refl)
  have rid: "\<not> noop p \<Longrightarrow> snd tpl = resourceJobID vm"
    by (simp add: tpl_def snd_resourceJob)
  have d2: "deregistrations tr2 = deregistrations tr" by (simp add: tr2_def tr1_def)
  have p2: "prefix tr tr2" by (simp add: tr2_def tr1_def prefix_def)
  have goal: "\<exists>ds. deregistrations (fst ?C) = deregistrations tr @ ds
      \<and> list_all (\<lambda>(m, i, purge). purge) ds
      \<and> prefix tr (fst ?C)
      \<and> (\<forall>e. \<not> noop p \<and> snd ?C = Return (None, Some e)
            \<and> e \<noteq> ''scheduler: could not find a node with available resources, err: could not poll for job''
            \<and> (\<forall>t. Jobs_Register (client p) t (fst (resourceJob cpus memGB vm)) = None)
            \<longrightarrow> (\<exists>m. (m, resourceJobID vm, True) \<in> set ds))"
  proof (cases "Jobs_Register (client p) tr1 (fst tpl)")
    case (Some err)
    then have "fst ?C = tr2" using C by simp
    then show ?thesis using d2 p2 Some by (intro exI [of _ "[]"]) (auto simp: tpl_def)
  next
    case None
    obtain tr3 out where po: "?P = (tr3, out)" by (cases ?P) auto
    have p3: "prefix tr tr3"
      using prefix_pollForJob [of tr2 d p ctx "snd tpl" logr resourceJobTimeout True "[Running, Dead]"]
        po p2 by simp
    show ?thesis
    proof (cases out)
      case (Panic m)
      have c: "fst ?C = tr3" "snd ?C = Panic m" using C None po Panic by simp_all
      have "deregistrations tr3 = deregistrations tr"
        using deregistrations_pollForJob [of d p tr2 ctx "snd tpl" logr resourceJobTimeout True "[Running, Dead]"]
          po Panic d2 by simp
      then show ?thesis using c p3 by (intro exI [of _ "[]"]) simp
    next
      case (Return je)
      obtain j err where je: "je = (j, err)" by (cases je) auto
      have sp: "snd ?P = Return (j, err)" using po Return je by simp
      from pollForJob_cases [OF sp] obtain terminal where
        e: "err = (if j = None then Some ''could not poll for job''
                  else if terminal then None
                  else Some ''scheduler: job never reached terminal state'')"
        and dr: "deregistrations (fst ?P) = deregistrations tr2
                @ (if j \<noteq> None \<and> \<not> terminal \<and> True then [(Detached, snd tpl, True)] else [])"
        by blast
      show ?thesis
      proof (cases err)
        case (Some pe)
        have c: "fst ?C = tr3"
          "snd ?C = Return (None,
             Some (''scheduler: could not find a node with available resources, err: '' @ pe))"
          using C None po Return je Some by simp_all
        show ?thesis
        proof (cases j)
          case None': None
          have "pe = ''could not poll for job''" using e Some None' by simp
          moreover have "deregistrations tr3 = deregistrations tr"
            using dr po None' d2 by simp
          ultimately show ?thesis using c p3 by (intro exI [of _ "[]"]) simp
        next
          case Some': (Some jj)
          have "\<not> terminal" using e Some Some' by (simp split: if_splits)
          then have "deregistrations tr3 = deregistrations tr @ [(Detached, snd tpl, True)]"
            using dr po Some' d2 by simp
          then show ?thesis using c p3 rid
            by (intro exI [of _ "[(Detached, snd tpl, True)]"]) auto
        qed
      next
        case None': None
        have t: "j \<noteq> None \<and> terminal" using e None' by (simp split: if_splits)
        have d3: "deregistrations tr3 = deregistrations tr" using dr po t d2 by simp
        have c: "?C = Create_resolve d p tr3 ctx opts vm (generateStartupScript d opts) logr (snd tpl)"
          using C None po Return je None' by simp
        from Create_resolve_deregistrations [of d p tr3 ctx opts vm "generateStartupScript d opts" logr "snd tpl"]
        obtain ds where
          "deregistrations (fst ?C) = deregistrations tr3 @ ds"
          "list_all (\<lambda>(m, i, purge). purge) ds"
          "\<forall>e. snd ?C = Return (None, Some e) \<longrightarrow>
               (Inline, snd tpl, True) \<in> set ds \<or> (Inline, resourceJobID vm, True) \<in> set ds"
          "prefix tr3 (fst ?C)"
          unfolding c by blast
        then show ?thesis using d3 p3 rid
          by (intro exI [of _ ds]) auto
      qed
    qed
  qed
  then obtain ds where
    g: "deregistrations (fst ?C) = deregistrations tr @ ds"
      "list_all (\<lambda>(m, i, purge). purge) ds" "prefix tr (fst ?C)"
      "\<forall>e. \<not> noop p \<and> snd ?C = Return (None, Some e)
            \<and> e \<noteq> ''scheduler: could not find a node with available resources, err: could not poll for job''
            \<and> (\<forall>t. Jobs_Register (client p) t (fst (resourceJob cpus memGB vm)) = None)
            \<longrightarrow> (\<exists>m. (m, resourceJobID vm, True) \<in> set ds)"
    by blast
  show ?thesis
    using g a unfolding vm_def
    by (intro exI [of _ ds]) auto
qed

lemma Atoi_2: "Atoi ''2'' = Some 2" "Atoi ''4'' = Some 4" "Atoi ''0'' = Some 0"
  by (simp_all add: Atoi_def is_digit_def decimal_def digit_val_def)

lemma ToLower_example: "ToLower ''k3vq8zb1m0xw7t2ld5ra'' = ''k3vq8zb1m0xw7t2ld5ra''"
  by (simp add: ToLower_def lower_char_def)

text \<open>
  Claim C1 (no reservation leak) fails on the code. \<^verbatim>\<open>pollForJob\<close> returns "could not poll
  for job" before it looks at \<^verbatim>\<open>remove\<close> when the last call to \<^verbatim>\<open>Info\<close> gave no job
  (every call failed, or the context was done before the first one), and \<^verbatim>\<open>Create\<close>
  returns the wrapped error without a deregistration of its own. Here the scheduler
  accepts the reservation and then refuses the one status query made before the
  timeout: \<^verbatim>\<open>Create\<close> returns an error, the reservation job was registered, and nothing
  was deregistered.
\<close>

theorem Create_reservation_leak:
  "snd (Create example_package
          (example_config\<lparr>client := example_scheduler
             \<lparr>Jobs_Info := \<lambda>tr ctx timeout i. [InfoError ''connection refused'']\<rparr>\<rparr>)
          [] Background example_opts)
     = Return (None, Some (''scheduler: could not find a node with available resources, ''
                             @ ''err: could not poll for job''))
   \<and> rpcs (fst (Create example_package
          (example_config\<lparr>client := example_scheduler
             \<lparr>Jobs_Info := \<lambda>tr ctx timeout i. [InfoError ''connection refused'']\<rparr>\<rparr>)
          [] Background example_opts))
     = [(Inline, JobsRegister (fst (resourceJob 2 4 ''k3vq8zb1m0xw7t2ld5ra''))),
        (Inline, JobsInfo ''init_job_resources_k3vq8zb1m0xw7t2ld5ra'' (15 * Second) 0)]
   \<and> deregistrations (fst (Create example_package
          (example_config\<lparr>client := example_scheduler
             \<lparr>Jobs_Info := \<lambda>tr ctx timeout i. [InfoError ''connection refused'']\<rparr>\<rparr>)
          [] Background example_opts)) = []"
proof -
  let ?p = "example_config\<lparr>client := example_scheduler
             \<lparr>Jobs_Info := \<lambda>tr ctx timeout i. [InfoError ''connection refused'']\<rparr>\<rparr>"
  have a: "Atoi (vmCpus ?p) = Some 2" "Atoi (vmMemoryGB ?p) = Some 4"
    by (simp_all add: example_config_def Atoi_2)
  have n: "noop ?p = False" "random example_package [] 20 = ''k3vq8zb1m0xw7t2ld5ra''"
    by (simp_all add: example_config_def example_package_def)
  have c: "Jobs_Register (client ?p) = (\<lambda>tr j. None)"
     "Jobs_Info (client ?p) = (\<lambda>tr ctx timeout i. [InfoError ''connection refused''])"
    by (simp_all add: example_config_def example_scheduler_def)
  show ?thesis
    unfolding Create_parsed [OF a]
    by (simp add: Let_def n c ToLower_example snd_resourceJob job_ids pollForJob_def
          example_config_def example_scheduler_def)
qed

text \<open>
  The compensation of \<^verbatim>\<open>Create\<close>, where it holds: once the reservation is registered,
  every error return but the one that wraps "could not poll for job" comes with a
  deregistration of the reservation, with purge.
\<close>

lemma Create_compensates:
  assumes "Atoi (vmCpus p) = Some cpus" and "Atoi (vmMemoryGB p) = Some memGB" and "\<not> noop p"
    and "\<forall>t. Jobs_Register (client p) t
               (fst (resourceJob cpus memGB (ToLower (random d tr 20)))) = None"
    and "snd (Create d p tr ctx opts) = Return (None, Some e)"
    and "e \<noteq> ''scheduler: could not find a node with available resources, err: could not poll for job''"
  shows "\<exists>m. (m, resourceJobID (ToLower (random d tr 20)), True)
               \<in> set (deregistrations (fst (Create d p tr ctx opts)))"
  using Create_events [of d p tr ctx opts] assms by auto

lemma purged_Create: "purged tr \<Longrightarrow> purged (fst (Create d p tr ctx opts))"
  using Create_events [of d p tr ctx opts] by (auto simp: purged_def)

subsection \<open>The reservation's resources\<close>

lemma wrap64_id: "- (2 ^ 63) \<le> k \<Longrightarrow> k < 2 ^ 63 \<Longrightarrow> wrap64 k = k"
  by (simp add: wrap64_def signed_take_bit_int_eq_self_iff)

lemma wrap64_mod: "wrap64 k = (k + 2 ^ 63) mod 2 ^ 64 - 2 ^ 63"
  by (simp add: wrap64_def signed_take_bit_eq_take_bit_shift take_bit_eq_mod)

lemma cpu_mhz_resourceJob:
  "cpu_mhz (fst (resourceJob cpus memGB vm)) = wrap64 (wrap64 (5100 * cpus) - 109)"
  by (simp add: cpu_mhz_def task_cpu_def resourceJob_def Let_def machineFrequencyMhz_def)

lemma memory_mb_resourceJob:
  "memory_mb (fst (resourceJob cpus memGB vm)) = wrap64 (wrap64 (memGB * 1024) - 53)"
  by (simp add: memory_mb_def task_memory_def resourceJob_def Let_def convertGigsToMegs_def)

lemma cpu_in_range:
  assumes "1 \<le> cpus" and "cpus \<le> 1808504320951916"
  shows "wrap64 (wrap64 (5100 * cpus) - 109) = 5100 * cpus - 109"
proof -
  have "wrap64 (5100 * cpus) = 5100 * cpus"
    using assms by (intro wrap64_id) simp_all
  moreover have "wrap64 (5100 * cpus - 109) = 5100 * cpus - 109"
    using assms by (intro wrap64_id) simp_all
  ultimately show ?thesis by simp
qed

lemma memory_in_range:
  assumes "1 \<le> memGB" and "memGB \<le> 9007199254740991"
  shows "wrap64 (wrap64 (memGB * 1024) - 53) = memGB * 1024 - 53"
proof -
  have "wrap64 (memGB * 1024) = memGB * 1024"
    using assms by (intro wrap64_id) simp_all
  moreover have "wrap64 (memGB * 1024 - 53) = memGB * 1024 - 53"
    using assms by (intro wrap64_id) simp_all
  ultimately show ?thesis by simp
qed

text \<open>
  Claim C5 (reservation resource arithmetic), amended. Where the products do not leave
  Go's 64-bit \<^verbatim>\<open>int\<close>, that is for \<^verbatim>\<open>vm_cpus\<close> from 1 to 1808504320951916 and
  \<^verbatim>\<open>vm_memory_gb\<close> from 1 to 9007199254740991, the reservation job requests
  \<^verbatim>\<open>vm_cpus * 5100 - 109\<close> MHz and \<^verbatim>\<open>vm_memory_gb * 1024 - 53\<close> MB; both are strictly
  less than \<^verbatim>\<open>vm_cpus * 5100\<close> and \<^verbatim>\<open>vm_memory_gb * 1024\<close>, and strictly increasing in
  their input within these ranges.
\<close>

theorem reservation_resources:
  assumes "1 \<le> cpus" and "cpus \<le> 1808504320951916"
    and "1 \<le> memGB" and "memGB \<le> 9007199254740991"
  shows "cpu_mhz (fst (resourceJob cpus memGB vm)) = cpus * 5100 - 109
       \<and> memory_mb (fst (resourceJob cpus memGB vm)) = memGB * 1024 - 53
       \<and> cpu_mhz (fst (resourceJob cpus memGB vm)) < cpus * 5100
       \<and> memory_mb (fst (resourceJob cpus memGB vm)) < memGB * 1024
       \<and> (\<forall>cpus' memGB' vm'. cpus < cpus' \<and> cpus' \<le> 1808504320951916 \<longrightarrow>
             cpu_mhz (fst (resourceJob cpus memGB vm)) < cpu_mhz (fst (resourceJob cpus' memGB' vm')))
       \<and> (\<forall>cpus' memGB' vm'. memGB < memGB' \<and> memGB' \<le> 9007199254740991 \<longrightarrow>
             memory_mb (fst (resourceJob cpus memGB vm))
               < memory_mb (fst (resourceJob cpus' memGB' vm')))"
  using assms
  by (auto simp: cpu_mhz_resourceJob memory_mb_resourceJob cpu_in_range memory_in_range)

text \<open>
  Two CPUs and four gigabytes, the shape of the specification's first scenario.
\<close>

theorem reservation_resources_witness:
  "(1::int) \<le> 2 \<and> (2::int) \<le> 1808504320951916 \<and> (1::int) \<le> 4 \<and> (4::int) \<le> 9007199254740991
   \<and> cpu_mhz (fst (resourceJob 2 4 ''vm1'')) = 10091
   \<and> memory_mb (fst (resourceJob 2 4 ''vm1'')) = 4043
   \<and> cpu_mhz (fst (resourceJob 2 4 ''vm1'')) < cpu_mhz (fst (resourceJob 3 4 ''vm1''))
   \<and> memory_mb (fst (resourceJob 2 4 ''vm1'')) < memory_mb (fst (resourceJob 2 5 ''vm1''))"
proof -
  have h: "(1::int) \<le> 2" "(2::int) \<le> 1808504320951916" "(1::int) \<le> 4" "(4::int) \<le> 9007199254740991"
    by simp_all
  note r = reservation_resources [OF h, of "''vm1''"]
  from r have "cpu_mhz (fst (resourceJob 2 4 ''vm1'')) < cpu_mhz (fst (resourceJob 3 4 ''vm1''))"
    by (elim conjE allE [of _ 3] allE [of _ 4] allE [of _ "''vm1''"]) simp
  moreover
  from r have "memory_mb (fst (resourceJob 2 4 ''vm1'')) < memory_mb (fst (resourceJob 2 5 ''vm1''))"
    by (elim conjE allE [of _ 2] allE [of _ 5] allE [of _ "''vm1''"]) simp
  ultimately show ?thesis using r by simp
qed

text \<open>
  The claim as stated, for all positive integers, fails: for 2000000000000000 CPUs the
  product wraps around, the request is negative, and it is below the request for two.
\<close>

theorem reservation_resources_counterexample:
  "cpu_mhz (fst (resourceJob 2000000000000000 4 ''vm1'')) = - 8246744073709551725
   \<and> cpu_mhz (fst (resourceJob 2000000000000000 4 ''vm1'')) \<noteq> 2000000000000000 * 5100 - 109
   \<and> \<not> cpu_mhz (fst (resourceJob 2 4 ''vm1''))
         < cpu_mhz (fst (resourceJob 2000000000000000 4 ''vm1''))"
  by (simp add: cpu_mhz_resourceJob wrap64_mod)

subsection \<open>Templates, identifiers and purging\<close>

text \<open>
  Claim C4 (the shape of the job templates), amended. Each of the three templates
  gives a batch job for the single datacenter \<^verbatim>\<open>dc1\<close> with exactly one task group, of
  count 1 and with \<^verbatim>\<open>stop_after_client_disconnect\<close> of four minutes; the restart
  attempts are 0 for the reservation and the init job and 3 for the destroy job. The
  reservation and the init job set the reschedule attempts to 0; the destroy job sets
  no reschedule policy at all.
\<close>

theorem job_template_shape:
  "Type (fst (resourceJob cpus memGB vm)) = Some ''batch''
   \<and> Datacenters (fst (resourceJob cpus memGB vm)) = [''dc1'']
   \<and> reschedule_attempts (fst (resourceJob cpus memGB vm)) = Some 0
   \<and> restart_attempts (fst (resourceJob cpus memGB vm)) = [Some 0]
   \<and> map StopAfterClientDisconnect (TaskGroups (fst (resourceJob cpus memGB vm)))
        = [Some (4 * 60 * 1000000000)]
   \<and> map Count (TaskGroups (fst (resourceJob cpus memGB vm))) = [Some 1]
   \<and> Type (fst (initJob port img c m dsk vm script hostPort nodeID)) = Some ''batch''
   \<and> Datacenters (fst (initJob port img c m dsk vm script hostPort nodeID)) = [''dc1'']
   \<and> reschedule_attempts (fst (initJob port img c m dsk vm script hostPort nodeID)) = Some 0
   \<and> restart_attempts (fst (initJob port img c m dsk vm script hostPort nodeID)) = [Some 0]
   \<and> map StopAfterClientDisconnect
         (TaskGroups (fst (initJob port img c m dsk vm script hostPort nodeID)))
        = [Some (4 * 60 * 1000000000)]
   \<and> map Count (TaskGroups (fst (initJob port img c m dsk vm script hostPort nodeID))) = [Some 1]
   \<and> Type (fst (destroyJob name vm nodeID)) = Some ''batch''
   \<and> Datacenters (fst (destroyJob name vm nodeID)) = [''dc1'']
   \<and> Reschedule (fst (destroyJob name vm nodeID)) = None
   \<and> restart_attempts (fst (destroyJob name vm nodeID)) = [Some 3]
   \<and> map StopAfterClientDisconnect (TaskGroups (fst (destroyJob name vm nodeID)))
        = [Some (4 * 60 * 1000000000)]
   \<and> map Count (TaskGroups (fst (destroyJob name vm nodeID))) = [Some 1]"
  by (simp add: resourceJob_def initJob_def destroyJob_def Let_def reschedule_attempts_def
        restart_attempts_def clientDisconnectTimeout_def Minute_def Second_def
        destroyRetryAttempts_def)

text \<open>
  The claim as stated gives the destroy job reschedule attempts 0: it has none.
\<close>

theorem job_template_shape_counterexample:
  "reschedule_attempts (fst (destroyJob ''r4nd0m'' ''k3vq8zb1m0xw7t2ld5ra'' ''n1'')) \<noteq> Some 0"
  by (simp add: destroyJob_def Let_def reschedule_attempts_def)

text \<open>
  Claim C6 (job identifiers). For every instance identifier \<open>s\<close> the three job
  identifiers are the prefixes \<^verbatim>\<open>init_job_resources_\<close>, \<^verbatim>\<open>init_job_\<close> and \<^verbatim>\<open>destroy_job_\<close>
  followed by \<open>s\<close>, and they are pairwise distinct; the reservation template registers
  its job under the first. \<^verbatim>\<open>Destroy\<close>, for any scheduler, configuration, context and
  instance, first deregisters the job named \<^verbatim>\<open>init_job_resources_\<close> followed by the
  instance's identifier: it computes the name from the identifier alone.
\<close>

theorem job_id_derivation:
  "resourceJobID s = ''init_job_resources_'' @ s
   \<and> initJobID s = ''init_job_'' @ s
   \<and> destroyJobID s = ''destroy_job_'' @ s
   \<and> distinct [resourceJobID s, initJobID s, destroyJobID s]
   \<and> job_ID (fst (resourceJob cpus memGB s)) = Some (resourceJobID s)
   \<and> snd (resourceJob cpus memGB s) = resourceJobID s
   \<and> prefix (rpcs tr @ [(Inline, JobsDeregister (''init_job_resources_'' @ inst_ID inst) True)])
        (rpcs (fst (Destroy d p tr ctx (inst # rest))))"
proof -
  have "prefix (rpcs tr @ [(Inline, JobsDeregister (''init_job_resources_'' @ inst_ID inst) True)])
        (rpcs (fst (Destroy d p tr ctx (inst # rest))))"
    using rpcs_Destroy_head [of tr inst d p ctx rest] by (auto simp: prefix_def job_ids)
  moreover have "job_ID (fst (resourceJob cpus memGB s)) = Some (resourceJobID s)"
    by (simp add: resourceJob_def Let_def)
  ultimately show ?thesis
    by (simp add: job_ids snd_resourceJob)
qed

text \<open>
  Claim C10 (\<^verbatim>\<open>deregisterJob\<close> ignores its purge parameter). Whatever \<open>purge\<close> is, the one
  call \<^verbatim>\<open>deregisterJob\<close> makes is \<^verbatim>\<open>Deregister\<close> of the job with purge set, and its
  result is the scheduler's answer to that call; the parameter only reaches the log
  fields. So every deregistration in a run of \<^verbatim>\<open>Create\<close> or of \<^verbatim>\<open>Destroy\<close> purges.
\<close>

theorem deregisterJob_purges:
  "rpcs (fst (deregisterJob p tr logr i purge)) = rpcs tr @ [(Inline, JobsDeregister i True)]
   \<and> snd (deregisterJob p tr logr i purge)
       = Jobs_Deregister (client p)
           (tr @ [Log TraceLevel (logr @ [(''job_id'', FStr i), (''purge'', FBool purge)])
                    ''scheduler: trying to deregister job'']) i True
   \<and> purged (fst (Create d p [] ctx opts))
   \<and> purged (fst (Destroy d p [] ctx insts))"
proof -
  have "purged []" by (simp add: purged_def)
  then show ?thesis
    using purged_Create [of "[]" d p ctx opts] purged_Destroy [of "[]" d p ctx insts]
    by (simp add: deregisterJob_def Let_def split: option.splits)
qed

subsection \<open>Create: validation\<close>

lemma Atoi_not_numeric: "\<not> numeric s \<Longrightarrow> Atoi s = None"
  unfolding numeric_def Atoi_def Let_def by (simp split del: if_split)

lemma numeric_zero: "numeric ''0''"
  by (simp add: numeric_def is_digit_def)

lemma Create_cpus_error:
  "Atoi (vmCpus p) = None \<Longrightarrow>
   Create d p tr ctx opts = (tr, Return (None, Some ''could not convert VM cpus to integer''))"
  unfolding Create_def Let_def by (simp only: option.case)

lemma Create_memory_error:
  "Atoi (vmCpus p) = Some cpus \<Longrightarrow> Atoi (vmMemoryGB p) = None \<Longrightarrow>
   Create d p tr ctx opts = (tr, Return (None, Some ''could  not convert VM memory to integer''))"
  unfolding Create_def Let_def by (simp only: option.case)

text \<open>
  Claim C3 (the validation boundary), amended. For every driver configuration in which
  \<^verbatim>\<open>vm_cpus\<close> or \<^verbatim>\<open>vm_memory_gb\<close> is not a numeric text, \<^verbatim>\<open>Create\<close> returns a validation
  error and leaves the trace as it found it: no scheduler call is made, no job is
  registered. (The text \<^verbatim>\<open>"0"\<close> is numeric and is not rejected: see the counterexample.)
\<close>

theorem Create_validation:
  assumes "\<not> numeric (vmCpus p) \<or> \<not> numeric (vmMemoryGB p)"
  shows "fst (Create d p tr ctx opts) = tr
       \<and> snd (Create d p tr ctx opts)
           = Return (None,
               Some (if Atoi (vmCpus p) = None then ''could not convert VM cpus to integer''
                     else ''could  not convert VM memory to integer''))"
proof (cases "Atoi (vmCpus p)")
  case None
  from Create_cpus_error [OF None, of d tr ctx opts] None show ?thesis by simp
next
  case (Some cpus)
  then have "numeric (vmCpus p)" using Atoi_not_numeric [of "vmCpus p"] by auto
  with assms have "Atoi (vmMemoryGB p) = None" using Atoi_not_numeric by blast
  from Create_memory_error [OF Some this, of d tr ctx opts] Some show ?thesis by simp
qed

text \<open>
  A configuration with \<^verbatim>\<open>vm_cpus = "two"\<close>, and one with \<^verbatim>\<open>vm_memory_gb = "4GB"\<close>.
\<close>

theorem Create_validation_witness:
  "\<not> numeric (vmCpus (example_config\<lparr>vmCpus := ''two''\<rparr>))
   \<and> fst (Create example_package (example_config\<lparr>vmCpus := ''two''\<rparr>) [] Background example_opts) = []
   \<and> snd (Create example_package (example_config\<lparr>vmCpus := ''two''\<rparr>) [] Background example_opts)
       = Return (None, Some ''could not convert VM cpus to integer'')
   \<and> \<not> numeric (vmMemoryGB (example_config\<lparr>vmMemoryGB := ''4GB''\<rparr>))
   \<and> fst (Create example_package (example_config\<lparr>vmMemoryGB := ''4GB''\<rparr>) [] Background example_opts) = []
   \<and> snd (Create example_package (example_config\<lparr>vmMemoryGB := ''4GB''\<rparr>) [] Background example_opts)
       = Return (None, Some ''could  not convert VM memory to integer'')"
proof -
  have h1: "\<not> numeric (vmCpus (example_config\<lparr>vmCpus := ''two''\<rparr>))"
    by (simp add: numeric_def is_digit_def)
  have h2: "\<not> numeric (vmMemoryGB (example_config\<lparr>vmMemoryGB := ''4GB''\<rparr>))"
    by (simp add: numeric_def is_digit_def)
  have a1: "Atoi (vmCpus (example_config\<lparr>vmCpus := ''two''\<rparr>)) = None"
    using h1 by (rule Atoi_not_numeric)
  have a2: "Atoi (vmCpus (example_config\<lparr>vmMemoryGB := ''4GB''\<rparr>)) \<noteq> None"
    by (simp add: example_config_def Atoi_2)
  from Create_validation [of "example_config\<lparr>vmCpus := ''two''\<rparr>" example_package "[]" Background example_opts]
       Create_validation [of "example_config\<lparr>vmMemoryGB := ''4GB''\<rparr>" example_package "[]" Background example_opts]
       h1 h2 a1 a2
  show ?thesis by simp
qed

lemma Create_registers_first:
  assumes a: "Atoi (vmCpus p) = Some cpus" "Atoi (vmMemoryGB p) = Some memGB"
  shows "prefix (rpcs tr @ [(Inline, JobsRegister
                    (fst (if noop p then resourceJobNoop d p cpus memGB (ToLower (random d tr 20))
                          else resourceJob cpus memGB (ToLower (random d tr 20)))))])
           (rpcs (fst (Create d p tr ctx opts)))"
proof -
  define vm where "vm = ToLower (random d tr 20)"
  define tpl where "tpl = (if noop p then resourceJobNoop d p cpus memGB vm else resourceJob cpus memGB vm)"
  define logr where "logr = FromContext ctx @ [(''vm'', FStr vm), (''resource_job_id'', FStr (snd tpl))]"
  define tr1 where "tr1 = tr @ [Log InfoLevel logr
                        ''scheduler: finding a node which has available resources ... '']"
  define tr2 where "tr2 = tr1 @ [Rpc Inline (JobsRegister (fst tpl))]"
  let ?C = "Create d p tr ctx opts"
  let ?P = "pollForJob d p tr2 ctx (snd tpl) logr resourceJobTimeout True [Running, Dead]"
  have C: "?C =
      (case Jobs_Register (client p) tr1 (fst tpl) of
           Some err \<Rightarrow>
             (tr2, Return (None, Some (''scheduler: could not register job, err: '' @ err)))
         | None \<Rightarrow>
            (case ?P of
               (tr3, Panic m) \<Rightarrow> (tr3, Panic m)
             | (tr3, Return (_, Some err)) \<Rightarrow>
                 (tr3, Return (None,
                    Some (''scheduler: could not find a node with available resources, err: ''
                            @ err)))
             | (tr3, Return (_, None)) \<Rightarrow>
                 Create_resolve d p tr3 ctx opts vm (generateStartupScript d opts) logr (snd tpl)))"
    unfolding Create_parsed [OF a] vm_def tpl_def logr_def tr1_def tr2_def Let_def
    by (rule refl)
  have "prefix tr2 (fst ?C)"
  proof (cases "Jobs_Register (client p) tr1 (fst tpl)")
    case (Some err)
    then show ?thesis using C by simp
  next
    case None
    obtain tr3 out where po: "?P = (tr3, out)" by (cases ?P) auto
    have p3: "prefix tr2 tr3"
      using prefix_pollForJob [of tr2 d p ctx "snd tpl" logr resourceJobTimeout True "[Running, Dead]"]
        po by simp
    show ?thesis
    proof (cases out)
      case (Panic m)
      then show ?thesis using C None po p3 by simp
    next
      case (Return je)
      obtain j err where je: "je = (j, err)" by (cases je) auto
      show ?thesis
      proof (cases err)
        case (Some pe)
        then show ?thesis using C None po Return je p3 by simp
      next
        case None': None
        have c: "?C = Create_resolve d p tr3 ctx opts vm (generateStartupScript d opts) logr (snd tpl)"
          using C None po Return je None' by simp
        from Create_resolve_deregistrations [of d p tr3 ctx opts vm "generateStartupScript d opts" logr "snd tpl"]
        have "prefix tr3 (fst ?C)" unfolding c by blast
        with p3 show ?thesis by (rule prefix_order.trans)
      qed
    qed
  qed
  then have "prefix (rpcs tr2) (rpcs (fst ?C))" by (rule prefix_rpcs)
  then show ?thesis
    unfolding tr2_def tr1_def tpl_def vm_def by (simp split del: if_split)
qed

text \<open>
  With \<^verbatim>\<open>vm_cpus = "0"\<close> the conversion succeeds, and the first thing \<^verbatim>\<open>Create\<close> does is
  register a reservation job that asks for -109 MHz.
\<close>

theorem Create_validation_counterexample:
  "numeric ''0''
   \<and> Atoi ''0'' = Some 0
   \<and> fst (Create example_package (example_config\<lparr>vmCpus := ''0''\<rparr>) [] Background example_opts) \<noteq> []
   \<and> take 1 (rpcs (fst (Create example_package (example_config\<lparr>vmCpus := ''0''\<rparr>) []
                          Background example_opts)))
       = [(Inline, JobsRegister (fst (resourceJob 0 4 ''k3vq8zb1m0xw7t2ld5ra'')))]
   \<and> cpu_mhz (fst (resourceJob 0 4 ''k3vq8zb1m0xw7t2ld5ra'')) = - 109
   \<and> snd (Create example_package (example_config\<lparr>vmCpus := ''0''\<rparr>) [] Background example_opts)
       = Return (Some example_instance, None)"
proof -
  let ?p = "example_config\<lparr>vmCpus := ''0''\<rparr>"
  have a: "Atoi (vmCpus ?p) = Some 0" "Atoi (vmMemoryGB ?p) = Some 4"
    by (simp_all add: example_config_def Atoi_2)
  have n: "noop ?p = False" "random example_package [] 20 = ''k3vq8zb1m0xw7t2ld5ra''"
    by (simp_all add: example_config_def example_package_def)
  have s: "snd (Create example_package ?p [] Background example_opts) = Return (Some example_instance, None)"
    unfolding Create_parsed [OF a]
    apply (simp add: Let_def n ToLower_example snd_resourceJob job_ids pollForJob_def
          example_config_def example_scheduler_def example_package_def job_in_def)
    apply (simp add: Create_resolve_def fetchMachine_def Let_def allocation_with_def
          host_segment_def ParseIP_def octet_def is_digit_def decimal_def digit_val_def)
    apply (simp add: Create_init_def Let_def initJob_def job_ids pollForJob_def job_in_def
          checkTaskGroupStatus_def example_instance_def example_opts_def split_def)
    done
  have r: "take 1 (rpcs (fst (Create example_package ?p [] Background example_opts)))
       = [(Inline, JobsRegister (fst (resourceJob 0 4 ''k3vq8zb1m0xw7t2ld5ra'')))]"
  proof -
    from Create_registers_first [OF a, of "[]" example_package Background example_opts]
    have "prefix [(Inline, JobsRegister (fst (resourceJob 0 4 ''k3vq8zb1m0xw7t2ld5ra'')))]
            (rpcs (fst (Create example_package ?p [] Background example_opts)))"
      by (simp add: n ToLower_example)
    then obtain cs where "rpcs (fst (Create example_package ?p [] Background example_opts))
        = [(Inline, JobsRegister (fst (resourceJob 0 4 ''k3vq8zb1m0xw7t2ld5ra'')))] @ cs"
      by (rule prefixE)
    then show ?thesis by simp
  qed
  have ne: "fst (Create example_package ?p [] Background example_opts) \<noteq> []"
  proof
    assume "fst (Create example_package ?p [] Background example_opts) = []"
    with r show False by simp
  qed
  have c: "cpu_mhz (fst (resourceJob 0 4 ''k3vq8zb1m0xw7t2ld5ra'')) = - 109"
    by (simp add: cpu_mhz_resourceJob wrap64_mod)
  show ?thesis
    by (intro conjI numeric_zero Atoi_2(3) ne r c s)
qed


subsection \<open>The machine resolver\<close>

text \<open>
  \<^verbatim>\<open>fetchMachine\<close> when the scheduler answers the allocation list \<open>l\<close> for the job, the
  detail \<open>alloc\<close> for the first listed allocation and the node \<open>n\<close> for that
  allocation's node.
\<close>

lemma fetchMachine_answers:
  assumes "Jobs_Allocations (client p) tr i = Inr l"
    and "\<forall>t a. take 1 l = [Some a] \<longrightarrow>
           Allocations_Info (client p) t (stub_ID a) = Inr (Some alloc)"
    and "\<forall>t a. take 1 l = [Some a] \<longrightarrow> Nodes_Info (client p) t (stub_NodeID a) = Inr (Some n)"
  shows "snd (fetchMachine p tr logr i) =
     (case l of
        [] \<Rightarrow> Return ([], [], 0, Some ''scheduler: no allocation found for the job'')
      | None # _ \<Rightarrow> Panic nil_dereference
      | Some a # _ \<Rightarrow>
          if stub_NodeID a = [] \<or> stub_ID a = [] then
            Return ([], stub_NodeID a, 0,
              Some ''scheduler: could not find an allocation identifier for the job'')
          else
            (case alloc_Resources alloc of
               None \<Rightarrow> Panic nil_dereference
             | Some res \<Rightarrow>
                (case Networks res of
                   [] \<Rightarrow> Return ([], stub_NodeID a, 0,
                           Some ''scheduler: could not allocate network and ports for job'')
                 | None # _ \<Rightarrow> Panic nil_dereference
                 | Some net # _ \<Rightarrow>
                    (case DynamicPorts net of
                       [] \<Rightarrow> Panic index_out_of_range
                     | dp # _ \<Rightarrow>
                        if Value dp \<le> 0 \<or> Value dp > 65535 then
                          Return ([], stub_NodeID a, Value dp,
                            Some (''scheduler: port '' @ Itoa (Value dp)
                                    @ '' generated is not a valid port''))
                        else if \<not> ParseIP (host_segment (HTTPAddr n)) then
                          Return (host_segment (HTTPAddr n), stub_NodeID a, Value dp,
                            Some (''scheduler: could not parse client machine IP: ''
                                    @ host_segment (HTTPAddr n)))
                        else Return (host_segment (HTTPAddr n), stub_NodeID a, Value dp, None)))))"
proof (cases l)
  case Nil
  with assms(1) show ?thesis by (simp add: fetchMachine_def Let_def)
next
  case (Cons x rest)
  show ?thesis
  proof (cases x)
    case None
    with Cons assms(1) show ?thesis by (simp add: fetchMachine_def Let_def)
  next
    case (Some a)
    have a: "\<And>t. Allocations_Info (client p) t (stub_ID a) = Inr (Some alloc)"
      and n: "\<And>t. Nodes_Info (client p) t (stub_NodeID a) = Inr (Some n)"
      using assms(2,3) Cons Some by simp_all
    show ?thesis
      using assms(1) Cons Some
      by (simp add: fetchMachine_def Let_def render_def a n split: list.splits option.splits)
  qed
qed

text \<open>The calls of a run of \<^verbatim>\<open>fetchMachine\<close> that finds the machine.\<close>

lemma fetchMachine_calls:
  assumes "snd (fetchMachine p tr logr i) = Return (ip, nodeID, port, None)"
    and "Jobs_Allocations (client p) tr i = Inr l"
  shows "\<exists>a rest. l = Some a # rest
           \<and> rpcs (fst (fetchMachine p tr logr i))
               = rpcs tr @ [(Inline, JobsAllocations i), (Inline, AllocationsInfo (stub_ID a)),
                            (Inline, NodesInfo (stub_NodeID a))]"
  using assms
  by (auto simp: fetchMachine_def Let_def split: list.splits option.splits sum.splits if_splits)

lemma Create_resolve_error:
  "snd (fetchMachine p
          (tr @ [Log InfoLevel logr ''scheduler: found a node with available resources''])
          logr rid) = Return (ip, nid, port, Some e) \<Longrightarrow>
   snd (Create_resolve d p tr ctx opts vm script logr rid) = Return (None, Some e)
   \<and> deregistrations (fst (Create_resolve d p tr ctx opts vm script logr rid))
       = deregistrations tr @ [(Inline, rid, True)]"
proof -
  let ?F = "fetchMachine p
          (tr @ [Log InfoLevel logr ''scheduler: found a node with available resources''])
          logr rid"
  assume a: "snd ?F = Return (ip, nid, port, Some e)"
  obtain tr1 where f: "?F = (tr1, Return (ip, nid, port, Some e))"
    using a by (cases ?F) auto
  have d1: "deregistrations tr1 = deregistrations tr"
    using deregistrations_fetchMachine [of p "tr @ [Log InfoLevel logr ''scheduler: found a node with available resources'']" logr rid] f
    by simp
  have c: "Create_resolve d p tr ctx opts vm script logr rid
            = (fst (deregisterJob p tr1 logr rid True), Return (None, Some e))"
    using f by (simp add: Create_resolve_def)
  show ?thesis
    unfolding c using d1 by (simp add: deregistrations_deregisterJob)
qed

text \<open>
  Claim C7 (the machine resolver), amended. Let the scheduler answer the allocation
  list \<open>l\<close> for the job, the detail \<open>alloc\<close> for the identifier of the first listed
  allocation and the node \<open>n\<close> for that allocation's node. If the first entry of the
  list is not nil, the detail carries its resources and its first network, if it has
  one, is not nil and has at least one dynamic port, then \<^verbatim>\<open>fetchMachine\<close> returns; it
  returns an error exactly when the list is empty, the node or allocation identifier is
  missing, there is no network, the port is outside 1..65535, or the host segment of the
  node's address is not an IP literal; otherwise it returns the first allocation's node,
  the first network's first dynamic port and that host segment, and its calls were: the
  allocations of the job, the detail of the first allocation, the node of the first
  allocation. When it returns an error, \<^verbatim>\<open>Create\<close> returns the same error and its only
  deregistration is the reservation's, with purge.
\<close>

theorem fetchMachine_resolves:
  assumes A1: "\<forall>t. Jobs_Allocations (client p) t i = Inr l"
    and A2: "\<forall>t a. take 1 l = [Some a] \<longrightarrow>
               Allocations_Info (client p) t (stub_ID a) = Inr (Some alloc)"
    and A3: "\<forall>t a. take 1 l = [Some a] \<longrightarrow>
               Nodes_Info (client p) t (stub_NodeID a) = Inr (Some n)"
    and A4: "take 1 l \<noteq> [None]"
    and A5: "first_port_present alloc"
  shows "\<exists>ip nodeID port err.
           snd (fetchMachine p tr logr i) = Return (ip, nodeID, port, err)
           \<and> ((err \<noteq> None) \<longleftrightarrow> resolver_error l alloc n)
           \<and> (err = None \<longrightarrow>
                [Some nodeID] = map (map_option stub_NodeID) (take 1 l)
                \<and> [port] = port_values alloc
                \<and> ip = host_segment (HTTPAddr n)
                \<and> (\<exists>a. take 1 l = [Some a]
                      \<and> rpcs (fst (fetchMachine p tr logr i))
                          = rpcs tr @ [(Inline, JobsAllocations i),
                                       (Inline, AllocationsInfo (stub_ID a)),
                                       (Inline, NodesInfo (stub_NodeID a))]))
           \<and> (\<forall>e. err = Some e \<longrightarrow>
                snd (Create_resolve d p tr ctx opts vm script logr i) = Return (None, Some e)
                \<and> deregistrations (fst (Create_resolve d p tr ctx opts vm script logr i))
                    = deregistrations tr @ [(Inline, i, True)])"
proof -
  let ?t0 = "tr @ [Log InfoLevel logr ''scheduler: found a node with available resources'']"
  have a1: "Jobs_Allocations (client p) tr i = Inr l" "Jobs_Allocations (client p) ?t0 i = Inr l"
    using A1 by simp_all
  note f = fetchMachine_answers [OF a1(1) A2 A3, of logr]
  note f0 = fetchMachine_answers [OF a1(2) A2 A3, of logr]
  have same: "snd (fetchMachine p ?t0 logr i) = snd (fetchMachine p tr logr i)"
    unfolding f f0 by (rule refl)
  have main: "\<exists>ip nodeID port err.
           snd (fetchMachine p tr logr i) = Return (ip, nodeID, port, err)
           \<and> ((err \<noteq> None) \<longleftrightarrow> resolver_error l alloc n)
           \<and> (err = None \<longrightarrow>
                [Some nodeID] = map (map_option stub_NodeID) (take 1 l)
                \<and> [port] = port_values alloc
                \<and> ip = host_segment (HTTPAddr n))"
  proof (cases l)
    case Nil
    then show ?thesis unfolding f by (simp add: resolver_error_def)
  next
    case (Cons x rest)
    with A4 obtain a where x: "x = Some a" by (cases x) auto
    from A5 obtain res where res: "alloc_Resources alloc = Some res"
      by (auto simp: first_port_present_def split: option.splits)
    show ?thesis
    proof (cases "stub_NodeID a = [] \<or> stub_ID a = []")
      case True
      then show ?thesis unfolding f using Cons x by (auto simp: resolver_error_def)
    next
      case ids: False
      show ?thesis
      proof (cases "Networks res")
        case Nil
        then show ?thesis unfolding f using Cons x ids res
          by (simp add: resolver_error_def networks_of_def)
      next
        case nets: (Cons y ys)
        from A5 res nets obtain net where y: "y = Some net" and dps: "DynamicPorts net \<noteq> []"
          by (cases y) (auto simp: first_port_present_def)
        from dps obtain dp dps' where dp: "DynamicPorts net = dp # dps'"
          by (cases "DynamicPorts net") auto
        have pv: "port_values alloc = [Value dp]" and nw: "networks_of alloc \<noteq> []"
          using res nets y dp by (simp_all add: port_values_def networks_of_def)
        have re: "resolver_error l alloc n \<longleftrightarrow>
                    (Value dp < 1 \<or> 65535 < Value dp) \<or> \<not> ParseIP (host_segment (HTTPAddr n))"
          using Cons x ids pv nw by (auto simp: resolver_error_def)
        have fm: "snd (fetchMachine p tr logr i) =
            (if Value dp \<le> 0 \<or> Value dp > 65535 then
                          Return ([], stub_NodeID a, Value dp,
                            Some (''scheduler: port '' @ Itoa (Value dp)
                                    @ '' generated is not a valid port''))
                        else if \<not> ParseIP (host_segment (HTTPAddr n)) then
                          Return (host_segment (HTTPAddr n), stub_NodeID a, Value dp,
                            Some (''scheduler: could not parse client machine IP: ''
                                    @ host_segment (HTTPAddr n)))
                        else Return (host_segment (HTTPAddr n), stub_NodeID a, Value dp, None))"
          unfolding f using Cons x ids res nets y dp by simp
        have tk: "map (map_option stub_NodeID) (take 1 l) = [Some (stub_NodeID a)]"
          using Cons x by simp
        show ?thesis
          unfolding fm re pv tk by (simp split: if_splits) 
      qed
    qed
  qed
  then obtain ip nodeID port err where
    r: "snd (fetchMachine p tr logr i) = Return (ip, nodeID, port, err)"
       "(err \<noteq> None) \<longleftrightarrow> resolver_error l alloc n"
       "err = None \<longrightarrow>
                [Some nodeID] = map (map_option stub_NodeID) (take 1 l)
                \<and> [port] = port_values alloc
                \<and> ip = host_segment (HTTPAddr n)"
    by (elim exE conjE)
  have calls: "err = None \<longrightarrow> (\<exists>a. take 1 l = [Some a]
                      \<and> rpcs (fst (fetchMachine p tr logr i))
                          = rpcs tr @ [(Inline, JobsAllocations i),
                                       (Inline, AllocationsInfo (stub_ID a)),
                                       (Inline, NodesInfo (stub_NodeID a))])"
  proof
    assume "err = None"
    with r(1) have "snd (fetchMachine p tr logr i) = Return (ip, nodeID, port, None)" by simp
    from fetchMachine_calls [OF this a1(1)] show "\<exists>a. take 1 l = [Some a]
                      \<and> rpcs (fst (fetchMachine p tr logr i))
                          = rpcs tr @ [(Inline, JobsAllocations i),
                                       (Inline, AllocationsInfo (stub_ID a)),
                                       (Inline, NodesInfo (stub_NodeID a))]"
      by auto
  qed
  have "\<forall>e. err = Some e \<longrightarrow>
                snd (Create_resolve d p tr ctx opts vm script logr i) = Return (None, Some e)
                \<and> deregistrations (fst (Create_resolve d p tr ctx opts vm script logr i))
                    = deregistrations tr @ [(Inline, i, True)]"
    using Create_resolve_error [of p tr logr i ip nodeID port _ d ctx opts vm script] r(1) same
    by auto
  then have cr: "\<forall>e. err = Some e \<longrightarrow>
                snd (Create_resolve d p tr ctx opts vm script logr i) = Return (None, Some e)
                \<and> deregistrations (fst (Create_resolve d p tr ctx opts vm script logr i))
                    = deregistrations tr @ [(Inline, i, True)]" .
  have succ: "err = None \<longrightarrow>
                [Some nodeID] = map (map_option stub_NodeID) (take 1 l)
                \<and> [port] = port_values alloc
                \<and> ip = host_segment (HTTPAddr n)
                \<and> (\<exists>a. take 1 l = [Some a]
                      \<and> rpcs (fst (fetchMachine p tr logr i))
                          = rpcs tr @ [(Inline, JobsAllocations i),
                                       (Inline, AllocationsInfo (stub_ID a)),
                                       (Inline, NodesInfo (stub_NodeID a))])"
  proof (intro impI)
    assume e: "err = None"
    from mp [OF r(3) e] mp [OF calls e]
    show "[Some nodeID] = map (map_option stub_NodeID) (take 1 l)
                \<and> [port] = port_values alloc
                \<and> ip = host_segment (HTTPAddr n)
                \<and> (\<exists>a. take 1 l = [Some a]
                      \<and> rpcs (fst (fetchMachine p tr logr i))
                          = rpcs tr @ [(Inline, JobsAllocations i),
                                       (Inline, AllocationsInfo (stub_ID a)),
                                       (Inline, NodesInfo (stub_NodeID a))])"
      by (elim conjE) (intro conjI; assumption)
  qed
  show ?thesis
    by (intro exI [of _ ip] exI [of _ nodeID] exI [of _ port] exI [of _ err] conjI r(1) r(2) succ cr)
qed

text \<open>
  Two schedulers that tell identifiers apart: they know the allocation \<^verbatim>\<open>a1\<close> and the
  node \<^verbatim>\<open>n1\<close> only. With the first the machine is found, by the three calls in their
  order; the second gives the port 0, and \<^verbatim>\<open>Create\<close> returns the error after
  deregistering the reservation.
\<close>

theorem fetchMachine_resolves_witness:
  "(\<forall>t. Jobs_Allocations (client example_config) t ''init_job_resources_vm1''
         = Inr [Some \<lparr>stub_ID = ''a1'', stub_NodeID = ''n1''\<rparr>])
   \<and> (\<forall>t. Allocations_Info (client example_config) t ''a1''
         = Inr (Some (allocation_with [\<lparr>Label = ''k3vq8zb1m0xw7t2ld5ra'', Value = 27017\<rparr>])))
   \<and> (\<forall>t. Nodes_Info (client example_config) t ''n1'' = Inr (Some \<lparr>HTTPAddr = ''10.0.0.5:4646''\<rparr>))
   \<and> Allocations_Info (client example_config) [] ''init_job_resources_vm1''
       = Inl ''alloc not found''
   \<and> Nodes_Info (client example_config) [] ''a1'' = Inl ''node not found''
   \<and> first_port_present (allocation_with [\<lparr>Label = ''k3vq8zb1m0xw7t2ld5ra'', Value = 27017\<rparr>])
   \<and> snd (fetchMachine example_config [] [] ''init_job_resources_vm1'')
       = Return (''10.0.0.5'', ''n1'', 27017, None)
   \<and> rpcs (fst (fetchMachine example_config [] [] ''init_job_resources_vm1''))
       = [(Inline, JobsAllocations ''init_job_resources_vm1''),
          (Inline, AllocationsInfo ''a1''), (Inline, NodesInfo ''n1'')]
   \<and> (\<forall>t. Jobs_Allocations
               (client (example_config\<lparr>client := example_scheduler
                  \<lparr>Allocations_Info :=
                     \<lambda>t aid. if aid = ''a1''
                       then Inr (Some (allocation_with [\<lparr>Label = ''vm1'', Value = 0\<rparr>]))
                       else Inl ''alloc not found''\<rparr>\<rparr>))
               t ''init_job_resources_vm1''
         = Inr [Some \<lparr>stub_ID = ''a1'', stub_NodeID = ''n1''\<rparr>])
   \<and> (\<forall>t. Allocations_Info
               (client (example_config\<lparr>client := example_scheduler
                  \<lparr>Allocations_Info :=
                     \<lambda>t aid. if aid = ''a1''
                       then Inr (Some (allocation_with [\<lparr>Label = ''vm1'', Value = 0\<rparr>]))
                       else Inl ''alloc not found''\<rparr>\<rparr>))
               t ''a1''
         = Inr (Some (allocation_with [\<lparr>Label = ''vm1'', Value = 0\<rparr>])))
   \<and> (\<forall>t. Nodes_Info
               (client (example_config\<lparr>client := example_scheduler
                  \<lparr>Allocations_Info :=
                     \<lambda>t aid. if aid = ''a1''
                       then Inr (Some (allocation_with [\<lparr>Label = ''vm1'', Value = 0\<rparr>]))
                       else Inl ''alloc not found''\<rparr>\<rparr>))
               t ''n1''
         = Inr (Some \<lparr>HTTPAddr = ''10.0.0.5:4646''\<rparr>))
   \<and> first_port_present (allocation_with [\<lparr>Label = ''vm1'', Value = 0\<rparr>])
   \<and> resolver_error [Some \<lparr>stub_ID = ''a1'', stub_NodeID = ''n1''\<rparr>]
         (allocation_with [\<lparr>Label = ''vm1'', Value = 0\<rparr>]) \<lparr>HTTPAddr = ''10.0.0.5:4646''\<rparr>
   \<and> (\<exists>e. snd (Create_resolve example_package
                 (example_config\<lparr>client := example_scheduler
                    \<lparr>Allocations_Info :=
                       \<lambda>t aid. if aid = ''a1''
                         then Inr (Some (allocation_with [\<lparr>Label = ''vm1'', Value = 0\<rparr>]))
                         else Inl ''alloc not found''\<rparr>\<rparr>)
                 [] Background example_opts ''vm1'' ''#!/usr/bin/bash'' []
                 ''init_job_resources_vm1'')
             = Return (None, Some e))
   \<and> deregistrations
        (fst (Create_resolve example_package
                 (example_config\<lparr>client := example_scheduler
                    \<lparr>Allocations_Info :=
                       \<lambda>t aid. if aid = ''a1''
                         then Inr (Some (allocation_with [\<lparr>Label = ''vm1'', Value = 0\<rparr>]))
                         else Inl ''alloc not found''\<rparr>\<rparr>)
                 [] Background example_opts ''vm1'' ''#!/usr/bin/bash'' []
                 ''init_job_resources_vm1''))
       = [(Inline, ''init_job_resources_vm1'', True)]"
proof -
  let ?l = "[Some \<lparr>stub_ID = ''a1'', stub_NodeID = ''n1''\<rparr>]"
  let ?n = "\<lparr>HTTPAddr = ''10.0.0.5:4646''\<rparr>"
  let ?a1 = "allocation_with [\<lparr>Label = ''k3vq8zb1m0xw7t2ld5ra'', Value = 27017\<rparr>]"
  let ?a2 = "allocation_with [\<lparr>Label = ''vm1'', Value = 0\<rparr>]"
  let ?p2 = "example_config\<lparr>client := example_scheduler
                    \<lparr>Allocations_Info :=
                       \<lambda>t aid. if aid = ''a1'' then Inr (Some ?a2) else Inl ''alloc not found''\<rparr>\<rparr>"
  have h1: "\<forall>t. Jobs_Allocations (client example_config) t ''init_job_resources_vm1'' = Inr ?l"
    and h2: "\<forall>t. Allocations_Info (client example_config) t ''a1'' = Inr (Some ?a1)"
    and h3: "\<forall>t. Nodes_Info (client example_config) t ''n1'' = Inr (Some ?n)"
    and u1: "Allocations_Info (client example_config) [] ''init_job_resources_vm1''
               = Inl ''alloc not found''"
    and u2: "Nodes_Info (client example_config) [] ''a1'' = Inl ''node not found''"
    by (simp_all add: example_config_def example_scheduler_def)
  have h2': "\<forall>t a. take 1 ?l = [Some a] \<longrightarrow>
               Allocations_Info (client example_config) t (stub_ID a) = Inr (Some ?a1)"
    and h3': "\<forall>t a. take 1 ?l = [Some a] \<longrightarrow>
               Nodes_Info (client example_config) t (stub_NodeID a) = Inr (Some ?n)"
    using h2 h3 by auto
  have nn: "take 1 ?l \<noteq> [None]" by simp
  have h4: "first_port_present ?a1" and h4': "first_port_present ?a2"
    by (simp_all add: first_port_present_def allocation_with_def)
  have g1: "\<forall>t. Jobs_Allocations (client ?p2) t ''init_job_resources_vm1'' = Inr ?l"
    and g2: "\<forall>t. Allocations_Info (client ?p2) t ''a1'' = Inr (Some ?a2)"
    and g3: "\<forall>t. Nodes_Info (client ?p2) t ''n1'' = Inr (Some ?n)"
    by (simp_all add: example_config_def example_scheduler_def)
  have g2': "\<forall>t a. take 1 ?l = [Some a] \<longrightarrow>
               Allocations_Info (client ?p2) t (stub_ID a) = Inr (Some ?a2)"
    and g3': "\<forall>t a. take 1 ?l = [Some a] \<longrightarrow>
               Nodes_Info (client ?p2) t (stub_NodeID a) = Inr (Some ?n)"
    using g2 g3 by auto
  have ip: "host_segment ''10.0.0.5:4646'' = ''10.0.0.5''" "ParseIP ''10.0.0.5''"
    by (simp_all add: host_segment_def ParseIP_def octet_def is_digit_def decimal_def digit_val_def)
  have ok: "\<not> resolver_error ?l ?a1 ?n"
    by (simp add: resolver_error_def networks_of_def port_values_def allocation_with_def ip)
  have bad: "resolver_error ?l ?a2 ?n"
    by (simp add: resolver_error_def networks_of_def port_values_def allocation_with_def)
  from fetchMachine_resolves [OF h1 h2' h3' nn h4, of "[]" "[]" example_package Background
         example_opts "''vm1''" "''#!/usr/bin/bash''"] ok ip
  have r1: "snd (fetchMachine example_config [] [] ''init_job_resources_vm1'')
       = Return (''10.0.0.5'', ''n1'', 27017, None)
     \<and> rpcs (fst (fetchMachine example_config [] [] ''init_job_resources_vm1''))
       = [(Inline, JobsAllocations ''init_job_resources_vm1''),
          (Inline, AllocationsInfo ''a1''), (Inline, NodesInfo ''n1'')]"
    by (auto simp: port_values_def networks_of_def allocation_with_def)
  from fetchMachine_resolves [OF g1 g2' g3' nn h4', of "[]" "[]" example_package Background
         example_opts "''vm1''" "''#!/usr/bin/bash''"] bad
  have r2: "(\<exists>e. snd (Create_resolve example_package ?p2 [] Background example_opts ''vm1''
                      ''#!/usr/bin/bash'' [] ''init_job_resources_vm1'') = Return (None, Some e))
     \<and> deregistrations (fst (Create_resolve example_package ?p2 [] Background example_opts ''vm1''
                      ''#!/usr/bin/bash'' [] ''init_job_resources_vm1''))
       = [(Inline, ''init_job_resources_vm1'', True)]"
    by auto
  from r1 have r1a: "snd (fetchMachine example_config [] [] ''init_job_resources_vm1'')
       = Return (''10.0.0.5'', ''n1'', 27017, None)"
    and r1b: "rpcs (fst (fetchMachine example_config [] [] ''init_job_resources_vm1''))
       = [(Inline, JobsAllocations ''init_job_resources_vm1''),
          (Inline, AllocationsInfo ''a1''), (Inline, NodesInfo ''n1'')]"
    by simp_all
  from r2 have r2a: "\<exists>e. snd (Create_resolve example_package ?p2 [] Background example_opts ''vm1''
                      ''#!/usr/bin/bash'' [] ''init_job_resources_vm1'') = Return (None, Some e)"
    and r2b: "deregistrations (fst (Create_resolve example_package ?p2 [] Background example_opts ''vm1''
                      ''#!/usr/bin/bash'' [] ''init_job_resources_vm1''))
       = [(Inline, ''init_job_resources_vm1'', True)]"
    by simp_all
  show ?thesis
    by (intro conjI h1 h2 h3 u1 u2 h4 r1a r1b g1 g2 g3 h4' bad r2a r2b)
qed

text \<open>
  The claim as stated, for every answer of the scheduler, fails: when the first network
  of the allocation detail has no dynamic port, none of the listed error conditions
  holds (there is an allocation with both identifiers, there is a network, no port is
  out of range, the address is an IP literal), and \<^verbatim>\<open>fetchMachine\<close> returns neither the
  machine nor an error: it panics, and \<^verbatim>\<open>Create\<close> with it, the reservation still
  registered.
\<close>

theorem fetchMachine_resolves_counterexample:
  "\<not> resolver_error [Some \<lparr>stub_ID = ''a1'', stub_NodeID = ''n1''\<rparr>] (allocation_with [])
        \<lparr>HTTPAddr = ''10.0.0.5:4646''\<rparr>
   \<and> snd (fetchMachine
            (example_config\<lparr>client := example_scheduler
               \<lparr>Allocations_Info := \<lambda>t aid. Inr (Some (allocation_with []))\<rparr>\<rparr>)
            [] [] ''init_job_resources_vm1'')
       = Panic ''runtime error: index out of range [0] with length 0''
   \<and> snd (Create_resolve example_package
            (example_config\<lparr>client := example_scheduler
               \<lparr>Allocations_Info := \<lambda>t aid. Inr (Some (allocation_with []))\<rparr>\<rparr>)
            [] Background example_opts ''vm1'' ''#!/usr/bin/bash'' [] ''init_job_resources_vm1'')
       = Panic ''runtime error: index out of range [0] with length 0''
   \<and> deregistrations (fst (Create_resolve example_package
            (example_config\<lparr>client := example_scheduler
               \<lparr>Allocations_Info := \<lambda>t aid. Inr (Some (allocation_with []))\<rparr>\<rparr>)
            [] Background example_opts ''vm1'' ''#!/usr/bin/bash'' [] ''init_job_resources_vm1''))
       = []"
proof -
  have ip: "host_segment ''10.0.0.5:4646'' = ''10.0.0.5''" "ParseIP ''10.0.0.5''"
    by (simp_all add: host_segment_def ParseIP_def octet_def is_digit_def decimal_def digit_val_def)
  have ok: "\<not> resolver_error [Some \<lparr>stub_ID = ''a1'', stub_NodeID = ''n1''\<rparr>] (allocation_with [])
        \<lparr>HTTPAddr = ''10.0.0.5:4646''\<rparr>"
    by (simp add: resolver_error_def networks_of_def port_values_def allocation_with_def ip)
  have f: "\<And>tr logr. fetchMachine
            (example_config\<lparr>client := example_scheduler
               \<lparr>Allocations_Info := \<lambda>t aid. Inr (Some (allocation_with []))\<rparr>\<rparr>)
            tr logr ''init_job_resources_vm1''
       = (tr @ [Rpc Inline (JobsAllocations ''init_job_resources_vm1''),
                Rpc Inline (AllocationsInfo ''a1'')],
          Panic ''runtime error: index out of range [0] with length 0'')"
    by (simp add: fetchMachine_def Let_def example_config_def example_scheduler_def
          allocation_with_def index_out_of_range_def)
  show ?thesis
    using ok by (simp add: f Create_resolve_def)
qed

text \<open>
  Claim C9 (the resolver's unguarded reads), amended. \<^verbatim>\<open>fetchMachine\<close> panics exactly
  when it reaches one of the reads the source does not guard: the first entry of the
  allocation list is nil; or, for a first allocation with both identifiers, the detail
  is nil, has no resources, has a nil first network or a first network without a
  dynamic port; or the port is valid and the node is nil. So it is panic-free whenever
  the scheduler gives no nil first entry and no nil node, and every allocation detail it
  gives is there and has a first network with at least one dynamic port. The read of
  the first dynamic port is not guarded: a detail that is reached and whose first
  network has no dynamic port makes \<^verbatim>\<open>fetchMachine\<close> panic with an index out of range.
\<close>

theorem fetchMachine_panic_free:
  "((\<exists>m. snd (fetchMachine p tr logr i) = Panic m) \<longleftrightarrow>
      (\<exists>l. Jobs_Allocations (client p) tr i = Inr l
         \<and> (take 1 l = [None]
            \<or> (\<exists>a x. take 1 l = [Some a] \<and> stub_NodeID a \<noteq> [] \<and> stub_ID a \<noteq> []
                  \<and> Allocations_Info (client p) (tr @ [Rpc Inline (JobsAllocations i)]) (stub_ID a)
                      = Inr x
                  \<and> (case x of
                       None \<Rightarrow> True
                     | Some alloc \<Rightarrow>
                         \<not> first_port_present alloc
                         \<or> (networks_of alloc \<noteq> []
                            \<and> list_all (\<lambda>v. 1 \<le> v \<and> v \<le> 65535) (port_values alloc)
                            \<and> Nodes_Info (client p)
                                 (tr @ [Rpc Inline (JobsAllocations i),
                                        Rpc Inline (AllocationsInfo (stub_ID a))])
                                 (stub_NodeID a)
                                = Inr None))))))
   \<and> ((\<forall>t l. Jobs_Allocations (client p) t i = Inr l \<longrightarrow> take 1 l \<noteq> [None])
        \<and> (\<forall>t aid x. Allocations_Info (client p) t aid = Inr x
               \<longrightarrow> (\<exists>alloc. x = Some alloc \<and> has_first_port alloc))
        \<and> (\<forall>t nid. Nodes_Info (client p) t nid \<noteq> Inr None)
        \<longrightarrow> (\<forall>m. snd (fetchMachine p tr logr i) \<noteq> Panic m))
   \<and> (Jobs_Allocations (client p) tr i = Inr (Some a # rest)
        \<and> stub_NodeID a \<noteq> [] \<and> stub_ID a \<noteq> []
        \<and> Allocations_Info (client p) (tr @ [Rpc Inline (JobsAllocations i)]) (stub_ID a)
            = Inr (Some alloc)
        \<and> alloc_Resources alloc = Some res
        \<and> Networks res = Some net # nets
        \<and> DynamicPorts net = []
        \<longrightarrow> snd (fetchMachine p tr logr i) = Panic index_out_of_range)"
proof -
  let ?R = "\<exists>l. Jobs_Allocations (client p) tr i = Inr l
         \<and> (take 1 l = [None]
            \<or> (\<exists>a x. take 1 l = [Some a] \<and> stub_NodeID a \<noteq> [] \<and> stub_ID a \<noteq> []
                  \<and> Allocations_Info (client p) (tr @ [Rpc Inline (JobsAllocations i)]) (stub_ID a)
                      = Inr x
                  \<and> (case x of
                       None \<Rightarrow> True
                     | Some alloc \<Rightarrow>
                         \<not> first_port_present alloc
                         \<or> (networks_of alloc \<noteq> []
                            \<and> list_all (\<lambda>v. 1 \<le> v \<and> v \<le> 65535) (port_values alloc)
                            \<and> Nodes_Info (client p)
                                 (tr @ [Rpc Inline (JobsAllocations i),
                                        Rpc Inline (AllocationsInfo (stub_ID a))])
                                 (stub_NodeID a)
                                = Inr None))))"
  have iff: "(\<exists>m. snd (fetchMachine p tr logr i) = Panic m) \<longleftrightarrow> ?R"
  proof (cases "Jobs_Allocations (client p) tr i")
    case (Inl e)
    then show ?thesis by (simp add: fetchMachine_def Let_def)
  next
    case (Inr l)
    show ?thesis
    proof (cases l)
      case Nil
      with Inr show ?thesis by (simp add: fetchMachine_def Let_def)
    next
      case (Cons x0 rest0)
      show ?thesis
      proof (cases x0)
        case None
        with Inr Cons show ?thesis by (simp add: fetchMachine_def Let_def)
      next
        case (Some a0)
        show ?thesis
        proof (cases "stub_NodeID a0 = [] \<or> stub_ID a0 = []")
          case True
          with Inr Cons Some show ?thesis by (auto simp: fetchMachine_def Let_def)
        next
          case ids: False
          let ?A = "Allocations_Info (client p) (tr @ [Rpc Inline (JobsAllocations i)]) (stub_ID a0)"
          show ?thesis
          proof (cases ?A)
            case (Inl e)
            with Inr Cons Some ids show ?thesis by (simp add: fetchMachine_def Let_def)
          next
            case A: (Inr x)
            show ?thesis
            proof (cases x)
              case None
              with Inr Cons Some ids A show ?thesis by (simp add: fetchMachine_def Let_def)
            next
              case al: (Some alloc0)
              let ?N = "Nodes_Info (client p)
                                 (tr @ [Rpc Inline (JobsAllocations i),
                                        Rpc Inline (AllocationsInfo (stub_ID a0))])
                                 (stub_NodeID a0)"
              have R: "?R \<longleftrightarrow> (\<not> first_port_present alloc0
                         \<or> (networks_of alloc0 \<noteq> []
                            \<and> list_all (\<lambda>v. 1 \<le> v \<and> v \<le> 65535) (port_values alloc0)
                            \<and> ?N = Inr None))"
                using Inr Cons Some ids A al by simp
              have F: "(\<exists>m. snd (fetchMachine p tr logr i) = Panic m) \<longleftrightarrow>
                     (\<not> first_port_present alloc0
                         \<or> (networks_of alloc0 \<noteq> []
                            \<and> list_all (\<lambda>v. 1 \<le> v \<and> v \<le> 65535) (port_values alloc0)
                            \<and> ?N = Inr None))"
                using Inr Cons Some ids A al
                by (auto simp: fetchMachine_def Let_def first_port_present_def networks_of_def
                          port_values_def
                      split: option.splits list.splits sum.splits)
              show ?thesis unfolding R F by (rule refl)
            qed
          qed
        qed
      qed
    qed
  qed
  have imp: "\<And>alloc. has_first_port alloc \<Longrightarrow> first_port_present alloc"
    by (auto simp: has_first_port_def first_port_present_def networks_of_def
             split: list.splits option.splits)
  have suff: "(\<forall>t l. Jobs_Allocations (client p) t i = Inr l \<longrightarrow> take 1 l \<noteq> [None])
        \<and> (\<forall>t aid x. Allocations_Info (client p) t aid = Inr x
               \<longrightarrow> (\<exists>alloc. x = Some alloc \<and> has_first_port alloc))
        \<and> (\<forall>t nid. Nodes_Info (client p) t nid \<noteq> Inr None)
        \<longrightarrow> (\<forall>m. snd (fetchMachine p tr logr i) \<noteq> Panic m)"
  proof (intro impI, elim conjE)
    assume h1: "\<forall>t l. Jobs_Allocations (client p) t i = Inr l \<longrightarrow> take 1 l \<noteq> [None]"
      and h2: "\<forall>t aid x. Allocations_Info (client p) t aid = Inr x
               \<longrightarrow> (\<exists>alloc. x = Some alloc \<and> has_first_port alloc)"
      and h3: "\<forall>t nid. Nodes_Info (client p) t nid \<noteq> Inr None"
    have "\<not> ?R"
    proof
      assume ?R
      then obtain l where l: "Jobs_Allocations (client p) tr i = Inr l"
        and c: "take 1 l = [None]
            \<or> (\<exists>a x. take 1 l = [Some a] \<and> stub_NodeID a \<noteq> [] \<and> stub_ID a \<noteq> []
                  \<and> Allocations_Info (client p) (tr @ [Rpc Inline (JobsAllocations i)]) (stub_ID a)
                      = Inr x
                  \<and> (case x of
                       None \<Rightarrow> True
                     | Some alloc \<Rightarrow>
                         \<not> first_port_present alloc
                         \<or> (networks_of alloc \<noteq> []
                            \<and> list_all (\<lambda>v. 1 \<le> v \<and> v \<le> 65535) (port_values alloc)
                            \<and> Nodes_Info (client p)
                                 (tr @ [Rpc Inline (JobsAllocations i),
                                        Rpc Inline (AllocationsInfo (stub_ID a))])
                                 (stub_NodeID a)
                                = Inr None)))"
        by (elim exE conjE)
      from h1 l have nn: "take 1 l \<noteq> [None]" by blast
      from c have "\<exists>a x. take 1 l = [Some a] \<and> stub_NodeID a \<noteq> [] \<and> stub_ID a \<noteq> []
                  \<and> Allocations_Info (client p) (tr @ [Rpc Inline (JobsAllocations i)]) (stub_ID a)
                      = Inr x
                  \<and> (case x of
                       None \<Rightarrow> True
                     | Some alloc \<Rightarrow>
                         \<not> first_port_present alloc
                         \<or> (networks_of alloc \<noteq> []
                            \<and> list_all (\<lambda>v. 1 \<le> v \<and> v \<le> 65535) (port_values alloc)
                            \<and> Nodes_Info (client p)
                                 (tr @ [Rpc Inline (JobsAllocations i),
                                        Rpc Inline (AllocationsInfo (stub_ID a))])
                                 (stub_NodeID a)
                                = Inr None))"
      proof (rule disjE)
        assume "take 1 l = [None]"
        with nn show ?thesis by contradiction
      qed
      then obtain a x where tk: "take 1 l = [Some a]" and
        ax: "Allocations_Info (client p) (tr @ [Rpc Inline (JobsAllocations i)]) (stub_ID a) = Inr x"
        and cx: "case x of
                       None \<Rightarrow> True
                     | Some alloc \<Rightarrow>
                         \<not> first_port_present alloc
                         \<or> (networks_of alloc \<noteq> []
                            \<and> list_all (\<lambda>v. 1 \<le> v \<and> v \<le> 65535) (port_values alloc)
                            \<and> Nodes_Info (client p)
                                 (tr @ [Rpc Inline (JobsAllocations i),
                                        Rpc Inline (AllocationsInfo (stub_ID a))])
                                 (stub_NodeID a)
                                = Inr None)"
        by (elim exE conjE)
      from h2 ax obtain alloc where x: "x = Some alloc" and hp: "has_first_port alloc" by blast
      from cx x imp [OF hp] h3 show False by simp
    qed
    with iff show "\<forall>m. snd (fetchMachine p tr logr i) \<noteq> Panic m" by blast
  qed
  have nec: "Jobs_Allocations (client p) tr i = Inr (Some a # rest)
        \<and> stub_NodeID a \<noteq> [] \<and> stub_ID a \<noteq> []
        \<and> Allocations_Info (client p) (tr @ [Rpc Inline (JobsAllocations i)]) (stub_ID a)
            = Inr (Some alloc)
        \<and> alloc_Resources alloc = Some res
        \<and> Networks res = Some net # nets
        \<and> DynamicPorts net = []
        \<longrightarrow> snd (fetchMachine p tr logr i) = Panic index_out_of_range"
    by (simp add: fetchMachine_def Let_def)
  show ?thesis
    by (intro conjI iff suff nec)
qed

theorem fetchMachine_panic_free_witness:
  "(\<forall>t. Jobs_Allocations (client example_config) t ''init_job_resources_vm1''
         = Inr [Some \<lparr>stub_ID = ''a1'', stub_NodeID = ''n1''\<rparr>])
   \<and> (\<forall>t aid. Allocations_Info (client example_config) t aid
         = (if aid = ''a1''
            then Inr (Some (allocation_with [\<lparr>Label = ''k3vq8zb1m0xw7t2ld5ra'', Value = 27017\<rparr>]))
            else Inl ''alloc not found''))
   \<and> (\<forall>t nid. Nodes_Info (client example_config) t nid \<noteq> Inr None)
   \<and> has_first_port (allocation_with [\<lparr>Label = ''k3vq8zb1m0xw7t2ld5ra'', Value = 27017\<rparr>])
   \<and> (\<forall>m. snd (fetchMachine example_config [] [] ''init_job_resources_vm1'') \<noteq> Panic m)
   \<and> \<not> has_first_port (allocation_with [])
   \<and> snd (fetchMachine
            (example_config\<lparr>client := example_scheduler
               \<lparr>Allocations_Info :=
                  \<lambda>t aid. if aid = ''a1'' then Inr (Some (allocation_with []))
                           else Inl ''alloc not found''\<rparr>\<rparr>)
            [] [] ''init_job_resources_vm1'')
       = Panic ''runtime error: index out of range [0] with length 0''"
proof -
  let ?l = "[Some \<lparr>stub_ID = ''a1'', stub_NodeID = ''n1''\<rparr>]"
  let ?a1 = "allocation_with [\<lparr>Label = ''k3vq8zb1m0xw7t2ld5ra'', Value = 27017\<rparr>]"
  let ?p2 = "example_config\<lparr>client := example_scheduler
                    \<lparr>Allocations_Info :=
                       \<lambda>t aid. if aid = ''a1'' then Inr (Some (allocation_with []))
                                else Inl ''alloc not found''\<rparr>\<rparr>"
  have h1: "\<forall>t. Jobs_Allocations (client example_config) t ''init_job_resources_vm1'' = Inr ?l"
    and h2: "\<forall>t aid. Allocations_Info (client example_config) t aid
               = (if aid = ''a1'' then Inr (Some ?a1) else Inl ''alloc not found'')"
    and h3: "\<forall>t nid. Nodes_Info (client example_config) t nid \<noteq> Inr None"
    by (simp_all add: example_config_def example_scheduler_def)
  have h4: "has_first_port ?a1" and h5: "\<not> has_first_port (allocation_with [])"
    by (simp_all add: has_first_port_def networks_of_def allocation_with_def)
  have hyp1: "\<forall>t l. Jobs_Allocations (client example_config) t ''init_job_resources_vm1'' = Inr l
                \<longrightarrow> take 1 l \<noteq> [None]"
    using h1 by auto
  have hyp2: "\<forall>t aid x. Allocations_Info (client example_config) t aid = Inr x
               \<longrightarrow> (\<exists>alloc. x = Some alloc \<and> has_first_port alloc)"
    using h2 h4 by (auto split: if_splits)
  have np: "\<forall>m. snd (fetchMachine example_config [] [] ''init_job_resources_vm1'') \<noteq> Panic m"
    using fetchMachine_panic_free [of example_config "[]" "[]" "''init_job_resources_vm1''"]
      hyp1 hyp2 h3
    by blast
  have reach: "Jobs_Allocations (client ?p2) [] ''init_job_resources_vm1''
          = Inr (Some \<lparr>stub_ID = ''a1'', stub_NodeID = ''n1''\<rparr> # [])
        \<and> stub_NodeID \<lparr>stub_ID = ''a1'', stub_NodeID = ''n1''\<rparr> \<noteq> []
        \<and> stub_ID \<lparr>stub_ID = ''a1'', stub_NodeID = ''n1''\<rparr> \<noteq> []
        \<and> Allocations_Info (client ?p2)
             ([] @ [Rpc Inline (JobsAllocations ''init_job_resources_vm1'')])
             (stub_ID \<lparr>stub_ID = ''a1'', stub_NodeID = ''n1''\<rparr>)
            = Inr (Some (allocation_with []))
        \<and> alloc_Resources (allocation_with [])
            = Some \<lparr>CPU = None, MemoryMB = None, Networks = [Some \<lparr>DynamicPorts = []\<rparr>]\<rparr>
        \<and> Networks \<lparr>CPU = None, MemoryMB = None, Networks = [Some \<lparr>DynamicPorts = []\<rparr>]\<rparr>
            = Some \<lparr>DynamicPorts = []\<rparr> # []
        \<and> DynamicPorts \<lparr>DynamicPorts = []\<rparr> = []"
    by (simp add: example_config_def example_scheduler_def allocation_with_def)
  have pn: "snd (fetchMachine ?p2 [] [] ''init_job_resources_vm1'') = Panic index_out_of_range"
    using fetchMachine_panic_free [of ?p2 "[]" "[]" "''init_job_resources_vm1''"
            "\<lparr>stub_ID = ''a1'', stub_NodeID = ''n1''\<rparr>" "[]" "allocation_with []"
            "\<lparr>CPU = None, MemoryMB = None, Networks = [Some \<lparr>DynamicPorts = []\<rparr>]\<rparr>"
            "\<lparr>DynamicPorts = []\<rparr>" "[]"] reach
    by blast
  have pn': "snd (fetchMachine ?p2 [] [] ''init_job_resources_vm1'')
       = Panic ''runtime error: index out of range [0] with length 0''"
    using pn by (simp add: index_out_of_range_def)
  show ?thesis
    by (intro conjI h1 h2 h3 h4 np h5 pn')
qed

text \<open>
  The claim as stated fails: the precondition on the allocation detail is not enough.
  This scheduler lists one allocation whose entry is nil (a \<^verbatim>\<open>null\<close> in the answered
  list); every allocation detail it gives has a first network with a dynamic port, and
  \<^verbatim>\<open>fetchMachine\<close> panics at \<^verbatim>\<open>l[0].NodeID\<close>, before it asks for any detail.
\<close>

theorem fetchMachine_panic_free_counterexample:
  "(\<forall>t aid. Allocations_Info
              (client (example_config\<lparr>client := example_scheduler
                 \<lparr>Jobs_Allocations := \<lambda>t i. Inr [None]\<rparr>\<rparr>)) t aid
         = (if aid = ''a1''
            then Inr (Some (allocation_with [\<lparr>Label = ''k3vq8zb1m0xw7t2ld5ra'', Value = 27017\<rparr>]))
            else Inl ''alloc not found''))
   \<and> has_first_port (allocation_with [\<lparr>Label = ''k3vq8zb1m0xw7t2ld5ra'', Value = 27017\<rparr>])
   \<and> fetchMachine
        (example_config\<lparr>client := example_scheduler\<lparr>Jobs_Allocations := \<lambda>t i. Inr [None]\<rparr>\<rparr>)
        [] [] ''init_job_resources_vm1''
       = ([Rpc Inline (JobsAllocations ''init_job_resources_vm1'')],
          Panic ''runtime error: invalid memory address or nil pointer dereference'')"
  by (simp add: fetchMachine_def Let_def example_config_def example_scheduler_def
        has_first_port_def networks_of_def allocation_with_def nil_dereference_def)

subsection \<open>Destroy: failures\<close>

text \<open>The poll loop of \<^verbatim>\<open>Destroy\<close> when the job is never seen dead, and when it is.\<close>

lemma pollLoop_never_dead:
  assumes "list_all readable rs" and "\<not> list_ex (shows_status d [Dead]) rs"
  shows "\<exists>tr'. pollLoop d logr i [Dead, Dead] rs tr job w
                 = (tr', Return (if rs = [] then job
                                 else (case last rs of InfoJob j qm \<Rightarrow> Some j | _ \<Rightarrow> None),
                                 False))
              \<and> rpcs tr' = rpcs tr @ poll_queries i w rs"
  using assms
proof (induction rs arbitrary: tr job w)
  case Nil
  then show ?case by simp
next
  case (Cons r rs)
  from Cons.prems have ra: "list_all readable rs" and nd: "\<not> list_ex (shows_status d [Dead]) rs"
    by simp_all
  note IH = Cons.IH [OF ra nd]
  show ?case
  proof (cases r)
    case (InfoError e)
    from IH [of "tr @ [Rpc Inline (JobsInfo i (15 * Second) w),
                       Log ErrorLevel (logr @ [(''error'', FErr e), (''job_id'', FStr i)])
                         ''could not retrieve job information'']" None w]
    show ?thesis using InfoError by (auto simp: Let_def)
  next
    case InfoNil
    from IH [of "tr @ [Rpc Inline (JobsInfo i (15 * Second) w)]" None w]
    show ?thesis using InfoNil by (auto simp: Let_def)
  next
    case (InfoJob j qm)
    with Cons.prems obtain k s where qm: "qm = Some k" and s: "Status j = Some s"
      and nd': "Status_of d s \<noteq> Dead"
      by (auto simp: readable_def shows_status_def)
    from IH [of "tr @ [Rpc Inline (JobsInfo i (15 * Second) w)]" "Some j" k]
    show ?thesis using InfoJob qm s nd' by (auto simp: Let_def)
  qed
qed

lemma pollLoop_sees_dead:
  assumes "list_ex (shows_status d [Dead]) rs" and "list_all readable (until_dead d rs)"
  shows "\<exists>tr' j. pollLoop d logr i [Dead, Dead] rs tr job w = (tr', Return (Some j, True))
              \<and> rpcs tr' = rpcs tr @ poll_queries i w (until_dead d rs)"
  using assms
proof (induction rs arbitrary: tr job w)
  case Nil
  then show ?case by simp
next
  case (Cons r rs)
  show ?case
  proof (cases "shows_status d [Dead] r")
    case True
    then obtain j qm s where r: "r = InfoJob j qm" and s: "Status j = Some s" "Status_of d s = Dead"
      by (auto simp: shows_status_def split: info_response.splits option.splits)
    from Cons.prems True r obtain k where qm: "qm = Some k"
      by (auto simp: readable_def)
    show ?thesis using True r s qm by (simp add: Let_def)
  next
    case False
    with Cons.prems have ex: "list_ex (shows_status d [Dead]) rs"
      and ra: "list_all readable (until_dead d rs)" and rr: "readable r"
      by simp_all
    note IH = Cons.IH [OF ex ra]
    show ?thesis
    proof (cases r)
      case (InfoError e)
      from IH [of "tr @ [Rpc Inline (JobsInfo i (15 * Second) w),
                       Log ErrorLevel (logr @ [(''error'', FErr e), (''job_id'', FStr i)])
                         ''could not retrieve job information'']" None w]
      show ?thesis using InfoError False by (auto simp: Let_def)
    next
      case InfoNil
      from IH [of "tr @ [Rpc Inline (JobsInfo i (15 * Second) w)]" None w]
      show ?thesis using InfoNil False by (auto simp: Let_def)
    next
      case (InfoJob j qm)
      with rr False obtain k s where qm: "qm = Some k" and s: "Status j = Some s"
        and nd': "Status_of d s \<noteq> Dead"
        by (auto simp: readable_def shows_status_def)
      from IH [of "tr @ [Rpc Inline (JobsInfo i (15 * Second) w)]" "Some j" k]
      show ?thesis using InfoJob qm s nd' False by (auto simp: Let_def)
    qed
  qed
qed

lemma pollForJob_never_dead:
  assumes "Jobs_Info (client p) tr ctx timeout i = rs" and "never_dead d rs"
  shows "\<exists>tr' job. pollForJob d p tr ctx i logr timeout False [Dead]
                     = (tr', Return (job, Some (poll_error rs)))
              \<and> rpcs tr' = rpcs tr @ poll_queries i 0 rs"
proof -
  from assms(2) have ra: "list_all readable rs" and nd: "\<not> list_ex (shows_status d [Dead]) rs"
    by (simp_all add: never_dead_def)
  from pollLoop_never_dead [OF ra nd, of logr i tr None 0] obtain tr' where
    l: "pollLoop d logr i [Dead, Dead] rs tr None 0
          = (tr', Return (if rs = [] then None
                          else (case last rs of InfoJob j qm \<Rightarrow> Some j | _ \<Rightarrow> None), False))"
    and r: "rpcs tr' = rpcs tr @ poll_queries i 0 rs"
    by blast
  show ?thesis
  proof (cases "rs \<noteq> [] \<and> (case last rs of InfoJob j qm \<Rightarrow> True | _ \<Rightarrow> False)")
    case True
    then obtain j qm where la: "last rs = InfoJob j qm" and ne: "rs \<noteq> []"
      by (auto split: info_response.splits)
    have "pollLoop d logr i ([Dead] @ [Dead]) (Jobs_Info (client p) tr ctx timeout i) tr None 0
            = (tr', Return (Some j, False))"
      using l la ne assms(1) by simp
    from pollForJob_timeout [OF this, of False] r True show ?thesis
      by (simp add: poll_error_def)
  next
    case False
    then have "(if rs = [] then None
                else (case last rs of InfoJob j qm \<Rightarrow> Some j | _ \<Rightarrow> None)) = None"
      by (auto split: info_response.splits)
    with l have "pollLoop d logr i ([Dead] @ [Dead]) (Jobs_Info (client p) tr ctx timeout i) tr None 0
            = (tr', Return (None, False))"
      using assms(1) by simp
    from pollForJob_None [OF this, of False] r False show ?thesis
      by (simp add: poll_error_def)
  qed
qed

lemma pollForJob_sees_dead:
  assumes "Jobs_Info (client p) tr ctx timeout i = rs" and "sees_dead d rs"
  shows "\<exists>tr' j. pollForJob d p tr ctx i logr timeout False [Dead] = (tr', Return (Some j, None))
              \<and> rpcs tr' = rpcs tr @ poll_queries i 0 (until_dead d rs)"
proof -
  from assms(2) have ex: "list_ex (shows_status d [Dead]) rs"
    and ra: "list_all readable (until_dead d rs)"
    by (simp_all add: sees_dead_def)
  from pollLoop_sees_dead [OF ex ra, of logr i tr None 0] obtain tr' j where
    l: "pollLoop d logr i [Dead, Dead] rs tr None 0 = (tr', Return (Some j, True))"
    and r: "rpcs tr' = rpcs tr @ poll_queries i 0 (until_dead d rs)"
    by blast
  have "pollLoop d logr i ([Dead] @ [Dead]) (Jobs_Info (client p) tr ctx timeout i) tr None 0
            = (tr', Return (Some j, True))"
    using l assms(1) by simp
  from pollForJob_terminal [OF this, of False] r show ?thesis by simp
qed

lemma snd_deregisterJob:
  "snd (deregisterJob p tr logr i purge) =
     Jobs_Deregister (client p)
       (tr @ [Log TraceLevel (logr @ [(''job_id'', FStr i), (''purge'', FBool purge)])
                ''scheduler: trying to deregister job'']) i True"
  by (simp add: deregisterJob_def Let_def split: option.splits)

text \<open>
  Claim C8 (what \<^verbatim>\<open>Destroy\<close> does on failures). For every instance, scheduler and run:
  the first two calls are the deregistration of the reservation and the registration
  of the destroy job, whatever the deregistration answers, and the outcome of the
  deregistration is logged (at error level, with the error, when it failed). If the
  registration fails with \<open>e\<close>, \<^verbatim>\<open>Destroy\<close> returns \<open>e\<close> and makes no further call. If it
  succeeds, the destroy job is polled, under the caller's context with the destroy
  timeout: the calls that follow are the status queries of the destroy job, one per
  answer. When the answers never show the job dead, \<^verbatim>\<open>Destroy\<close> returns the poller's
  error and the only deregistration of the run is the reservation's: no deregistration
  of the destroy job follows the queries (the poll runs with \<^verbatim>\<open>remove\<close> false). When
  an answer shows the job dead, the queries stop there and \<^verbatim>\<open>Destroy\<close> goes on with the
  remaining instances (it returns nil when there is none).
\<close>

theorem Destroy_failure_semantics:
  "prefix (rpcs tr @ [(Inline, JobsDeregister (resourceJobID (inst_ID inst)) True),
                      (Inline, JobsRegister (fst (destroy_template d p tr inst)))])
     (rpcs (fst (Destroy d p tr ctx (inst # rest))))
   \<and> (case snd (deregisterJob p
                  (tr @ [Log DebugLevel
                           (destroy_logger ctx inst (snd (destroy_template d p tr inst)))
                           ''scheduler: freeing up resources ... ''])
                  (destroy_logger ctx inst (snd (destroy_template d p tr inst)))
                  (resourceJobID (inst_ID inst)) True) of
         None \<Rightarrow> Log DebugLevel (destroy_logger ctx inst (snd (destroy_template d p tr inst)))
                  ''scheduler: freed up resources''
       | Some e' \<Rightarrow>
           Log ErrorLevel
             (destroy_logger ctx inst (snd (destroy_template d p tr inst))
                @ [(''error'', FErr e')])
             ''scheduler: could not free up resources'')
       \<in> set (fst (Destroy d p tr ctx (inst # rest)))
   \<and> ((\<forall>t. Jobs_Register (client p) t (fst (destroy_template d p tr inst)) = Some e) \<longrightarrow>
        snd (Destroy d p tr ctx (inst # rest)) = Return (Some e)
        \<and> rpcs (fst (Destroy d p tr ctx (inst # rest)))
            = rpcs tr @ [(Inline, JobsDeregister (resourceJobID (inst_ID inst)) True),
                         (Inline, JobsRegister (fst (destroy_template d p tr inst)))])
   \<and> ((\<forall>t. Jobs_Register (client p) t (fst (destroy_template d p tr inst)) = None)
        \<and> (\<forall>t. Jobs_Info (client p) t ctx destroyTimeout (snd (destroy_template d p tr inst)) = rs)
        \<and> never_dead d rs \<longrightarrow>
        snd (Destroy d p tr ctx (inst # rest)) = Return (Some (poll_error rs))
        \<and> rpcs (fst (Destroy d p tr ctx (inst # rest)))
            = rpcs tr @ [(Inline, JobsDeregister (resourceJobID (inst_ID inst)) True),
                         (Inline, JobsRegister (fst (destroy_template d p tr inst)))]
                @ poll_queries (snd (destroy_template d p tr inst)) 0 rs
        \<and> deregistrations (fst (Destroy d p tr ctx (inst # rest)))
            = deregistrations tr @ [(Inline, resourceJobID (inst_ID inst), True)])
   \<and> ((\<forall>t. Jobs_Register (client p) t (fst (destroy_template d p tr inst)) = None)
        \<and> (\<forall>t. Jobs_Info (client p) t ctx destroyTimeout (snd (destroy_template d p tr inst)) = rs)
        \<and> sees_dead d rs \<longrightarrow>
        (\<exists>t. Destroy d p tr ctx (inst # rest) = Destroy d p t ctx rest
            \<and> rpcs t
                = rpcs tr @ [(Inline, JobsDeregister (resourceJobID (inst_ID inst)) True),
                             (Inline, JobsRegister (fst (destroy_template d p tr inst)))]
                    @ poll_queries (snd (destroy_template d p tr inst)) 0 (until_dead d rs)))"
proof -
  define job where "job = fst (destroy_template d p tr inst)"
  define jobID where "jobID = snd (destroy_template d p tr inst)"
  define res where "res = resourceJobID (inst_ID inst)"
  define logr where "logr = destroy_logger ctx inst jobID"
  define dj where "dj = deregisterJob p
     (tr @ [Log DebugLevel logr ''scheduler: freeing up resources ... '']) logr res True"
  define l3 where "l3 = (case snd dj of
                       None \<Rightarrow> Log DebugLevel logr ''scheduler: freed up resources''
                     | Some e \<Rightarrow> Log ErrorLevel (logr @ [(''error'', FErr e)])
                                   ''scheduler: could not free up resources'')"
  define tr4 where "tr4 = fst dj @ [l3,
                     Log InfoLevel logr ''scheduler: freed up resources, submitting destroy job'']"
  define tr5 where "tr5 = tr4 @ [Rpc Inline (JobsRegister job),
                            Log DebugLevel logr ''scheduler: started polling for destroy job'']"
  let ?D = "Destroy d p tr ctx (inst # rest)"
  let ?P = "pollForJob d p tr5 ctx jobID logr destroyTimeout False [Dead]"
  let ?head = "[(Inline, JobsDeregister res True), (Inline, JobsRegister job)]"
  have D: "?D =
      (case Jobs_Register (client p) tr4 job of
           Some e \<Rightarrow>
             (tr4 @ [Rpc Inline (JobsRegister job),
                     Log ErrorLevel (logr @ [(''error'', FErr e)])
                       ''scheduler: could not register destroy job''],
              Return (Some e))
         | None \<Rightarrow>
            (case ?P of
               (tr6, Panic m) \<Rightarrow> (tr6, Panic m)
             | (tr6, Return (_, Some e)) \<Rightarrow>
                 (tr6 @ [Log ErrorLevel (logr @ [(''error'', FErr e)])
                           ''scheduler: could not complete destroy job''],
                  Return (Some e))
             | (tr6, Return (_, None)) \<Rightarrow> Destroy d p tr6 ctx rest))"
    unfolding Destroy_Cons job_def jobID_def res_def logr_def dj_def l3_def tr4_def tr5_def Let_def
    by (rule refl)
  have l3r: "rpcs [l3] = []"
    by (simp add: l3_def split: option.splits)
  have r4: "rpcs tr4 = rpcs tr @ [(Inline, JobsDeregister res True)]"
  proof -
    have "rpcs ([l3] @ [Log InfoLevel logr ''scheduler: freed up resources, submitting destroy job''])
            = []"
      unfolding rpcs_append using l3r by simp
    then show ?thesis
      by (simp add: tr4_def dj_def rpcs_deregisterJob)
  qed
  have r5: "rpcs tr5 = rpcs tr @ ?head"
    using r4 by (simp add: tr5_def)
  have d4: "deregistrations tr4 = deregistrations tr @ [(Inline, res, True)]"
  proof -
    have "deregistrations [l3] = []"
      using l3r by (rule log_no_deregistration)
    then have "deregistrations
        ([l3] @ [Log InfoLevel logr ''scheduler: freed up resources, submitting destroy job'']) = []"
      unfolding deregistrations_append by simp
    then show ?thesis
      by (simp add: tr4_def dj_def deregistrations_deregisterJob)
  qed
  have m4: "l3 \<in> set tr4" by (simp add: tr4_def)
  have p4: "prefix tr4 tr5" by (simp add: tr5_def prefix_def)
  have c1: "prefix (rpcs tr @ ?head) (rpcs (fst ?D))"
    using rpcs_Destroy_head [of tr inst d p ctx rest] by (simp add: res_def job_def)
  have pD: "prefix tr4 (fst ?D)"
  proof (cases "Jobs_Register (client p) tr4 job")
    case (Some e)
    with D show ?thesis by (simp add: prefix_def)
  next
    case None
    have p5: "prefix tr5 (fst ?P)"
      by (rule prefix_pollForJob)
    obtain tr6 out where po: "?P = (tr6, out)" by (cases ?P) auto
    with p5 p4 have p6: "prefix tr4 tr6" by (auto intro: prefix_order.trans)
    show ?thesis
    proof (cases out)
      case (Panic m)
      with D None po p6 show ?thesis by simp
    next
      case (Return je)
      obtain j err where je: "je = (j, err)" by (cases je) auto
      show ?thesis
      proof (cases err)
        case (Some e)
        with D None po Return je p6 show ?thesis by (simp add: prefix_snoc)
      next
        case None': None
        have "fst ?D = fst (Destroy d p tr6 ctx rest)"
          using D None po Return je None' by simp
        moreover have "prefix tr6 (fst (Destroy d p tr6 ctx rest))" by (rule prefix_Destroy)
        ultimately show ?thesis using p6 by (auto intro: prefix_order.trans)
      qed
    qed
  qed
  have c2: "l3 \<in> set (fst ?D)"
    using m4 pD by (auto simp: prefix_def)
  have c3: "(\<forall>t. Jobs_Register (client p) t job = Some e) \<longrightarrow>
        snd ?D = Return (Some e) \<and> rpcs (fst ?D) = rpcs tr @ ?head"
  proof
    assume "\<forall>t. Jobs_Register (client p) t job = Some e"
    then have "Jobs_Register (client p) tr4 job = Some e" by simp
    with D r4 show "snd ?D = Return (Some e) \<and> rpcs (fst ?D) = rpcs tr @ ?head"
      by simp
  qed
  have c4: "(\<forall>t. Jobs_Register (client p) t job = None)
        \<and> (\<forall>t. Jobs_Info (client p) t ctx destroyTimeout jobID = rs)
        \<and> never_dead d rs \<longrightarrow>
        snd ?D = Return (Some (poll_error rs))
        \<and> rpcs (fst ?D) = rpcs tr @ ?head @ poll_queries jobID 0 rs
        \<and> deregistrations (fst ?D) = deregistrations tr @ [(Inline, res, True)]"
  proof (intro impI, elim conjE)
    assume reg: "\<forall>t. Jobs_Register (client p) t job = None"
      and info: "\<forall>t. Jobs_Info (client p) t ctx destroyTimeout jobID = rs"
      and nd: "never_dead d rs"
    from reg have R: "Jobs_Register (client p) tr4 job = None" by simp
    from info have I: "Jobs_Info (client p) tr5 ctx destroyTimeout jobID = rs" by simp
    from pollForJob_never_dead [OF I nd, of logr] obtain tr6 j where
      po: "?P = (tr6, Return (j, Some (poll_error rs)))"
      and r6: "rpcs tr6 = rpcs tr5 @ poll_queries jobID 0 rs"
      by blast
    have d6: "deregistrations tr6 = deregistrations tr @ [(Inline, res, True)]"
      using deregistrations_pollForJob_keep [of d p tr5 ctx jobID logr destroyTimeout "[Dead]"] po d4
      by (simp add: tr5_def)
    from D R po r6 r5 d6
    show "snd ?D = Return (Some (poll_error rs))
        \<and> rpcs (fst ?D) = rpcs tr @ ?head @ poll_queries jobID 0 rs
        \<and> deregistrations (fst ?D) = deregistrations tr @ [(Inline, res, True)]"
      by simp
  qed
  have c5: "(\<forall>t. Jobs_Register (client p) t job = None)
        \<and> (\<forall>t. Jobs_Info (client p) t ctx destroyTimeout jobID = rs)
        \<and> sees_dead d rs \<longrightarrow>
        (\<exists>t. ?D = Destroy d p t ctx rest
            \<and> rpcs t = rpcs tr @ ?head @ poll_queries jobID 0 (until_dead d rs))"
  proof (intro impI, elim conjE)
    assume reg: "\<forall>t. Jobs_Register (client p) t job = None"
      and info: "\<forall>t. Jobs_Info (client p) t ctx destroyTimeout jobID = rs"
      and sd: "sees_dead d rs"
    from reg have R: "Jobs_Register (client p) tr4 job = None" by simp
    from info have I: "Jobs_Info (client p) tr5 ctx destroyTimeout jobID = rs" by simp
    from pollForJob_sees_dead [OF I sd, of logr] obtain tr6 j where
      po: "?P = (tr6, Return (Some j, None))"
      and r6: "rpcs tr6 = rpcs tr5 @ poll_queries jobID 0 (until_dead d rs)"
      by blast
    from D R po have "?D = Destroy d p tr6 ctx rest" by simp
    with r6 r5 show "\<exists>t. ?D = Destroy d p t ctx rest
            \<and> rpcs t = rpcs tr @ ?head @ poll_queries jobID 0 (until_dead d rs)"
      by (intro exI [of _ tr6]) simp
  qed
  from c1 c2 c3 c4 c5 show ?thesis
    unfolding l3_def dj_def logr_def jobID_def job_def res_def by (intro conjI)
qed

text \<open>
  Three schedulers. The first fails the deregistration of the reservation and the
  registration of the destroy job. The second accepts both and answers the status
  queries of the destroy job, made with the destroy timeout, by running, an error, and
  running again until the timeout. The third is the scheduler of the specification's
  fourth scenario: the reservation is unknown to it, the destroy job is registered and
  seen dead at once.
\<close>

theorem Destroy_failure_semantics_witness:
  "(\<forall>t. Jobs_Register
          (client (example_config\<lparr>client := example_scheduler
             \<lparr>Jobs_Register := \<lambda>t j. Some ''connection refused'',
              Jobs_Deregister := \<lambda>t i purge. Some ''job not found''\<rparr>\<rparr>))
          t (fst (destroyJob ''k3vq8zb1m0xw7t2ld5ra'' ''k3vq8zb1m0xw7t2ld5ra'' ''n1''))
        = Some ''connection refused'')
   \<and> snd (Destroy example_package
        (example_config\<lparr>client := example_scheduler
             \<lparr>Jobs_Register := \<lambda>t j. Some ''connection refused'',
              Jobs_Deregister := \<lambda>t i purge. Some ''job not found''\<rparr>\<rparr>)
        [] Background [example_instance])
       = Return (Some ''connection refused'')
   \<and> rpcs (fst (Destroy example_package
        (example_config\<lparr>client := example_scheduler
             \<lparr>Jobs_Register := \<lambda>t j. Some ''connection refused'',
              Jobs_Deregister := \<lambda>t i purge. Some ''job not found''\<rparr>\<rparr>)
        [] Background [example_instance]))
       = [(Inline, JobsDeregister ''init_job_resources_k3vq8zb1m0xw7t2ld5ra'' True),
          (Inline, JobsRegister
             (fst (destroyJob ''k3vq8zb1m0xw7t2ld5ra'' ''k3vq8zb1m0xw7t2ld5ra'' ''n1'')))]
   \<and> Log ErrorLevel
         (destroy_logger Background example_instance ''destroy_job_k3vq8zb1m0xw7t2ld5ra''
            @ [(''error'', FErr ''job not found'')])
         ''scheduler: could not free up resources''
       \<in> set (fst (Destroy example_package
        (example_config\<lparr>client := example_scheduler
             \<lparr>Jobs_Register := \<lambda>t j. Some ''connection refused'',
              Jobs_Deregister := \<lambda>t i purge. Some ''job not found''\<rparr>\<rparr>)
        [] Background [example_instance]))
   \<and> (\<forall>t. Jobs_Register
          (client (example_config\<lparr>client := example_scheduler
             \<lparr>Jobs_Info := \<lambda>t c timeout i.
                if i = ''destroy_job_k3vq8zb1m0xw7t2ld5ra'' \<and> timeout = destroyTimeout
                then [InfoJob (job_in ''running'') (Some 3), InfoError ''connection refused'',
                      InfoJob (job_in ''running'') (Some 4)]
                else []\<rparr>\<rparr>))
          t (fst (destroyJob ''k3vq8zb1m0xw7t2ld5ra'' ''k3vq8zb1m0xw7t2ld5ra'' ''n1''))
        = None)
   \<and> (\<forall>t. Jobs_Info
          (client (example_config\<lparr>client := example_scheduler
             \<lparr>Jobs_Info := \<lambda>t c timeout i.
                if i = ''destroy_job_k3vq8zb1m0xw7t2ld5ra'' \<and> timeout = destroyTimeout
                then [InfoJob (job_in ''running'') (Some 3), InfoError ''connection refused'',
                      InfoJob (job_in ''running'') (Some 4)]
                else []\<rparr>\<rparr>))
          t Background destroyTimeout ''destroy_job_k3vq8zb1m0xw7t2ld5ra''
        = [InfoJob (job_in ''running'') (Some 3), InfoError ''connection refused'',
           InfoJob (job_in ''running'') (Some 4)])
   \<and> never_dead example_package
        [InfoJob (job_in ''running'') (Some 3), InfoError ''connection refused'',
         InfoJob (job_in ''running'') (Some 4)]
   \<and> snd (Destroy example_package
        (example_config\<lparr>client := example_scheduler
             \<lparr>Jobs_Info := \<lambda>t c timeout i.
                if i = ''destroy_job_k3vq8zb1m0xw7t2ld5ra'' \<and> timeout = destroyTimeout
                then [InfoJob (job_in ''running'') (Some 3), InfoError ''connection refused'',
                      InfoJob (job_in ''running'') (Some 4)]
                else []\<rparr>\<rparr>)
        [] Background [example_instance])
       = Return (Some ''scheduler: job never reached terminal state'')
   \<and> rpcs (fst (Destroy example_package
        (example_config\<lparr>client := example_scheduler
             \<lparr>Jobs_Info := \<lambda>t c timeout i.
                if i = ''destroy_job_k3vq8zb1m0xw7t2ld5ra'' \<and> timeout = destroyTimeout
                then [InfoJob (job_in ''running'') (Some 3), InfoError ''connection refused'',
                      InfoJob (job_in ''running'') (Some 4)]
                else []\<rparr>\<rparr>)
        [] Background [example_instance]))
       = [(Inline, JobsDeregister ''init_job_resources_k3vq8zb1m0xw7t2ld5ra'' True),
          (Inline, JobsRegister
             (fst (destroyJob ''k3vq8zb1m0xw7t2ld5ra'' ''k3vq8zb1m0xw7t2ld5ra'' ''n1''))),
          (Inline, JobsInfo ''destroy_job_k3vq8zb1m0xw7t2ld5ra'' (15 * Second) 0),
          (Inline, JobsInfo ''destroy_job_k3vq8zb1m0xw7t2ld5ra'' (15 * Second) 3),
          (Inline, JobsInfo ''destroy_job_k3vq8zb1m0xw7t2ld5ra'' (15 * Second) 3)]
   \<and> deregistrations (fst (Destroy example_package
        (example_config\<lparr>client := example_scheduler
             \<lparr>Jobs_Info := \<lambda>t c timeout i.
                if i = ''destroy_job_k3vq8zb1m0xw7t2ld5ra'' \<and> timeout = destroyTimeout
                then [InfoJob (job_in ''running'') (Some 3), InfoError ''connection refused'',
                      InfoJob (job_in ''running'') (Some 4)]
                else []\<rparr>\<rparr>)
        [] Background [example_instance]))
       = [(Inline, ''init_job_resources_k3vq8zb1m0xw7t2ld5ra'', True)]
   \<and> (\<forall>t. Jobs_Register
          (client (example_config\<lparr>client := example_scheduler
             \<lparr>Jobs_Deregister := \<lambda>t i purge. Some ''job not found''\<rparr>\<rparr>))
          t (fst (destroyJob ''k3vq8zb1m0xw7t2ld5ra'' ''k3vq8zb1m0xw7t2ld5ra'' ''n1''))
        = None)
   \<and> (\<forall>t. Jobs_Info
          (client (example_config\<lparr>client := example_scheduler
             \<lparr>Jobs_Deregister := \<lambda>t i purge. Some ''job not found''\<rparr>\<rparr>))
          t Background destroyTimeout ''destroy_job_k3vq8zb1m0xw7t2ld5ra''
        = [InfoJob (job_in ''dead'') (Some 9)])
   \<and> sees_dead example_package [InfoJob (job_in ''dead'') (Some 9)]
   \<and> snd (Destroy example_package
        (example_config\<lparr>client := example_scheduler
             \<lparr>Jobs_Deregister := \<lambda>t i purge. Some ''job not found''\<rparr>\<rparr>)
        [] Background [example_instance])
       = Return None
   \<and> rpcs (fst (Destroy example_package
        (example_config\<lparr>client := example_scheduler
             \<lparr>Jobs_Deregister := \<lambda>t i purge. Some ''job not found''\<rparr>\<rparr>)
        [] Background [example_instance]))
       = [(Inline, JobsDeregister ''init_job_resources_k3vq8zb1m0xw7t2ld5ra'' True),
          (Inline, JobsRegister
             (fst (destroyJob ''k3vq8zb1m0xw7t2ld5ra'' ''k3vq8zb1m0xw7t2ld5ra'' ''n1''))),
          (Inline, JobsInfo ''destroy_job_k3vq8zb1m0xw7t2ld5ra'' (15 * Second) 0)]
   \<and> Log ErrorLevel
         (destroy_logger Background example_instance ''destroy_job_k3vq8zb1m0xw7t2ld5ra''
            @ [(''error'', FErr ''job not found'')])
         ''scheduler: could not free up resources''
       \<in> set (fst (Destroy example_package
        (example_config\<lparr>client := example_scheduler
             \<lparr>Jobs_Deregister := \<lambda>t i purge. Some ''job not found''\<rparr>\<rparr>)
        [] Background [example_instance]))"
proof -
  let ?vm = "''k3vq8zb1m0xw7t2ld5ra''"
  let ?jid = "''destroy_job_k3vq8zb1m0xw7t2ld5ra''"
  let ?rs = "[InfoJob (job_in ''running'') (Some 3), InfoError ''connection refused'',
              InfoJob (job_in ''running'') (Some 4)]"
  let ?rd = "[InfoJob (job_in ''dead'') (Some 9)]"
  let ?pA = "example_config\<lparr>client := example_scheduler
             \<lparr>Jobs_Register := \<lambda>t j. Some ''connection refused'',
              Jobs_Deregister := \<lambda>t i purge. Some ''job not found''\<rparr>\<rparr>"
  let ?pB = "example_config\<lparr>client := example_scheduler
             \<lparr>Jobs_Info := \<lambda>t c timeout i.
                if i = ?jid \<and> timeout = destroyTimeout then ?rs else []\<rparr>\<rparr>"
  let ?pC = "example_config\<lparr>client := example_scheduler
             \<lparr>Jobs_Deregister := \<lambda>t i purge. Some ''job not found''\<rparr>\<rparr>"
  let ?job = "fst (destroyJob ?vm ?vm ''n1'')"
  let ?DA = "Destroy example_package ?pA [] Background [example_instance]"
  let ?DB = "Destroy example_package ?pB [] Background [example_instance]"
  let ?DC = "Destroy example_package ?pC [] Background [example_instance]"
  let ?elog = "Log ErrorLevel
         (destroy_logger Background example_instance ?jid @ [(''error'', FErr ''job not found'')])
         ''scheduler: could not free up resources''"
  let ?head = "[(Inline, JobsDeregister ''init_job_resources_k3vq8zb1m0xw7t2ld5ra'' True),
               (Inline, JobsRegister ?job)]"
  have tplA: "destroy_template example_package ?pA [] example_instance = destroyJob ?vm ?vm ''n1''"
    and tplB: "destroy_template example_package ?pB [] example_instance = destroyJob ?vm ?vm ''n1''"
    and tplC: "destroy_template example_package ?pC [] example_instance = destroyJob ?vm ?vm ''n1''"
    by (simp_all add: destroy_template_def example_config_def example_package_def
          example_instance_def)
  have jid: "snd (destroyJob ?vm ?vm ''n1'') = ?jid"
    by (simp add: destroyJob_def Let_def job_ids)
  have iid: "inst_ID example_instance = ?vm" by (simp add: example_instance_def)
  have rid: "resourceJobID (inst_ID example_instance) = ''init_job_resources_k3vq8zb1m0xw7t2ld5ra''"
    by (simp add: iid job_ids)
  have regA: "\<forall>t. Jobs_Register (client ?pA) t ?job = Some ''connection refused''"
    and regB: "\<forall>t. Jobs_Register (client ?pB) t ?job = None"
    and regC: "\<forall>t. Jobs_Register (client ?pC) t ?job = None"
    and infoB: "\<forall>t. Jobs_Info (client ?pB) t Background destroyTimeout ?jid = ?rs"
    by (simp_all add: example_config_def example_scheduler_def)
  have infoC: "\<forall>t. Jobs_Info (client ?pC) t Background destroyTimeout ?jid = ?rd"
    by (simp add: example_config_def example_scheduler_def)
  have nd: "never_dead example_package ?rs"
    by (simp add: never_dead_def readable_def shows_status_def job_in_def example_package_def)
  have sd: "sees_dead example_package ?rd"
    by (simp add: sees_dead_def readable_def shows_status_def job_in_def example_package_def)
  have pe: "poll_error ?rs = ''scheduler: job never reached terminal state''"
    by (simp add: poll_error_def)
  have ud: "until_dead example_package ?rd = ?rd"
    by (simp add: shows_status_def job_in_def example_package_def)
  have djA: "snd (deregisterJob ?pA
                      ([] @ [Log DebugLevel
                               (destroy_logger Background example_instance ?jid)
                               ''scheduler: freeing up resources ... ''])
                      (destroy_logger Background example_instance ?jid)
                      ''init_job_resources_k3vq8zb1m0xw7t2ld5ra'' True) = Some ''job not found''"
    and djC: "snd (deregisterJob ?pC
                      ([] @ [Log DebugLevel
                               (destroy_logger Background example_instance ?jid)
                               ''scheduler: freeing up resources ... ''])
                      (destroy_logger Background example_instance ?jid)
                      ''init_job_resources_k3vq8zb1m0xw7t2ld5ra'' True) = Some ''job not found''"
    by (simp_all add: snd_deregisterJob example_config_def example_scheduler_def)
  note A = Destroy_failure_semantics [of "[]" example_instance example_package ?pA Background "[]"
             "''connection refused''" "[]", unfolded tplA jid rid]
  note B = Destroy_failure_semantics [of "[]" example_instance example_package ?pB Background "[]"
             "''x''" ?rs, unfolded tplB jid rid]
  note C = Destroy_failure_semantics [of "[]" example_instance example_package ?pC Background "[]"
             "''x''" ?rd, unfolded tplC jid rid]
  have a2: "?elog \<in> set (fst ?DA)"
    using conjunct1 [OF conjunct2 [OF A]] unfolding djA by simp
  have a34: "snd ?DA = Return (Some ''connection refused'') \<and> rpcs (fst ?DA) = ?head"
    using conjunct1 [OF conjunct2 [OF conjunct2 [OF A]]] regA by simp
  have b: "snd ?DB = Return (Some ''scheduler: job never reached terminal state'')
        \<and> rpcs (fst ?DB) = ?head @ poll_queries ?jid 0 ?rs
        \<and> deregistrations (fst ?DB) = [(Inline, ''init_job_resources_k3vq8zb1m0xw7t2ld5ra'', True)]"
    using conjunct1 [OF conjunct2 [OF conjunct2 [OF conjunct2 [OF B]]]] regB infoB nd pe by simp
  have c2: "?elog \<in> set (fst ?DC)"
    using conjunct1 [OF conjunct2 [OF C]] unfolding djC by simp
  have c: "\<exists>t. ?DC = Destroy example_package ?pC t Background []
            \<and> rpcs t = ?head @ poll_queries ?jid 0 (until_dead example_package ?rd)"
    using conjunct2 [OF conjunct2 [OF conjunct2 [OF conjunct2 [OF C]]]] regC infoC sd by simp
  then obtain t where t: "?DC = Destroy example_package ?pC t Background []"
    and rt: "rpcs t = ?head @ poll_queries ?jid 0 ?rd"
    unfolding ud by (elim exE conjE)
  have c34: "snd ?DC = Return None" "rpcs (fst ?DC) = ?head @ poll_queries ?jid 0 ?rd"
    unfolding t using rt by (simp_all add: Destroy.simps)
  have a3: "snd ?DA = Return (Some ''connection refused'')" and a4: "rpcs (fst ?DA) = ?head"
    using a34 by simp_all
  have b1: "snd ?DB = Return (Some ''scheduler: job never reached terminal state'')"
    and b2: "rpcs (fst ?DB) = ?head @ [(Inline, JobsInfo ?jid (15 * Second) 0),
          (Inline, JobsInfo ?jid (15 * Second) 3), (Inline, JobsInfo ?jid (15 * Second) 3)]"
    and b3: "deregistrations (fst ?DB) = [(Inline, ''init_job_resources_k3vq8zb1m0xw7t2ld5ra'', True)]"
    using b by simp_all
  have c4: "rpcs (fst ?DC) = ?head @ [(Inline, JobsInfo ?jid (15 * Second) 0)]"
    using c34(2) by simp
  show ?thesis
    using regA a3 a4 a2 regB infoB nd b1 b2 b3 regC infoC sd c34(1) c4 c2
    by (intro conjI) simp_all
qed

end
